theory Spec2Isabelle
  imports Complex_Main "HOL-Library.Word"
begin

section \<open>JavaScript values\<close>

text \<open>
  The two scripts (\<^verbatim>\<open>script.js\<close>, here called version A, and
  \<^verbatim>\<open>backup/script.js\<close>, version B) work on the JSON document the backend
  returns and write strings into DOM elements. The embedding therefore starts with the
  part of ECMAScript they use: values as \<^verbatim>\<open>JSON.parse\<close> produces them,
  truthiness, \<^verbatim>\<open>typeof\<close>, property reads that throw on
  \<^verbatim>\<open>null\<close> and \<^verbatim>\<open>undefined\<close>, and the conversions to
  string and to number that template literals, \<^verbatim>\<open>>=\<close> and
  \<^verbatim>\<open>*\<close> apply.

  A string is a sequence of UTF-16 code units. A number is an IEEE 754 double:
  \<open>Fin x\<close> is the finite double whose exact value is the real \<open>x\<close>, beside
  \<^verbatim>\<open>NaN\<close> and the two infinities. A product and the value of a numeric
  string are rounded to the nearest double, ties to the even significand
  (\<open>round_double\<close>), and a number is printed as the shortest decimal that reads back as
  the same double. The number that \<^verbatim>\<open>JSON.parse\<close> yields for a numeral such
  as \<^verbatim>\<open>7.3\<close> is \<open>round_double (73 / 10)\<close>. Negative zero is not told
  apart from zero: the scripts print both alike.

  One run of \<^verbatim>\<open>analyzeUrl\<close> is modelled, from the click to the end of its
  \<^verbatim>\<open>finally\<close> block, with the answer of the network as an input. Runs that
  overlap, the registration of the event listeners and the print button are left out.
\<close>

type_synonym jsstring = "16 word list"

definition lit :: "string \<Rightarrow> jsstring" where
  "lit s = map of_char s"

definition emdash :: jsstring where
  "emdash = [0x2014]"

definition endash :: jsstring where
  "endash = [0x2013]"

definition ellipsis :: jsstring where
  "ellipsis = [0x2026]"

datatype jsnum = Fin real | NaN | PosInf | NegInf

datatype jsval =
    Undefined
  | Null
  | Bool bool
  | Num jsnum
  | Str jsstring
  | Arr "jsval list"
  | Obj "(jsstring \<times> jsval) list"

text \<open>A thrown value: every throw in the scripts is an \<^verbatim>\<open>Error\<close> object, of
  which only \<^verbatim>\<open>message\<close> is read.\<close>

datatype error = Error jsstring | TypeError jsstring | SyntaxError jsstring

fun message :: "error \<Rightarrow> jsstring" where
  "message (Error m) = m"
| "message (TypeError m) = m"
| "message (SyntaxError m) = m"

definition bnd :: "error + 'a \<Rightarrow> ('a \<Rightarrow> error + 'b) \<Rightarrow> error + 'b" where
  "bnd m f = (case m of Inl e \<Rightarrow> Inl e | Inr x \<Rightarrow> f x)"

text \<open>The messages of the engine's own \<^verbatim>\<open>TypeError\<close>s are engine-defined;
  the wording below is V8's, without the name of the property.\<close>

definition cannot_read :: "jsval \<Rightarrow> error" where
  "cannot_read v =
     TypeError (lit ''Cannot read properties of '' @
                (if v = Null then lit ''null'' else lit ''undefined''))"

definition not_a_function :: error where
  "not_a_function = TypeError (lit ''not a function'')"

definition cannot_convert :: error where
  "cannot_convert = TypeError (lit ''Cannot convert object to primitive value'')"

fun truthy :: "jsval \<Rightarrow> bool" where
  "truthy Undefined = False"
| "truthy Null = False"
| "truthy (Bool b) = b"
| "truthy (Num n) = (n \<noteq> Fin 0 \<and> n \<noteq> NaN)"
| "truthy (Str s) = (s \<noteq> [])"
| "truthy (Arr xs) = True"
| "truthy (Obj kvs) = True"


text \<open>
  \<open>getprop v k\<close> is the property read \<^verbatim>\<open>v.k\<close> for the data fields the scripts name
  and for \<^verbatim>\<open>length\<close>: an own property of an object, the length of a string
  or an array, \<^verbatim>\<open>undefined\<close> otherwise, and a \<^verbatim>\<open>TypeError\<close> on
  \<^verbatim>\<open>null\<close> and \<^verbatim>\<open>undefined\<close>. (None of the field names is a
  built-in member of a prototype; the built-in methods the scripts call have functions
  of their own below.)
\<close>

fun getprop :: "jsval \<Rightarrow> jsstring \<Rightarrow> error + jsval" where
  "getprop Undefined k = Inl (cannot_read Undefined)"
| "getprop Null k = Inl (cannot_read Null)"
| "getprop (Obj kvs) k = Inr (case map_of kvs k of None \<Rightarrow> Undefined | Some v \<Rightarrow> v)"
| "getprop (Str s) k = Inr (if k = lit ''length'' then Num (Fin (real (length s))) else Undefined)"
| "getprop (Arr xs) k = Inr (if k = lit ''length'' then Num (Fin (real (length xs))) else Undefined)"
| "getprop (Bool b) k = Inr Undefined"
| "getprop (Num n) k = Inr Undefined"

text \<open>A destructuring pattern \<^verbatim>\<open>const { k = d } = v\<close>: the default replaces
  \<^verbatim>\<open>undefined\<close> only.\<close>

definition field_or :: "jsval \<Rightarrow> jsstring \<Rightarrow> jsval \<Rightarrow> error + jsval" where
  "field_or v k d = bnd (getprop v k) (\<lambda>x. Inr (if x = Undefined then d else x))"

subsection \<open>Numbers\<close>

definition digit :: "nat \<Rightarrow> 16 word" where
  "digit d = of_nat (48 + d)"

function decimal :: "nat \<Rightarrow> jsstring" where
  "decimal n = (if n < 10 then [digit n] else decimal (n div 10) @ [digit (n mod 10)])"
  by pat_completeness auto
termination
  by (relation "measure id") auto

declare decimal.simps [simp del]

text \<open>Integer powers of two and of ten.\<close>

definition pow2 :: "int \<Rightarrow> real" where
  "pow2 e = (if 0 \<le> e then 2 ^ nat e else 1 / 2 ^ nat (- e))"

definition pow10 :: "int \<Rightarrow> real" where
  "pow10 e = (if 0 \<le> e then 10 ^ nat e else 1 / 10 ^ nat (- e))"

text \<open>
  The integer logarithm of a positive real to a base from 2 on: \<open>floor_log b x\<close> is the
  \<open>e\<close> with \<open>b\<^sup>e \<le> x < b\<^sup>e\<^sup>+\<^sup>1\<close>, found by dividing or multiplying by the base
  until the quotient lies between 1 and the base.
\<close>

function log_up :: "real \<Rightarrow> real \<Rightarrow> int \<Rightarrow> int" where
  "log_up b x e = (if 2 \<le> b \<and> b \<le> x then log_up b (x / b) (e + 1) else e)"
  by pat_completeness auto
termination
proof (relation "measure (\<lambda>(b, x, e). nat \<lceil>x\<rceil>)")
  fix b x :: real and e :: int
  assume h: "2 \<le> b \<and> b \<le> x"
  then have "x * 2 \<le> x * b" by (intro mult_left_mono) auto
  then have "x / b \<le> x / 2" using h by (simp add: field_simps)
  also have "\<dots> \<le> x - 1" using h by simp
  finally have "\<lceil>x / b\<rceil> \<le> \<lceil>x - 1\<rceil>" by (rule ceiling_mono)
  moreover have "0 < \<lceil>x\<rceil>" using h by simp
  ultimately show "((b, x / b, e + 1), (b, x, e)) \<in> measure (\<lambda>(b, x, e). nat \<lceil>x\<rceil>)"
    by simp
qed simp

function log_down :: "real \<Rightarrow> real \<Rightarrow> int \<Rightarrow> int" where
  "log_down b x e = (if 2 \<le> b \<and> 0 < x \<and> x < 1 then log_down b (x * b) (e - 1) else e)"
  by pat_completeness auto
termination
proof (relation "measure (\<lambda>(b, x, e). nat \<lceil>1 / x\<rceil>)")
  fix b x :: real and e :: int
  assume h: "2 \<le> b \<and> 0 < x \<and> x < 1"
  define y where "y = 1 / x"
  define z where "z = 1 / (x * b)"
  have y: "1 < y" using h by (simp add: y_def)
  have "x * 2 \<le> x * b" using h by (intro mult_left_mono) auto
  then have "1 / (x * b) \<le> 1 / (x * 2)" using h by (intro divide_left_mono) auto
  then have le: "z \<le> y / 2" by (simp add: y_def z_def)
  have "\<lceil>z\<rceil> < \<lceil>y\<rceil>"
  proof (cases "2 \<le> y")
    case True
    with le have "z \<le> y - 1" by linarith
    then have "\<lceil>z\<rceil> \<le> \<lceil>y - 1\<rceil>" by (rule ceiling_mono)
    then show ?thesis by simp
  next
    case False
    with le have "z \<le> 1" by linarith
    then have "\<lceil>z\<rceil> \<le> 1" by (simp add: ceiling_le_one)
    moreover have "1 < \<lceil>y\<rceil>" using y by (simp add: less_ceiling_iff)
    ultimately show ?thesis by linarith
  qed
  moreover have "0 < \<lceil>y\<rceil>" using y by (simp add: less_ceiling_iff)
  ultimately have "nat \<lceil>1 / (x * b)\<rceil> < nat \<lceil>1 / x\<rceil>"
    unfolding y_def z_def by linarith
  then show "((b, x * b, e - 1), (b, x, e)) \<in> measure (\<lambda>(b, x, e). nat \<lceil>1 / x\<rceil>)"
    by simp
qed simp

declare log_up.simps [simp del] log_down.simps [simp del]

definition floor_log :: "real \<Rightarrow> real \<Rightarrow> int" where
  "floor_log b x = (if 1 \<le> x then log_up b x 0 else log_down b x 0)"

text \<open>
  Rounding to a double (binary64, round to nearest, ties to even). The doubles around a
  positive real \<open>a\<close> are the multiples of \<open>quantum a\<close>: 53 significant bits, that is
  \<open>2\<^sup>e\<^sup>-\<^sup>5\<^sup>2\<close> in the binade \<open>e\<close> of \<open>a\<close>, and \<open>2\<^sup>-\<^sup>1\<^sup>0\<^sup>7\<^sup>4\<close> below the
  smallest normal number. A result of \<open>2\<^sup>1\<^sup>0\<^sup>2\<^sup>4\<close> or more is an infinity.
\<close>

definition round_half_even :: "real \<Rightarrow> int" where
  "round_half_even m =
     (if m - real_of_int \<lfloor>m\<rfloor> < 1 / 2 then \<lfloor>m\<rfloor>
      else if 1 / 2 < m - real_of_int \<lfloor>m\<rfloor> then \<lfloor>m\<rfloor> + 1
      else if even \<lfloor>m\<rfloor> then \<lfloor>m\<rfloor> else \<lfloor>m\<rfloor> + 1)"

definition quantum :: "real \<Rightarrow> real" where
  "quantum a = pow2 (max (floor_log 2 a) (- 1022) - 52)"

definition nearest_multiple :: "real \<Rightarrow> real \<Rightarrow> real" where
  "nearest_multiple q a = real_of_int (round_half_even (a / q)) * q"

definition or_infinity :: "real \<Rightarrow> jsnum" where
  "or_infinity y =
     (if 2 ^ 1024 \<le> y then PosInf else if y \<le> - (2 ^ 1024) then NegInf else Fin y)"

definition round_double :: "real \<Rightarrow> jsnum" where
  "round_double x =
     (if x = 0 then Fin 0
      else if x < 0 then or_infinity (- nearest_multiple (quantum (- x)) (- x))
      else or_infinity (nearest_multiple (quantum x) x))"

text \<open>
  \<^verbatim>\<open>Number::toString\<close> of a positive double \<open>a\<close> takes the integers \<open>k\<close>,
  \<open>s\<close> and \<open>n\<close> with \<open>k\<close> as small as possible, \<open>10\<^sup>k\<^sup>-\<^sup>1 \<le> s < 10\<^sup>k\<close> and
  \<open>s \<times> 10\<^sup>n\<^sup>-\<^sup>k\<close> a real that reads back as \<open>a\<close>; of several such \<open>s\<close> the one
  nearest to \<open>a\<close>, the even one on a tie. \<open>shortest_digits k a n\<close> looks for them from \<open>k\<close>
  digits on, with \<open>10\<^sup>n\<^sup>-\<^sup>1 \<le> a < 10\<^sup>n\<close>. With \<open>k\<close> digits the only candidates are
  the multiples of \<open>10\<^sup>n\<^sup>-\<^sup>k\<close> next below and next above \<open>a\<close>; the one above may be
  \<open>10\<^sup>n\<close> itself, which is the digit 1 with \<open>n + 1\<close>. Every double reads back from 17
  digits, where the search ends.
\<close>

definition unit_of :: "nat \<Rightarrow> int \<Rightarrow> real" where
  "unit_of k n = pow10 (n - int k)"

definition lower :: "nat \<Rightarrow> real \<Rightarrow> int \<Rightarrow> int" where
  "lower k a n = \<lfloor>a / unit_of k n\<rfloor>"

definition reads_back :: "real \<Rightarrow> int \<Rightarrow> real \<Rightarrow> bool" where
  "reads_back a s u = (round_double (real_of_int s * u) = Fin a)"

definition lower_nearer :: "real \<Rightarrow> int \<Rightarrow> real \<Rightarrow> bool" where
  "lower_nearer a s u =
     (a - real_of_int s * u < real_of_int (s + 1) * u - a \<or>
      (a - real_of_int s * u = real_of_int (s + 1) * u - a \<and> even s))"

definition carried :: "nat \<Rightarrow> int \<Rightarrow> int \<Rightarrow> int \<times> int" where
  "carried k s n = (if s = 10 ^ k then (10 ^ (k - 1), n + 1) else (s, n))"

function shortest_digits :: "nat \<Rightarrow> real \<Rightarrow> int \<Rightarrow> int \<times> int" where
  "shortest_digits k a n =
     (if reads_back a (lower k a n) (unit_of k n) \<and>
         (lower_nearer a (lower k a n) (unit_of k n) \<or>
          \<not> reads_back a (lower k a n + 1) (unit_of k n))
      then (lower k a n, n)
      else if reads_back a (lower k a n + 1) (unit_of k n) then carried k (lower k a n + 1) n
      else if 17 \<le> k then (lower k a n, n)
      else shortest_digits (k + 1) a n)"
  by pat_completeness auto
termination
  by (relation "measure (\<lambda>(k, a, n). 17 - k)") auto

declare shortest_digits.simps [simp del]

text \<open>
  The digits \<open>ds\<close> of \<open>s\<close> with the decimal point put where \<open>n\<close> says: an integer
  with \<open>n\<close> digits when \<open>n\<close> is from the number of digits to 21, a point after \<open>n\<close> digits
  when \<open>n\<close> is from 1 to 21, zeros after \<^verbatim>\<open>0.\<close> when \<open>n\<close> is from \<open>-5\<close> to 0,
  and the exponent form in every other case.
\<close>

function zeros :: "int \<Rightarrow> jsstring" where
  "zeros n = (if n \<le> 0 then [] else digit 0 # zeros (n - 1))"
  by pat_completeness auto
termination
  by (relation "measure nat") auto

declare zeros.simps [simp del]

definition exponent_text :: "int \<Rightarrow> jsstring" where
  "exponent_text e = lit ''e'' @ (if e < 0 then lit ''-'' else lit ''+'') @ decimal (nat \<bar>e\<bar>)"

definition place_point :: "jsstring \<Rightarrow> int \<Rightarrow> jsstring" where
  "place_point ds n =
     (if int (length ds) \<le> n \<and> n \<le> 21 then ds @ zeros (n - int (length ds))
      else if 0 < n \<and> n \<le> 21 then take (nat n) ds @ lit ''.'' @ drop (nat n) ds
      else if - 6 < n \<and> n \<le> 0 then lit ''0.'' @ zeros (- n) @ ds
      else if length ds = 1 then ds @ exponent_text (n - 1)
      else take 1 ds @ lit ''.'' @ drop 1 ds @ exponent_text (n - 1))"

definition unsigned_toString :: "real \<Rightarrow> jsstring" where
  "unsigned_toString a =
     (case shortest_digits 1 a (floor_log 10 a + 1) of
        (s, n) \<Rightarrow> place_point (decimal (nat s)) n)"

fun Number_toString :: "jsnum \<Rightarrow> jsstring" where
  "Number_toString NaN = lit ''NaN''"
| "Number_toString PosInf = lit ''Infinity''"
| "Number_toString NegInf = lit ''-Infinity''"
| "Number_toString (Fin x) =
     (if x = 0 then lit ''0''
      else if x < 0 then lit ''-'' @ unsigned_toString (- x) else unsigned_toString x)"

text \<open>
  \<^verbatim>\<open>Number.prototype.toFixed(1)\<close>: the integer \<open>n\<close> with \<open>n / 10\<close> nearest to
  the exact value of the double, the larger one on a tie, printed with one fraction digit;
  from \<open>10\<^sup>2\<^sup>1\<close> on, \<^verbatim>\<open>Number::toString\<close>. So the double nearest to 8.35, which
  lies below 8.35, prints as \<^verbatim>\<open>8.3\<close>.
\<close>

definition unsigned_toFixed1 :: "real \<Rightarrow> jsstring" where
  "unsigned_toFixed1 a =
     (if 10 ^ 21 \<le> a then unsigned_toString a
      else decimal (nat \<lfloor>a * 10 + 1 / 2\<rfloor> div 10) @ lit ''.'' @
           [digit (nat \<lfloor>a * 10 + 1 / 2\<rfloor> mod 10)])"

fun toFixed1 :: "jsnum \<Rightarrow> jsstring" where
  "toFixed1 NaN = lit ''NaN''"
| "toFixed1 PosInf = lit ''Infinity''"
| "toFixed1 NegInf = lit ''-Infinity''"
| "toFixed1 (Fin x) =
     (if x < 0 then lit ''-'' @ unsigned_toFixed1 (- x) else unsigned_toFixed1 x)"

fun isNaN :: "jsnum \<Rightarrow> bool" where
  "isNaN NaN = True"
| "isNaN n = False"

text \<open>\<^verbatim>\<open>Number::lessThan\<close>; \<open>None\<close> is its \<^verbatim>\<open>undefined\<close>.\<close>

fun lessThan_num :: "jsnum \<Rightarrow> jsnum \<Rightarrow> bool option" where
  "lessThan_num NaN m = None"
| "lessThan_num n NaN = None"
| "lessThan_num (Fin x) (Fin y) = Some (x < y)"
| "lessThan_num (Fin x) PosInf = Some True"
| "lessThan_num (Fin x) NegInf = Some False"
| "lessThan_num PosInf m = Some False"
| "lessThan_num NegInf NegInf = Some False"
| "lessThan_num NegInf m = Some True"

text \<open>\<^verbatim>\<open>a >= b\<close> on numbers: false when \<^verbatim>\<open>a < b\<close> is true or
  undefined.\<close>

definition ge_num :: "jsnum \<Rightarrow> jsnum \<Rightarrow> bool" where
  "ge_num a b = (lessThan_num a b = Some False)"

definition Math_max :: "jsnum \<Rightarrow> jsnum \<Rightarrow> jsnum" where
  "Math_max a b =
     (if isNaN a \<or> isNaN b then NaN else if lessThan_num a b = Some True then b else a)"

definition Math_min :: "jsnum \<Rightarrow> jsnum \<Rightarrow> jsnum" where
  "Math_min a b =
     (if isNaN a \<or> isNaN b then NaN else if lessThan_num b a = Some True then b else a)"

text \<open>\<^verbatim>\<open>Math.round\<close>: the nearest integer, the larger one on a tie. Of a
  double it is a double again: below \<open>2\<^sup>5\<^sup>2\<close> in size the integer has at most 53
  bits, and from \<open>2\<^sup>5\<^sup>2\<close> on every double is an integer.\<close>

fun Math_round :: "jsnum \<Rightarrow> jsnum" where
  "Math_round (Fin x) = Fin (real_of_int \<lfloor>x + 1 / 2\<rfloor>)"
| "Math_round n = n"

fun sign_num :: "jsnum \<Rightarrow> real" where
  "sign_num (Fin x) = sgn x"
| "sign_num PosInf = 1"
| "sign_num NegInf = - 1"
| "sign_num NaN = 0"

text \<open>\<^verbatim>\<open>Number::multiply\<close>: the product of two finite doubles is rounded.\<close>

fun times_num :: "jsnum \<Rightarrow> jsnum \<Rightarrow> jsnum" where
  "times_num (Fin x) (Fin y) = round_double (x * y)"
| "times_num a b =
     (if isNaN a \<or> isNaN b \<or> sign_num a * sign_num b = 0 then NaN
      else if 0 < sign_num a * sign_num b then PosInf else NegInf)"

subsection \<open>Conversion to string\<close>

text \<open>
  \<^verbatim>\<open>ToString\<close>, which a template literal applies to each substitution, and
  \<^verbatim>\<open>Array.prototype.join\<close>, which it uses on arrays. An object parsed from JSON
  prints as \<^verbatim>\<open>[object Object]\<close>, unless it has an own property named
  \<^verbatim>\<open>toString\<close>: that property is not callable, and the conversion throws.
\<close>

fun ToString :: "jsval \<Rightarrow> error + jsstring"
  and join :: "jsstring \<Rightarrow> jsval list \<Rightarrow> error + jsstring" where
  "ToString Undefined = Inr (lit ''undefined'')"
| "ToString Null = Inr (lit ''null'')"
| "ToString (Bool b) = Inr (if b then lit ''true'' else lit ''false'')"
| "ToString (Num n) = Inr (Number_toString n)"
| "ToString (Str s) = Inr s"
| "ToString (Arr xs) = join (lit '','') xs"
| "ToString (Obj kvs) =
     (if map_of kvs (lit ''toString'') = None then Inr (lit ''[object Object]'')
      else Inl cannot_convert)"
| "join sep [] = Inr []"
| "join sep (x # xs) =
     bnd (if x = Undefined \<or> x = Null then Inr [] else ToString x) (\<lambda>s.
       if xs = [] then Inr s else bnd (join sep xs) (\<lambda>r. Inr (s @ sep @ r)))"

text \<open>\<^verbatim>\<open>v.join(sep)\<close>: only an array has the method.\<close>

fun call_join :: "jsval \<Rightarrow> jsstring \<Rightarrow> error + jsstring" where
  "call_join (Arr xs) sep = join sep xs"
| "call_join Undefined sep = Inl (cannot_read Undefined)"
| "call_join Null sep = Inl (cannot_read Null)"
| "call_join v sep = Inl not_a_function"

text \<open>\<^verbatim>\<open>v.map(f)\<close>, where the callback \<open>f\<close> may throw: only an array has the
  method. The scripts join the results with the empty separator; the embedding keeps
  the list of the items.\<close>

fun traverse :: "('a \<Rightarrow> error + 'b) \<Rightarrow> 'a list \<Rightarrow> error + 'b list" where
  "traverse f [] = Inr []"
| "traverse f (x # xs) = bnd (f x) (\<lambda>y. bnd (traverse f xs) (\<lambda>ys. Inr (y # ys)))"

fun call_map :: "jsval \<Rightarrow> (jsval \<Rightarrow> error + 'b) \<Rightarrow> error + 'b list" where
  "call_map (Arr xs) f = traverse f xs"
| "call_map Undefined f = Inl (cannot_read Undefined)"
| "call_map Null f = Inl (cannot_read Null)"
| "call_map v f = Inl not_a_function"

text \<open>\<^verbatim>\<open>v.toFixed(1)\<close>: only a number has the method.\<close>

fun call_toFixed1 :: "jsval \<Rightarrow> error + jsstring" where
  "call_toFixed1 (Num n) = Inr (toFixed1 n)"
| "call_toFixed1 Undefined = Inl (cannot_read Undefined)"
| "call_toFixed1 Null = Inl (cannot_read Null)"
| "call_toFixed1 v = Inl not_a_function"

subsection \<open>Conversion to number\<close>

text \<open>\<^verbatim>\<open>String.prototype.trim\<close> removes the code units of
  \<^verbatim>\<open>WhiteSpace\<close> and \<^verbatim>\<open>LineTerminator\<close> from both ends.\<close>

definition is_whitespace :: "16 word \<Rightarrow> bool" where
  "is_whitespace c \<longleftrightarrow>
     c = 0x9 \<or> c = 0xA \<or> c = 0xB \<or> c = 0xC \<or> c = 0xD \<or> c = 0x20 \<or> c = 0xA0 \<or>
     c = 0x1680 \<or> (0x2000 \<le> c \<and> c \<le> 0x200A) \<or> c = 0x2028 \<or> c = 0x2029 \<or>
     c = 0x202F \<or> c = 0x205F \<or> c = 0x3000 \<or> c = 0xFEFF"

definition trim :: "jsstring \<Rightarrow> jsstring" where
  "trim s = rev (dropWhile is_whitespace (rev (dropWhile is_whitespace s)))"

definition is_digit :: "16 word \<Rightarrow> bool" where
  "is_digit c \<longleftrightarrow> 0x30 \<le> c \<and> c \<le> 0x39"

text \<open>The value of a digit in a radix up to 16; \<open>None\<close> for any other code unit.\<close>

definition digit_value :: "16 word \<Rightarrow> nat option" where
  "digit_value c =
     (if 0x30 \<le> c \<and> c \<le> 0x39 then Some (unat c - 0x30)
      else if 0x61 \<le> c \<and> c \<le> 0x66 then Some (unat c - 0x61 + 10)
      else if 0x41 \<le> c \<and> c \<le> 0x46 then Some (unat c - 0x41 + 10)
      else None)"

definition is_radix_digit :: "nat \<Rightarrow> 16 word \<Rightarrow> bool" where
  "is_radix_digit b c = (case digit_value c of None \<Rightarrow> False | Some d \<Rightarrow> d < b)"

definition radix_value :: "nat \<Rightarrow> jsstring \<Rightarrow> nat" where
  "radix_value b s = foldl (\<lambda>a c. b * a + (case digit_value c of None \<Rightarrow> 0 | Some d \<Rightarrow> d)) 0 s"

text \<open>\<^verbatim>\<open>ExponentPart\<close>, or nothing, at the end of a decimal literal.\<close>

definition exponent_part :: "jsstring \<Rightarrow> int option" where
  "exponent_part s =
     (case s of
        [] \<Rightarrow> Some 0
      | c # r \<Rightarrow>
          if c = 0x65 \<or> c = 0x45 then
            (let neg = (r \<noteq> [] \<and> hd r = 0x2D);
                 ds = (if r \<noteq> [] \<and> (hd r = 0x2B \<or> hd r = 0x2D) then tl r else r)
             in if ds \<noteq> [] \<and> list_all is_digit ds
                then Some (if neg then - int (radix_value 10 ds) else int (radix_value 10 ds))
                else None)
          else None)"

text \<open>\<^verbatim>\<open>StrUnsignedDecimalLiteral\<close>: \<^verbatim>\<open>Infinity\<close>, or digits with an
  optional fraction and exponent, at least one digit before or after the point. Its value
  is the double nearest to the decimal.\<close>

definition unsigned_decimal_literal :: "jsstring \<Rightarrow> jsnum option" where
  "unsigned_decimal_literal s =
     (if s = lit ''Infinity'' then Some PosInf
      else
        let ip = takeWhile is_digit s;
            r1 = dropWhile is_digit s;
            dot = (r1 \<noteq> [] \<and> hd r1 = 0x2E);
            fp = (if dot then takeWhile is_digit (tl r1) else []);
            r2 = (if dot then dropWhile is_digit (tl r1) else r1)
        in if ip = [] \<and> fp = [] then None
           else case exponent_part r2 of
                  None \<Rightarrow> None
                | Some e \<Rightarrow>
                    Some (round_double ((real (radix_value 10 ip) +
                                         real (radix_value 10 fp) / 10 ^ length fp) * pow10 e)))"

fun negate :: "jsnum \<Rightarrow> jsnum" where
  "negate (Fin x) = Fin (- x)"
| "negate PosInf = NegInf"
| "negate NegInf = PosInf"
| "negate NaN = NaN"

definition decimal_literal :: "jsstring \<Rightarrow> jsnum option" where
  "decimal_literal s =
     (case s of
        [] \<Rightarrow> None
      | c # r \<Rightarrow>
          if c = 0x2B then unsigned_decimal_literal r
          else if c = 0x2D then map_option negate (unsigned_decimal_literal r)
          else unsigned_decimal_literal s)"

text \<open>\<^verbatim>\<open>NonDecimalIntegerLiteral\<close>: \<^verbatim>\<open>0x\<close>, \<^verbatim>\<open>0o\<close> or
  \<^verbatim>\<open>0b\<close> and at least one digit of the radix.\<close>

definition non_decimal_literal :: "jsstring \<Rightarrow> jsnum option" where
  "non_decimal_literal s =
     (case s of
        z # p # ds \<Rightarrow>
          (let b = (if p = 0x78 \<or> p = 0x58 then 16
                    else if p = 0x6F \<or> p = 0x4F then 8
                    else if p = 0x62 \<or> p = 0x42 then 2 else 0)
           in if z = 0x30 \<and> ds \<noteq> [] \<and> list_all (is_radix_digit b) ds
              then Some (round_double (real (radix_value b ds))) else None)
      | _ \<Rightarrow> None)"

text \<open>\<^verbatim>\<open>StringToNumber\<close>: the empty or blank string is 0, a string that is not a
  numeric literal is \<^verbatim>\<open>NaN\<close>.\<close>

definition StringToNumber :: "jsstring \<Rightarrow> jsnum" where
  "StringToNumber s =
     (let t = trim s
      in if t = [] then Fin 0
         else case non_decimal_literal t of
                Some n \<Rightarrow> n
              | None \<Rightarrow> (case decimal_literal t of Some n \<Rightarrow> n | None \<Rightarrow> NaN))"

text \<open>\<^verbatim>\<open>ToNumber\<close>: an array or an object is first converted to a primitive,
  which for values parsed from JSON is their string.\<close>

fun ToNumber :: "jsval \<Rightarrow> error + jsnum" where
  "ToNumber Undefined = Inr NaN"
| "ToNumber Null = Inr (Fin 0)"
| "ToNumber (Bool b) = Inr (Fin (if b then 1 else 0))"
| "ToNumber (Num n) = Inr n"
| "ToNumber (Str s) = Inr (StringToNumber s)"
| "ToNumber v = bnd (ToString v) (\<lambda>s. Inr (StringToNumber s))"

text \<open>The operator \<^verbatim>\<open>a || b\<close> on values that are already evaluated. Where
  the right operand of \<^verbatim>\<open>||\<close> or \<^verbatim>\<open>&&\<close> can throw, the
  embedding writes the conditional out.\<close>

definition lor :: "jsval \<Rightarrow> jsval \<Rightarrow> jsval" where
  "lor a b = (if truthy a then a else b)"

section \<open>The page\<close>

text \<open>
  The scripts look their elements up once, with \<^verbatim>\<open>document.getElementById\<close>,
  and test each for \<^verbatim>\<open>null\<close> before use: an element is optional in the
  page. Of the button, the loader, the status line and the score elements the page
  records the properties the scripts assign; of the loader and the results wrapper,
  whether the class list holds \<^verbatim>\<open>hidden\<close>.
\<close>

record button =
  disabled :: bool
  caption :: jsstring

record status =
  status_text :: jsstring
  status_color :: jsstring

record score_element =
  score_text :: jsstring
  score_title :: jsstring

text \<open>
  The \<^verbatim>\<open>innerHTML\<close> of a result container is a template literal. The embedding
  keeps, instead of the markup, the values of the template's substitutions in their
  order: a text is the string substituted, a conditional section is \<open>None\<close> when the
  template substitutes the empty string, a mapped list is the list of its items (of
  \<^verbatim>\<open><li>\<close> items: the text after the bullet), and a list that has a
  paragraph in its place when it is empty is either the paragraph's text or the items.
\<close>

record llm_card =
  lc_primary_topic :: jsstring
  lc_detected_intent :: jsstring
  lc_confidence :: jsstring
  lc_secondary_topics :: "jsstring list option"
  lc_summary :: "jsstring option"
  lc_key_claims :: "jsstring list option"

record score_row =
  row_label :: jsstring
  row_help :: jsstring
  row_width :: jsstring
  row_value :: jsstring

record eval_card =
  ec_class :: jsstring
  ec_verdict :: jsstring
  ec_llm_ready :: jsstring
  ec_page :: jsstring
  ec_main_issue :: "jsstring option"
  ec_top_3_fixes :: "jsstring list option"
  ec_overall :: jsstring
  ec_fanout :: jsstring
  ec_eeat :: jsstring
  ec_score_bars :: "score_row option list"
  ec_fix_24h :: "jsstring list"
  ec_fix_7d :: "jsstring list"
  ec_fix_30d :: "jsstring list"
  ec_main_gaps :: "jsstring list option"
  ec_clarity_issues :: "jsstring list option"
  ec_clarity_fixes :: "jsstring list option"
  ec_author_info :: jsstring
  ec_expertise :: "jsstring option"
  ec_experience :: "jsstring option"
  ec_trust :: "jsstring option"
  ec_missing :: "jsstring option"

record summary_card =
  sm_recommended :: jsstring
  sm_score :: jsstring
  sm_quality :: jsstring

record definitions_card =
  df_definitions :: "jsstring + (jsstring \<times> jsstring) list"
  df_missing :: "jsstring option"
  df_score :: jsstring

record faq_card =
  fq_faqs :: "jsstring + (jsstring \<times> jsstring) list"
  fq_score :: jsstring

record canonical_card =
  cn_resources :: "jsstring + (jsstring \<times> jsstring) list"
  cn_score :: jsstring
  cn_why :: jsstring

text \<open>The templates of version B.\<close>

record llm_card_b =
  lb_primary_topic :: jsstring
  lb_primary_intent :: jsstring
  lb_audience :: jsstring
  lb_important_entities :: "jsstring list option"
  lb_key_facts :: "jsstring list option"
  lb_questions_answered :: "jsstring list option"
  lb_questions_missing :: "jsstring list option"

record eval_card_b =
  eb_class :: jsstring
  eb_verdict :: jsstring
  eb_llm_ready :: jsstring
  eb_overall :: jsstring
  eb_canonical_score :: "jsstring option"
  eb_score_bars :: "score_row option list"
  eb_priority_fixes :: "jsstring list option"
  eb_issues :: "jsstring list option"
  eb_recommendations :: "jsstring list option"
  eb_canonical_notes :: "(jsstring list \<times> jsstring list) option"

record summary_card_b =
  sb_purpose :: jsstring
  sb_audience :: jsstring
  sb_key_points :: "jsstring list option"

datatype html =
    Static jsstring
  | LlmCard llm_card
  | EvalCard eval_card
  | SummaryCard summary_card
  | DefinitionsCard definitions_card
  | FaqCard faq_card
  | CanonicalCard canonical_card
  | LlmCardB llm_card_b
  | EvalCardB eval_card_b
  | SummaryCardB summary_card_b
  | DefinitionsCardB "jsstring + (jsstring \<times> jsstring \<times> jsstring) list"
  | FaqCardB "jsstring + (jsstring \<times> jsstring) list"
  | CanonicalCardB "jsstring + (jsstring \<times> jsstring) list"

record page =
  urlInput :: "jsstring option"
  analyzeBtn :: "button option"
  loader :: "bool option"
  statusText :: "status option"
  resultsWrapper :: "bool option"
  llmViewContent :: "html option"
  evaluationContent :: "html option"
  summaryBlockEl :: "html option"
  definitionsBlockEl :: "html option"
  faqBlockEl :: "html option"
  canonicalBlockEl :: "html option"
  arcScoreEl :: "score_element option"
  scoreAioEl :: "score_element option"
  scoreAeoEl :: "score_element option"
  scoreGeoEl :: "score_element option"

text \<open>A function of the scripts that writes to the page and may throw returns the
  error, if any, and the page as it is then: what was written before the throw
  stays.\<close>

type_synonym render = "page \<Rightarrow> error option \<times> page"

definition and_then :: "render \<Rightarrow> render \<Rightarrow> render" where
  "and_then f g p = (case f p of (None, p') \<Rightarrow> g p' | (Some e, p') \<Rightarrow> (Some e, p'))"

section \<open>Version A: \<^verbatim>\<open>script.js\<close>\<close>

definition setLoading :: "bool \<Rightarrow> page \<Rightarrow> page" where
  "setLoading isLoading p =
     (if analyzeBtn p = None \<or> loader p = None then p
      else if isLoading then
        p\<lparr>loader := Some False,
          analyzeBtn := Some \<lparr>disabled = True, caption = lit ''Analyzing'' @ ellipsis\<rparr>\<rparr>
      else
        p\<lparr>loader := Some True,
          analyzeBtn := Some \<lparr>disabled = False, caption = lit ''Run analysis''\<rparr>\<rparr>)"

definition setStatus :: "jsstring \<Rightarrow> bool \<Rightarrow> page \<Rightarrow> page" where
  "setStatus msg isError p =
     (if statusText p = None then p
      else p\<lparr>statusText := Some
             \<lparr>status_text = msg,
              status_color = (if isError then lit ''#f97373'' else lit ''var(--muted)'')\<rparr>\<rparr>)"

subsection \<open>\<^verbatim>\<open>renderArcRank\<close>\<close>

text \<open>\<^verbatim>\<open>blk && typeof blk.k === "number" ? blk.k : 0\<close>, the defensive read of a
  score that \<^verbatim>\<open>renderArcRank\<close> and \<^verbatim>\<open>renderBlocks\<close> repeat.\<close>

definition number_or_0 :: "jsval \<Rightarrow> jsstring \<Rightarrow> error + jsnum" where
  "number_or_0 blk k =
     (if truthy blk then
        bnd (getprop blk k) (\<lambda>v. case v of Num n \<Rightarrow> Inr n | _ \<Rightarrow> Inr (Fin 0))
      else Inr (Fin 0))"

definition sub_score_text :: "jsnum \<Rightarrow> jsstring" where
  "sub_score_text n = (if truthy (Num n) then toFixed1 n else emdash)"

definition aio_title :: jsstring where
  "aio_title = lit ''AIO '' @ endash @
     lit '' AI Index Optimization: clarity and readability of your content for AI models.''"

definition aeo_title :: jsstring where
  "aeo_title = lit ''AEO '' @ endash @
     lit '' Answer Engine Optimization: how well your FAQs and answers cover user questions.''"

definition geo_title :: jsstring where
  "geo_title = lit ''GEO '' @ endash @
     lit '' Generative Engine Optimization: how much topical depth and coverage the page provides.''"

definition set_score :: "jsstring \<Rightarrow> jsstring \<Rightarrow> score_element option \<Rightarrow> score_element option" where
  "set_score txt ttl el =
     (case el of None \<Rightarrow> None | Some e \<Rightarrow> Some (e\<lparr>score_text := txt, score_title := ttl\<rparr>))"

text \<open>The read of \<^verbatim>\<open>scoreMatrix.final_score\<close> has no guard of its own in the
  source; it comes after the early return, where \<^verbatim>\<open>scoreMatrix\<close> is truthy, so
  the guarded read is the same. The overall score element gets its text only, the
  other three their text and their title.\<close>

definition renderArcRank :: "jsval \<Rightarrow> jsval \<Rightarrow> jsval \<Rightarrow> jsval \<Rightarrow> render" where
  "renderArcRank scoreMatrix clarityBlock faqBlock fanoutBlock p =
     (if \<not> truthy scoreMatrix then (None, p)
      else
        case bnd (number_or_0 scoreMatrix (lit ''final_score'')) (\<lambda>overall.
             bnd (number_or_0 clarityBlock (lit ''score'')) (\<lambda>aio.
             bnd (number_or_0 faqBlock (lit ''score'')) (\<lambda>aeo.
             bnd (number_or_0 fanoutBlock (lit ''coverage_score'')) (\<lambda>geo.
             Inr (p\<lparr>arcScoreEl :=
                       map_option (score_text_update
                         (\<lambda>_. if isNaN overall then emdash else Number_toString overall))
                         (arcScoreEl p),
                     scoreAioEl := set_score (sub_score_text aio) aio_title (scoreAioEl p),
                     scoreAeoEl := set_score (sub_score_text aeo) aeo_title (scoreAeoEl p),
                     scoreGeoEl := set_score (sub_score_text geo) geo_title (scoreGeoEl p)\<rparr>)))))
        of Inl e \<Rightarrow> (Some e, p) | Inr p' \<Rightarrow> (None, p'))"

subsection \<open>Substitutions the templates repeat\<close>

text \<open>\<^verbatim>\<open>${v || "alt"}\<close>\<close>

definition text_or :: "jsval \<Rightarrow> jsstring \<Rightarrow> error + jsstring" where
  "text_or v alt = ToString (lor v (Str alt))"

text \<open>\<^verbatim>\<open>${v ? `... ${v} ...` : ""}\<close>\<close>

definition optional_text :: "jsval \<Rightarrow> error + jsstring option" where
  "optional_text v = (if truthy v then bnd (ToString v) (\<lambda>s. Inr (Some s)) else Inr None)"

text \<open>\<^verbatim>\<open>${xs.length ? `... ${xs.map((x) => `... ${x} ...`).join("")} ...` : ""}\<close>\<close>

definition section_items :: "jsval \<Rightarrow> error + jsstring list option" where
  "section_items xs =
     bnd (getprop xs (lit ''length'')) (\<lambda>n.
       if truthy n then bnd (call_map xs ToString) (\<lambda>items. Inr (Some items)) else Inr None)"

text \<open>The same behind a guard: \<^verbatim>\<open>xs && xs.length ? ... : ""\<close>\<close>

definition guarded_items :: "jsval \<Rightarrow> error + jsstring list option" where
  "guarded_items xs = (if truthy xs then section_items xs else Inr None)"

text \<open>\<^verbatim>\<open>${xs.length ? xs.map((i) => `<li>... ${i}</li>`).join("") : "<li>... alt</li>"}\<close>\<close>

definition items_or :: "jsval \<Rightarrow> jsstring \<Rightarrow> error + jsstring list" where
  "items_or xs alt =
     bnd (section_items xs) (\<lambda>r. Inr (case r of None \<Rightarrow> [alt] | Some items \<Rightarrow> items))"

subsection \<open>\<^verbatim>\<open>renderLlmView\<close>\<close>

definition llm_template :: "jsval \<Rightarrow> error + llm_card" where
  "llm_template view =
     bnd (getprop view (lit ''primary_topic'')) (\<lambda>primary_topic.
     bnd (field_or view (lit ''secondary_topics'') (Arr [])) (\<lambda>secondary_topics.
     bnd (getprop view (lit ''detected_intent'')) (\<lambda>detected_intent.
     bnd (getprop view (lit ''summary_llm_generated'')) (\<lambda>summary_llm_generated.
     bnd (field_or view (lit ''key_claims_llm_detected'') (Arr [])) (\<lambda>key_claims_llm_detected.
     bnd (getprop view (lit ''confidence_level'')) (\<lambda>confidence_level.
     bnd (text_or primary_topic emdash) (\<lambda>h1.
     bnd (text_or detected_intent emdash) (\<lambda>h2.
     bnd (text_or confidence_level emdash) (\<lambda>h3.
     bnd (section_items secondary_topics) (\<lambda>h4.
     bnd (optional_text summary_llm_generated) (\<lambda>h5.
     bnd (section_items key_claims_llm_detected) (\<lambda>h6.
     Inr \<lparr>lc_primary_topic = h1, lc_detected_intent = h2, lc_confidence = h3,
          lc_secondary_topics = h4, lc_summary = h5, lc_key_claims = h6\<rparr>))))))))))))"

definition renderLlmView :: "jsval \<Rightarrow> render" where
  "renderLlmView view p =
     (if \<not> truthy view \<or> llmViewContent p = None then (None, p)
      else case llm_template view of
             Inl e \<Rightarrow> (Some e, p)
           | Inr h \<Rightarrow> (None, p\<lparr>llmViewContent := Some (LlmCard h)\<rparr>))"

subsection \<open>\<^verbatim>\<open>renderEvaluation\<close>\<close>

text \<open>The callback of \<^verbatim>\<open>scoreRows.map\<close>: a value that is not a number gives the
  empty string, here \<open>None\<close>; a number gives a row whose fill is
  \<^verbatim>\<open>Math.min(10, Math.max(0, value)) * 10\<close> percent wide.\<close>

definition score_bar :: "jsstring \<times> jsval \<times> jsstring \<Rightarrow> score_row option" where
  "score_bar row =
     (case row of (label, value, help) \<Rightarrow>
        (case value of
           Num v \<Rightarrow>
             (let pct = times_num (Math_min (Fin 10) (Math_max (Fin 0) v)) (Fin 10)
              in Some \<lparr>row_label = label, row_help = help,
                       row_width = Number_toString pct @ lit ''%'',
                       row_value = toFixed1 v\<rparr>)
         | _ \<Rightarrow> None))"

text \<open>\<^verbatim>\<open>${v.toFixed ? v.toFixed(1) : v}\<close>: a number has the method; an object
  parsed from JSON can have an own property of that name, which is not callable.\<close>

fun toFixed_member :: "jsval \<Rightarrow> error + jsval" where
  "toFixed_member (Num n) = Inr (Bool True)"
| "toFixed_member v = getprop v (lit ''toFixed'')"

definition fixed_or_plain :: "jsval \<Rightarrow> error + jsstring" where
  "fixed_or_plain v =
     bnd (toFixed_member v) (\<lambda>m. if truthy m then call_toFixed1 v else ToString v)"

text \<open>\<^verbatim>\<open>a >= b\<close> with a number on the right.\<close>

definition ge :: "jsval \<Rightarrow> jsnum \<Rightarrow> error + bool" where
  "ge a b = bnd (ToNumber a) (\<lambda>n. Inr (ge_num n b))"

text \<open>\<^verbatim>\<open>${xs && xs.length ? `... ${xs.join(", ")} ...` : ""}\<close>\<close>

definition guarded_joined :: "jsval \<Rightarrow> error + jsstring option" where
  "guarded_joined xs =
     (if truthy xs then
        bnd (getprop xs (lit ''length'')) (\<lambda>n.
          if truthy n then bnd (call_join xs (lit '', '')) (\<lambda>s. Inr (Some s)) else Inr None)
      else Inr None)"

definition yes_no :: "bool \<Rightarrow> jsstring" where
  "yes_no b = (if b then lit ''Yes'' else lit ''No'')"

definition zero :: jsval where
  "zero = Num (Fin 0)"

text \<open>The destructuring statements at the head of \<^verbatim>\<open>renderEvaluation\<close>,
  each as a function of its own. A statement throws when its right-hand side is
  \<^verbatim>\<open>null\<close>;
  \<^verbatim>\<open>undefined\<close> cannot reach it, for the default \<^verbatim>\<open>{}\<close> has
  replaced it.\<close>

definition destructure_ctx ::
  "jsval \<Rightarrow> error + jsval \<times> jsval \<times> jsval \<times> jsval \<times> jsval \<times> jsval \<times> jsval" where
  "destructure_ctx c =
     bnd (field_or c (lit ''page_metadata'') (Obj [])) (\<lambda>page_metadata.
     bnd (field_or c (lit ''executive_summary'') (Obj [])) (\<lambda>executive_summary.
     bnd (field_or c (lit ''score_matrix'') (Obj [])) (\<lambda>score_matrix.
     bnd (field_or c (lit ''fanout_query_analysis'') (Obj [])) (\<lambda>fanout_query_analysis.
     bnd (field_or c (lit ''clarity_readability'') (Obj [])) (\<lambda>clarity_readability.
     bnd (field_or c (lit ''eeat_block'') (Obj [])) (\<lambda>eeat_block.
     bnd (field_or c (lit ''fix_roadmap'') (Obj [])) (\<lambda>fix_roadmap.
     Inr (page_metadata, executive_summary, score_matrix, fanout_query_analysis,
          clarity_readability, eeat_block, fix_roadmap))))))))"

definition destructure_executive_summary ::
  "jsval \<Rightarrow> error + jsval \<times> jsval \<times> jsval \<times> jsval" where
  "destructure_executive_summary executive_summary =
     bnd (field_or executive_summary (lit ''overall_llm_readiness_score'') zero)
       (\<lambda>overall_llm_readiness_score.
     bnd (field_or executive_summary (lit ''verdict'') (Str [])) (\<lambda>verdict.
     bnd (field_or executive_summary (lit ''main_issue'') (Str [])) (\<lambda>main_issue.
     bnd (field_or executive_summary (lit ''top_3_fixes'') (Arr [])) (\<lambda>top_3_fixes.
     Inr (overall_llm_readiness_score, verdict, main_issue, top_3_fixes)))))"

definition destructure_score_matrix ::
  "jsval \<Rightarrow>
   error + jsval \<times> jsval \<times> jsval \<times> jsval \<times> jsval \<times> jsval \<times> jsval \<times> jsval \<times> jsval" where
  "destructure_score_matrix score_matrix =
     bnd (field_or score_matrix (lit ''summary_block'') zero) (\<lambda>summary_block.
     bnd (field_or score_matrix (lit ''definitions'') zero) (\<lambda>definitions.
     bnd (field_or score_matrix (lit ''faq'') zero) (\<lambda>faq.
     bnd (field_or score_matrix (lit ''fanout_match'') zero) (\<lambda>fanout_match.
     bnd (field_or score_matrix (lit ''canonical_resources'') zero) (\<lambda>canonical_resources.
     bnd (field_or score_matrix (lit ''structure'') zero) (\<lambda>structure.
     bnd (field_or score_matrix (lit ''clarity'') zero) (\<lambda>clarity.
     bnd (field_or score_matrix (lit ''eeat'') zero) (\<lambda>eeat.
     bnd (field_or score_matrix (lit ''final_score'') zero) (\<lambda>final_score.
     Inr (summary_block, definitions, faq, fanout_match, canonical_resources, structure,
          clarity, eeat, final_score))))))))))"

definition destructure_fanout :: "jsval \<Rightarrow> error + jsval \<times> jsval \<times> jsval" where
  "destructure_fanout fanout_query_analysis =
     bnd (field_or fanout_query_analysis (lit ''sub_questions_generated'') (Arr []))
       (\<lambda>sub_questions_generated.
     bnd (field_or fanout_query_analysis (lit ''coverage_score'') zero) (\<lambda>coverage_score.
     bnd (field_or fanout_query_analysis (lit ''main_gaps'') (Arr [])) (\<lambda>main_gaps.
     Inr (sub_questions_generated, coverage_score, main_gaps))))"

definition destructure_clarity :: "jsval \<Rightarrow> error + jsval \<times> jsval" where
  "destructure_clarity clarity_readability =
     bnd (field_or clarity_readability (lit ''issues'') (Arr [])) (\<lambda>clarity_issues.
     bnd (field_or clarity_readability (lit ''fixes'') (Arr [])) (\<lambda>clarity_fixes.
     Inr (clarity_issues, clarity_fixes)))"

definition destructure_eeat ::
  "jsval \<Rightarrow> error + jsval \<times> jsval \<times> jsval \<times> jsval \<times> jsval \<times> jsval" where
  "destructure_eeat eeat_block =
     bnd (field_or eeat_block (lit ''score'') zero) (\<lambda>eeat_score.
     bnd (field_or eeat_block (lit ''author_info_found'') (Bool False)) (\<lambda>author_info_found.
     bnd (field_or eeat_block (lit ''expertise_visibility'') (Str [])) (\<lambda>expertise_visibility.
     bnd (field_or eeat_block (lit ''experience_signals'') (Str [])) (\<lambda>experience_signals.
     bnd (field_or eeat_block (lit ''trust_signals'') (Str [])) (\<lambda>trust_signals.
     bnd (field_or eeat_block (lit ''missing_elements'') (Arr [])) (\<lambda>missing_elements.
     Inr (eeat_score, author_info_found, expertise_visibility, experience_signals,
          trust_signals, missing_elements)))))))"

definition destructure_roadmap :: "jsval \<Rightarrow> error + jsval \<times> jsval \<times> jsval" where
  "destructure_roadmap fix_roadmap =
     bnd (field_or fix_roadmap (lit ''immediate_fixes_next_24h'') (Arr []))
       (\<lambda>immediate_fixes_next_24h.
     bnd (field_or fix_roadmap (lit ''medium_priority_next_7_days'') (Arr []))
       (\<lambda>medium_priority_next_7_days.
     bnd (field_or fix_roadmap (lit ''long_term_next_30_days'') (Arr []))
       (\<lambda>long_term_next_30_days.
     Inr (immediate_fixes_next_24h, medium_priority_next_7_days, long_term_next_30_days))))"

text \<open>The three lists of the roadmap, each with the item shown when it is empty.\<close>

definition roadmap_lists ::
  "jsval \<Rightarrow> jsval \<Rightarrow> jsval \<Rightarrow> error + jsstring list \<times> jsstring list \<times> jsstring list" where
  "roadmap_lists immediate_fixes_next_24h medium_priority_next_7_days long_term_next_30_days =
     bnd (items_or immediate_fixes_next_24h
            (lit ''Add substantial article content and key sections.'')) (\<lambda>h_24h.
     bnd (items_or medium_priority_next_7_days
            (lit ''Add FAQ, definitions, and improve internal linking.'')) (\<lambda>h_7d.
     bnd (items_or long_term_next_30_days
            (lit ''Strengthen EEAT with author info, case studies, and references.''))
       (\<lambda>h_30d.
     Inr (h_24h, h_7d, h_30d))))"

text \<open>The rows of the score bars, in the order of \<^verbatim>\<open>scoreRows\<close>.\<close>

definition scoreRows ::
  "jsval \<times> jsval \<times> jsval \<times> jsval \<times> jsval \<times> jsval \<times> jsval \<times> jsval \<Rightarrow>
   (jsstring \<times> jsval \<times> jsstring) list" where
  "scoreRows m =
     (case m of
        (summary_block, definitions, faq, fanout_match, canonical_resources, structure,
         clarity, eeat) \<Rightarrow>
          [(lit ''Summary block'', summary_block,
              lit ''Quality of the LLM summary block for quick retrieval.''),
           (lit ''Definitions'', definitions,
              lit ''Coverage and clarity of key term definitions.''),
           (lit ''FAQ'', faq, lit ''How well FAQs cover real user questions.''),
           (lit ''Fanout coverage'', fanout_match,
              lit ''How well content answers the model'' @ [0x27] @ lit ''s sub-questions.''),
           (lit ''Canonical resources'', canonical_resources,
              lit ''Internal + external anchors for context.''),
           (lit ''Structure'', structure, lit ''Heading hierarchy and section layout.''),
           (lit ''Clarity / readability'', clarity,
              lit ''Language clarity, flow, and examples.''),
           (lit ''EEAT'', eeat,
              lit ''Expertise, experience, authority, and trust signals.'')])"

definition verdictClass :: "jsval \<Rightarrow> jsstring" where
  "verdictClass verdict =
     (if verdict = Str (lit ''Ready'') \<or> verdict = Str (lit ''Partially Ready'')
      then lit ''verdict-pill verdict-pill--good''
      else lit ''verdict-pill verdict-pill--poor'')"

text \<open>The whole of \<^verbatim>\<open>renderEvaluation\<close> up to the assignment: the
  destructuring, then the substitutions of the template from left to right.\<close>

definition evaluation_template :: "jsval \<Rightarrow> error + eval_card" where
  "evaluation_template ctx =
     bnd (destructure_ctx (lor ctx (Obj [])))
       (\<lambda>(page_metadata, executive_summary, score_matrix, fanout_query_analysis,
          clarity_readability, eeat_block, fix_roadmap).
     bnd (destructure_executive_summary executive_summary)
       (\<lambda>(overall_llm_readiness_score, verdict, main_issue, top_3_fixes).
     bnd (destructure_score_matrix score_matrix)
       (\<lambda>(summary_block, definitions, faq, fanout_match, canonical_resources, structure,
          clarity, eeat, final_score).
     bnd (destructure_fanout fanout_query_analysis)
       (\<lambda>(sub_questions_generated, coverage_score, main_gaps).
     bnd (destructure_clarity clarity_readability) (\<lambda>(clarity_issues, clarity_fixes).
     bnd (destructure_eeat eeat_block)
       (\<lambda>(eeat_score, author_info_found, expertise_visibility, experience_signals,
          trust_signals, missing_elements).
     bnd (destructure_roadmap fix_roadmap)
       (\<lambda>(immediate_fixes_next_24h, medium_priority_next_7_days, long_term_next_30_days).
     bnd (getprop page_metadata (lit ''url'')) (\<lambda>page_url.
     bnd (text_or verdict emdash) (\<lambda>h_verdict.
     bnd (ge final_score (Fin 60)) (\<lambda>llm_ready.
     bnd (text_or (lor page_url (Str [])) (lit ''this page'')) (\<lambda>h_page.
     bnd (optional_text main_issue) (\<lambda>h_main_issue.
     bnd (guarded_items top_3_fixes) (\<lambda>h_top_3_fixes.
     bnd (ToString overall_llm_readiness_score) (\<lambda>h_overall.
     bnd (fixed_or_plain coverage_score) (\<lambda>h_fanout.
     bnd (ToString eeat_score) (\<lambda>h_eeat.
     bnd (roadmap_lists immediate_fixes_next_24h medium_priority_next_7_days
            long_term_next_30_days) (\<lambda>(h_24h, h_7d, h_30d).
     bnd (guarded_items main_gaps) (\<lambda>h_main_gaps.
     bnd (guarded_items clarity_issues) (\<lambda>h_clarity_issues.
     bnd (guarded_items clarity_fixes) (\<lambda>h_clarity_fixes.
     bnd (optional_text expertise_visibility) (\<lambda>h_expertise.
     bnd (optional_text experience_signals) (\<lambda>h_experience.
     bnd (optional_text trust_signals) (\<lambda>h_trust.
     bnd (guarded_joined missing_elements) (\<lambda>h_missing.
     Inr \<lparr>ec_class = verdictClass verdict,
          ec_verdict = h_verdict,
          ec_llm_ready = yes_no llm_ready,
          ec_page = h_page,
          ec_main_issue = h_main_issue,
          ec_top_3_fixes = h_top_3_fixes,
          ec_overall = h_overall,
          ec_fanout = h_fanout,
          ec_eeat = h_eeat,
          ec_score_bars =
            map score_bar
              (scoreRows (summary_block, definitions, faq, fanout_match, canonical_resources,
                          structure, clarity, eeat)),
          ec_fix_24h = h_24h,
          ec_fix_7d = h_7d,
          ec_fix_30d = h_30d,
          ec_main_gaps = h_main_gaps,
          ec_clarity_issues = h_clarity_issues,
          ec_clarity_fixes = h_clarity_fixes,
          ec_author_info = yes_no (truthy author_info_found),
          ec_expertise = h_expertise,
          ec_experience = h_experience,
          ec_trust = h_trust,
          ec_missing = h_missing\<rparr>))))))))))))))))))))))))"

definition renderEvaluation :: "jsval \<Rightarrow> render" where
  "renderEvaluation ctx p =
     (if evaluationContent p = None then (None, p)
      else case evaluation_template ctx of
             Inl e \<Rightarrow> (Some e, p)
           | Inr h \<Rightarrow> (None, p\<lparr>evaluationContent := Some (EvalCard h)\<rparr>))"

subsection \<open>\<^verbatim>\<open>renderBlocks\<close>\<close>

text \<open>\<^verbatim>\<open>blk && blk.k ? blk.k : alt\<close>\<close>

definition truthy_field_or :: "jsval \<Rightarrow> jsstring \<Rightarrow> jsval \<Rightarrow> error + jsval" where
  "truthy_field_or blk k alt =
     (if truthy blk then bnd (getprop blk k) (\<lambda>v. Inr (if truthy v then v else alt))
      else Inr alt)"

text \<open>\<^verbatim>\<open>blk && Array.isArray(blk.k) ? blk.k : []\<close>, as the list of the elements.\<close>

definition array_or_empty :: "jsval \<Rightarrow> jsstring \<Rightarrow> error + jsval list" where
  "array_or_empty blk k =
     (if truthy blk then
        bnd (getprop blk k) (\<lambda>v. case v of Arr xs \<Rightarrow> Inr xs | _ \<Rightarrow> Inr [])
      else Inr [])"

text \<open>The callbacks that print one element of a list with two of its fields.\<close>

definition pair_item :: "jsstring \<Rightarrow> jsstring \<Rightarrow> jsval \<Rightarrow> error + jsstring \<times> jsstring" where
  "pair_item k1 k2 d =
     bnd (getprop d k1) (\<lambda>a. bnd (ToString a) (\<lambda>s1.
     bnd (getprop d k2) (\<lambda>b. bnd (ToString b) (\<lambda>s2. Inr (s1, s2)))))"

definition link_item :: "jsval \<Rightarrow> error + jsstring \<times> jsstring" where
  "link_item c =
     bnd (getprop c (lit ''url'')) (\<lambda>href. bnd (ToString href) (\<lambda>s1.
     bnd (getprop c (lit ''title'')) (\<lambda>title.
     bnd (if truthy title then Inr title else getprop c (lit ''url'')) (\<lambda>shown.
     bnd (ToString shown) (\<lambda>s2. Inr (s1, s2))))))"

text \<open>\<^verbatim>\<open>${xs.length ? `<ul>${xs.map(f).join("")}</ul>` : "<p>alt</p>"}\<close> on an
  array: the text of the paragraph, or the items.\<close>

definition list_or_note ::
  "jsval list \<Rightarrow> (jsval \<Rightarrow> error + 'a) \<Rightarrow> jsstring \<Rightarrow> error + (jsstring + 'a list)" where
  "list_or_note xs f alt =
     (if xs = [] then Inr (Inl alt) else bnd (traverse f xs) (\<lambda>items. Inr (Inr items)))"

definition summary_template :: "jsval \<Rightarrow> error + summary_card" where
  "summary_template summary =
     bnd (number_or_0 summary (lit ''score'')) (\<lambda>score.
     bnd (truthy_field_or summary (lit ''quality'') (Str (lit ''not_applicable''))) (\<lambda>quality.
     bnd (if truthy summary then getprop summary (lit ''recommended_summary_block'')
          else Inr summary) (\<lambda>recommended.
     bnd (text_or recommended
            (lit ''No recommended summary. Add a concise 120'' @ endash @
             lit ''150 word summary at the top of the page that clearly states what the page is about, who it is for, and the main outcome.''))
       (\<lambda>h_recommended.
     bnd (ToString quality) (\<lambda>h_quality.
     Inr \<lparr>sm_recommended = h_recommended, sm_score = Number_toString score,
          sm_quality = h_quality\<rparr>)))))"

definition definitions_template :: "jsval \<Rightarrow> error + definitions_card" where
  "definitions_template defs =
     bnd (array_or_empty defs (lit ''recommended_definitions'')) (\<lambda>recDefs.
     bnd (truthy_field_or defs (lit ''missing_critical_terms'') (Arr [])) (\<lambda>missing.
     bnd (number_or_0 defs (lit ''score'')) (\<lambda>score.
     bnd (list_or_note recDefs (pair_item (lit ''term'') (lit ''definition''))
            (lit ''No recommended definitions.'')) (\<lambda>h_defs.
     bnd (guarded_joined missing) (\<lambda>h_missing.
     Inr \<lparr>df_definitions = h_defs, df_missing = h_missing,
          df_score = Number_toString score\<rparr>)))))"

definition faq_template :: "jsval \<Rightarrow> error + faq_card" where
  "faq_template faq =
     bnd (array_or_empty faq (lit ''recommended_faqs'')) (\<lambda>recFaqs.
     bnd (number_or_0 faq (lit ''score'')) (\<lambda>score.
     bnd (list_or_note recFaqs (pair_item (lit ''q'') (lit ''a''))
            (lit ''No FAQ suggestions generated.'')) (\<lambda>h_faqs.
     Inr \<lparr>fq_faqs = h_faqs, fq_score = Number_toString score\<rparr>)))"

definition canonical_template :: "jsval \<Rightarrow> error + canonical_card" where
  "canonical_template canon =
     bnd (array_or_empty canon (lit ''recommended_resources'')) (\<lambda>recRes.
     bnd (number_or_0 canon (lit ''score'')) (\<lambda>score.
     bnd (truthy_field_or canon (lit ''why_it_matters'') (Str [])) (\<lambda>why.
     bnd (list_or_note recRes link_item (lit ''No canonical resources recommended.''))
       (\<lambda>h_resources.
     bnd (text_or why
            (lit ''Canonical resources help AI models place your page in a trusted context. Include core internal pillar pages and 1'' @ endash @
             lit ''2 authoritative external sources where relevant.'')) (\<lambda>h_why.
     Inr \<lparr>cn_resources = h_resources, cn_score = Number_toString score,
          cn_why = h_why\<rparr>)))))"

text \<open>One \<^verbatim>\<open>if (el) { el.innerHTML = `...`; }\<close> of \<^verbatim>\<open>renderBlocks\<close>:
  the template is evaluated before the assignment, so a throw leaves the element as
  it was.\<close>

definition write_html ::
  "(page \<Rightarrow> html option) \<Rightarrow> (html option \<Rightarrow> page \<Rightarrow> page) \<Rightarrow> error + html \<Rightarrow> render" where
  "write_html el put content p =
     (if el p = None then (None, p)
      else case content of
             Inl e \<Rightarrow> (Some e, p)
           | Inr h \<Rightarrow> (None, put (Some h) p))"

definition renderBlocks :: "jsval \<Rightarrow> jsval \<Rightarrow> jsval \<Rightarrow> jsval \<Rightarrow> render" where
  "renderBlocks summary defs faq canon =
     and_then
       (write_html summaryBlockEl (\<lambda>h p. p\<lparr>summaryBlockEl := h\<rparr>)
          (bnd (summary_template summary) (\<lambda>h. Inr (SummaryCard h))))
    (and_then
       (write_html definitionsBlockEl (\<lambda>h p. p\<lparr>definitionsBlockEl := h\<rparr>)
          (bnd (definitions_template defs) (\<lambda>h. Inr (DefinitionsCard h))))
    (and_then
       (write_html faqBlockEl (\<lambda>h p. p\<lparr>faqBlockEl := h\<rparr>)
          (bnd (faq_template faq) (\<lambda>h. Inr (FaqCard h))))
       (write_html canonicalBlockEl (\<lambda>h p. p\<lparr>canonicalBlockEl := h\<rparr>)
          (bnd (canonical_template canon) (\<lambda>h. Inr (CanonicalCard h))))))"

subsection \<open>\<^verbatim>\<open>renderResults\<close>\<close>

definition renderResults :: "jsval \<Rightarrow> render" where
  "renderResults data p =
     (if \<not> truthy data then (None, p)
      else
        case
          bnd (getprop data (lit ''page_metadata'')) (\<lambda>page_metadata.
          bnd (getprop data (lit ''executive_summary'')) (\<lambda>executive_summary.
          bnd (getprop data (lit ''llm_interpretation'')) (\<lambda>llm_interpretation.
          bnd (getprop data (lit ''summary_block'')) (\<lambda>summary_block.
          bnd (getprop data (lit ''definitions_block'')) (\<lambda>definitions_block.
          bnd (getprop data (lit ''faq_block'')) (\<lambda>faq_block.
          bnd (getprop data (lit ''canonical_resources_block'')) (\<lambda>canonical_resources_block.
          bnd (getprop data (lit ''score_matrix'')) (\<lambda>score_matrix.
          bnd (getprop data (lit ''fanout_query_analysis'')) (\<lambda>fanout_query_analysis.
          bnd (getprop data (lit ''clarity_readability'')) (\<lambda>clarity_readability.
          bnd (getprop data (lit ''eeat_block'')) (\<lambda>eeat_block.
          bnd (getprop data (lit ''fix_roadmap'')) (\<lambda>fix_roadmap.
          Inr
            (and_then
               (renderArcRank score_matrix clarity_readability faq_block fanout_query_analysis)
            (and_then (renderLlmView llm_interpretation)
            (and_then
               (renderEvaluation
                  (Obj [(lit ''page_metadata'', page_metadata),
                        (lit ''executive_summary'', executive_summary),
                        (lit ''score_matrix'', score_matrix),
                        (lit ''fanout_query_analysis'', fanout_query_analysis),
                        (lit ''clarity_readability'', clarity_readability),
                        (lit ''eeat_block'', eeat_block),
                        (lit ''fix_roadmap'', fix_roadmap)]))
               (renderBlocks summary_block definitions_block faq_block
                  canonical_resources_block))))))))))))))))
        of Inl e \<Rightarrow> (Some e, p) | Inr run \<Rightarrow> run p)"

subsection \<open>\<^verbatim>\<open>analyzeUrl\<close>\<close>

text \<open>
  \<^verbatim>\<open>analyzeUrl\<close> is asynchronous: it runs up to the \<^verbatim>\<open>fetch\<close>, and
  resumes when the promise settles. What the network answers is an input of the
  model: the promise of \<^verbatim>\<open>fetch\<close> rejects or resolves to a response, of which
  the script reads the status (\<^verbatim>\<open>ok\<close> is a status from 200 to 299) and the
  outcome of \<^verbatim>\<open>response.json()\<close>, which rejects when the body is not JSON.
  A request is the endpoint and the \<^verbatim>\<open>url\<close> field of the JSON body posted.
\<close>

record request =
  endpoint :: jsstring
  body_url :: jsstring

record response =
  status :: nat
  json :: "error + jsval"

datatype fetched = Rejected error | Resolved response

definition ok :: "response \<Rightarrow> bool" where
  "ok r \<longleftrightarrow> 200 \<le> status r \<and> status r \<le> 299"

definition API_BASE :: jsstring where
  "API_BASE = lit ''http://127.0.0.1:8000''"

text \<open>\<^verbatim>\<open>(urlInput && urlInput.value || "").trim()\<close>\<close>

definition entered_url :: "page \<Rightarrow> jsstring" where
  "entered_url p = trim (case urlInput p of None \<Rightarrow> [] | Some v \<Rightarrow> v)"

text \<open>The statements of the \<^verbatim>\<open>if (!response.ok)\<close> branch: they end in a
  throw. The status of a response is an integer from 0 to 65535 (an
  \<^verbatim>\<open>unsigned short\<close> of the Fetch standard), and the string of such a number in
  \<^verbatim>\<open>`Request failed: ${response.status}`\<close> is its decimal digits
  (\<open>Number_toString_nat\<close> below proves it of \<open>Number_toString\<close>).\<close>

definition request_failed :: "response \<Rightarrow> error" where
  "request_failed r =
     (let err = (case json r of Inl e \<Rightarrow> Obj [] | Inr v \<Rightarrow> v)
      in case bnd (getprop err (lit ''detail'')) (\<lambda>detail.
              text_or detail (lit ''Request failed: '' @ decimal (status r)))
         of Inl e \<Rightarrow> e | Inr m \<Rightarrow> Error m)"

text \<open>Up to the \<^verbatim>\<open>await\<close>: the validation of the input, and for a URL that is
  not blank the status line, the loading state and the request.\<close>

definition analyzeUrl_begin :: "page \<Rightarrow> page \<times> request option" where
  "analyzeUrl_begin p =
     (let url = entered_url p
      in if url = [] then (setStatus (lit ''Enter a full page URL to analyze.'') True p, None)
         else (setLoading True (setStatus (lit ''Sending page to LLM engine'' @ ellipsis) False p),
               Some \<lparr>endpoint = API_BASE @ lit ''/analyze'', body_url = url\<rparr>))"

text \<open>The rest of the \<^verbatim>\<open>try\<close> block, once the promise has settled.\<close>

definition analyzeUrl_try :: "fetched \<Rightarrow> render" where
  "analyzeUrl_try f p =
     (case f of
        Rejected e \<Rightarrow> (Some e, p)
      | Resolved r \<Rightarrow>
          if \<not> ok r then (Some (request_failed r), p)
          else case json r of
                 Inl e \<Rightarrow> (Some e, p)
               | Inr data \<Rightarrow>
                   and_then (renderResults data)
                     (\<lambda>p'. (None, setStatus (lit ''Analysis complete.'') False p')) p)"

text \<open>\<^verbatim>\<open>catch\<close> shows \<^verbatim>\<open>err.message || "Something went wrong."\<close> as an
  error, and \<^verbatim>\<open>finally\<close> ends the loading state. (\<^verbatim>\<open>console.error\<close>
  writes nothing to the page.)\<close>

definition shown_error :: "error \<Rightarrow> jsstring" where
  "shown_error err = (if message err = [] then lit ''Something went wrong.'' else message err)"

definition analyzeUrl_resume :: "fetched \<Rightarrow> page \<Rightarrow> page" where
  "analyzeUrl_resume f p =
     (case analyzeUrl_try f p of
        (None, p') \<Rightarrow> setLoading False p'
      | (Some err, p') \<Rightarrow>
          setLoading False
            (setStatus (shown_error err) True p'))"

text \<open>A whole run: the page at the end and the request issued, if any. The first
  argument is what the network answers to that request.\<close>

definition analyzeUrl :: "fetched \<Rightarrow> page \<Rightarrow> page \<times> request option" where
  "analyzeUrl f p =
     (case analyzeUrl_begin p of
        (p1, None) \<Rightarrow> (p1, None)
      | (p1, Some rq) \<Rightarrow> (analyzeUrl_resume f p1, Some rq))"

section \<open>Version B: \<^verbatim>\<open>backup/script.js\<close>\<close>

text \<open>\<^verbatim>\<open>setStatus\<close> is the same function in both versions;
  \<^verbatim>\<open>setLoading\<close> differs in the caption it restores.\<close>

definition setLoading_backup :: "bool \<Rightarrow> page \<Rightarrow> page" where
  "setLoading_backup isLoading p =
     (if analyzeBtn p = None \<or> loader p = None then p
      else if isLoading then
        p\<lparr>loader := Some False,
          analyzeBtn := Some \<lparr>disabled = True, caption = lit ''Analyzing'' @ ellipsis\<rparr>\<rparr>
      else
        p\<lparr>loader := Some True,
          analyzeBtn := Some \<lparr>disabled = False, caption = lit ''Analyze''\<rparr>\<rparr>)"

subsection \<open>\<^verbatim>\<open>renderArcRank\<close>\<close>

definition aio_title_backup :: jsstring where
  "aio_title_backup = lit ''AIO '' @ endash @
     lit '' AI Index Optimization: how clearly the page expresses its main topic and purpose for AI models.''"

definition aeo_title_backup :: jsstring where
  "aeo_title_backup = lit ''AEO '' @ endash @
     lit '' Answer Engine Optimization: how well your content directly answers user questions.''"

definition geo_title_backup :: jsstring where
  "geo_title_backup = lit ''GEO '' @ endash @
     lit '' Generative Engine Optimization: how much topical depth is available for generative engines to work with.''"

text \<open>\<^verbatim>\<open>Math.round((overall || 0) * 10)\<close>, shown as
  \<^verbatim>\<open>isNaN(arcNumeric) ? dash : arcNumeric\<close> (the dash is U+2014). The score is whatever the
  document holds, so \<^verbatim>\<open>*\<close> converts it to a number first.\<close>

definition arc_text_backup :: "jsval \<Rightarrow> error + jsstring" where
  "arc_text_backup overall =
     bnd (ToNumber (lor overall zero)) (\<lambda>n.
       let arcNumeric = Math_round (times_num n (Fin 10))
       in Inr (if isNaN arcNumeric then emdash else Number_toString arcNumeric))"

text \<open>\<^verbatim>\<open>v ? v.toFixed(1) : dash\<close> on a value that was not tested for being a
  number.\<close>

definition sub_score_text_backup :: "jsval \<Rightarrow> error + jsstring" where
  "sub_score_text_backup v = (if truthy v then call_toFixed1 v else Inr emdash)"

text \<open>One \<^verbatim>\<open>if (el) { ... }\<close> block on a score element; the text is computed
  inside the block, so it throws only when the element exists.\<close>

definition write_score ::
  "(page \<Rightarrow> score_element option) \<Rightarrow> (score_element option \<Rightarrow> page \<Rightarrow> page) \<Rightarrow>
   error + (score_element \<Rightarrow> score_element) \<Rightarrow> render" where
  "write_score el put change p =
     (case el p of
        None \<Rightarrow> (None, p)
      | Some e \<Rightarrow> (case change of Inl err \<Rightarrow> (Some err, p) | Inr g \<Rightarrow> (None, put (Some (g e)) p)))"

definition renderArcRank_backup :: "jsval \<Rightarrow> render" where
  "renderArcRank_backup evaluation p =
     (if \<not> truthy evaluation then (None, p)
      else
        case
          bnd (getprop evaluation (lit ''scores'')) (\<lambda>scores.
          if \<not> truthy scores then Inr (\<lambda>p. (None, p))
          else
            bnd (field_or scores (lit ''intent_clarity'') zero) (\<lambda>intent_clarity.
            bnd (field_or scores (lit ''coverage'') zero) (\<lambda>coverage.
            bnd (field_or scores (lit ''structure'') zero) (\<lambda>structure.
            bnd (field_or scores (lit ''definitions'') zero) (\<lambda>definitions.
            bnd (field_or scores (lit ''answerability'') zero) (\<lambda>answerability.
            bnd (field_or scores (lit ''trust'') zero) (\<lambda>trust.
            bnd (field_or scores (lit ''overall'') zero) (\<lambda>overall.
            let aio = intent_clarity; aeo = answerability; geo = coverage
            in Inr
              (and_then
                 (write_score arcScoreEl (\<lambda>e p. p\<lparr>arcScoreEl := e\<rparr>)
                    (bnd (arc_text_backup overall) (\<lambda>t. Inr (score_text_update (\<lambda>_. t)))))
              (and_then
                 (write_score scoreAioEl (\<lambda>e p. p\<lparr>scoreAioEl := e\<rparr>)
                    (bnd (sub_score_text_backup aio) (\<lambda>t.
                       Inr (\<lambda>e. e\<lparr>score_text := t, score_title := aio_title_backup\<rparr>))))
              (and_then
                 (write_score scoreAeoEl (\<lambda>e p. p\<lparr>scoreAeoEl := e\<rparr>)
                    (bnd (sub_score_text_backup aeo) (\<lambda>t.
                       Inr (\<lambda>e. e\<lparr>score_text := t, score_title := aeo_title_backup\<rparr>))))
                 (write_score scoreGeoEl (\<lambda>e p. p\<lparr>scoreGeoEl := e\<rparr>)
                    (bnd (sub_score_text_backup geo) (\<lambda>t.
                       Inr (\<lambda>e. e\<lparr>score_text := t, score_title := geo_title_backup\<rparr>)))))))
            ))))))))
        of Inl e \<Rightarrow> (Some e, p) | Inr run \<Rightarrow> run p)"

subsection \<open>\<^verbatim>\<open>renderLlmView\<close>\<close>

definition llm_template_backup :: "jsval \<Rightarrow> error + llm_card_b" where
  "llm_template_backup view =
     bnd (getprop view (lit ''primary_topic'')) (\<lambda>primary_topic.
     bnd (getprop view (lit ''primary_intent'')) (\<lambda>primary_intent.
     bnd (getprop view (lit ''audience'')) (\<lambda>audience.
     bnd (field_or view (lit ''user_questions_answered'') (Arr [])) (\<lambda>user_questions_answered.
     bnd (field_or view (lit ''user_questions_missing'') (Arr [])) (\<lambda>user_questions_missing.
     bnd (field_or view (lit ''key_facts'') (Arr [])) (\<lambda>key_facts.
     bnd (field_or view (lit ''important_entities'') (Arr [])) (\<lambda>important_entities.
     bnd (text_or primary_topic emdash) (\<lambda>h1.
     bnd (text_or primary_intent emdash) (\<lambda>h2.
     bnd (text_or audience emdash) (\<lambda>h3.
     bnd (section_items important_entities) (\<lambda>h4.
     bnd (section_items key_facts) (\<lambda>h5.
     bnd (section_items user_questions_answered) (\<lambda>h6.
     bnd (section_items user_questions_missing) (\<lambda>h7.
     Inr \<lparr>lb_primary_topic = h1, lb_primary_intent = h2, lb_audience = h3,
          lb_important_entities = h4, lb_key_facts = h5,
          lb_questions_answered = h6, lb_questions_missing = h7\<rparr>))))))))))))))"

definition renderLlmView_backup :: "jsval \<Rightarrow> render" where
  "renderLlmView_backup view p =
     (if \<not> truthy view \<or> llmViewContent p = None then (None, p)
      else case llm_template_backup view of
             Inl e \<Rightarrow> (Some e, p)
           | Inr h \<Rightarrow> (None, p\<lparr>llmViewContent := Some (LlmCardB h)\<rparr>))"

subsection \<open>\<^verbatim>\<open>renderEvaluation\<close>\<close>

text \<open>\<^verbatim>\<open>${typeof v === "number" ? `... ${v}/10 ...` : ""}\<close>\<close>

definition number_text :: "jsval \<Rightarrow> jsstring option" where
  "number_text v = (case v of Num n \<Rightarrow> Some (Number_toString n) | _ \<Rightarrow> None)"

text \<open>\<^verbatim>\<open>${xs.length || ys.length ? `... ${xs.map(f).join("")} ${ys.map(f).join("")} ...` : ""}\<close>\<close>

definition two_lists :: "jsval \<Rightarrow> jsval \<Rightarrow> error + (jsstring list \<times> jsstring list) option" where
  "two_lists xs ys =
     bnd (getprop xs (lit ''length'')) (\<lambda>n.
     bnd (if truthy n then Inr n else getprop ys (lit ''length'')) (\<lambda>m.
       if truthy m then
         bnd (call_map xs ToString) (\<lambda>a. bnd (call_map ys ToString) (\<lambda>b. Inr (Some (a, b))))
       else Inr None))"

definition scoreRows_backup ::
  "jsval \<times> jsval \<times> jsval \<times> jsval \<times> jsval \<times> jsval \<times> jsval \<Rightarrow>
   (jsstring \<times> jsval \<times> jsstring) list" where
  "scoreRows_backup m =
     (case m of
        (intent_clarity, coverage, structure, definitions, answerability, trust,
         canonical_score) \<Rightarrow>
          [(lit ''Intent clarity'', intent_clarity,
              lit ''How clearly the page expresses its purpose and main topic.''),
           (lit ''Coverage'', coverage,
              lit ''How completely the page covers the topic and related subtopics.''),
           (lit ''Structure'', structure,
              lit ''How well the headings, sections, and layout support AI parsing.''),
           (lit ''Definitions'', definitions,
              lit ''Whether key concepts and entities are clearly defined for AI.''),
           (lit ''Answerability'', answerability,
              lit ''How well the page answers concrete questions users ask.''),
           (lit ''Trust'', trust, lit ''Signals of expertise, accuracy, and reliability.''),
           (lit ''Canonical'', canonical_score,
              lit ''Internal + external resources that help AI place this page in context.'')])"

definition verdictClass_backup :: "jsval \<Rightarrow> jsstring" where
  "verdictClass_backup verdict =
     (if verdict = Str (lit ''excellent'') \<or> verdict = Str (lit ''good'')
      then lit ''verdict-pill verdict-pill--good''
      else lit ''verdict-pill verdict-pill--poor'')"

definition evaluation_template_backup :: "jsval \<Rightarrow> error + eval_card_b" where
  "evaluation_template_backup ev =
     bnd (getprop ev (lit ''scores'')) (\<lambda>ev_scores.
     let scores = lor ev_scores (Obj []) in
     bnd (field_or scores (lit ''intent_clarity'') zero) (\<lambda>intent_clarity.
     bnd (field_or scores (lit ''coverage'') zero) (\<lambda>coverage.
     bnd (field_or scores (lit ''structure'') zero) (\<lambda>structure.
     bnd (field_or scores (lit ''definitions'') zero) (\<lambda>definitions.
     bnd (field_or scores (lit ''answerability'') zero) (\<lambda>answerability.
     bnd (field_or scores (lit ''trust'') zero) (\<lambda>trust.
     bnd (field_or scores (lit ''overall'') zero) (\<lambda>overall.
     bnd (getprop ev (lit ''verdict'')) (\<lambda>verdict.
     bnd (field_or ev (lit ''issues'') (Arr [])) (\<lambda>issues.
     bnd (field_or ev (lit ''recommendations'') (Arr [])) (\<lambda>recommendations.
     bnd (field_or ev (lit ''priority_fixes'') (Arr [])) (\<lambda>priority_fixes.
     bnd (getprop ev (lit ''canonical_score'')) (\<lambda>canonical_score.
     bnd (field_or ev (lit ''canonical_issues'') (Arr [])) (\<lambda>canonical_issues.
     bnd (field_or ev (lit ''canonical_recommendations'') (Arr [])) (\<lambda>canonical_recommendations.
     bnd (getprop ev (lit ''llm_ready'')) (\<lambda>llm_ready.
     bnd (text_or verdict emdash) (\<lambda>h_verdict.
     bnd (ToString overall) (\<lambda>h_overall.
     bnd (section_items priority_fixes) (\<lambda>h_priority_fixes.
     bnd (section_items issues) (\<lambda>h_issues.
     bnd (section_items recommendations) (\<lambda>h_recommendations.
     bnd (two_lists canonical_issues canonical_recommendations) (\<lambda>h_notes.
     Inr \<lparr>eb_class = verdictClass_backup verdict,
          eb_verdict = h_verdict,
          eb_llm_ready = yes_no (truthy llm_ready),
          eb_overall = h_overall,
          eb_canonical_score = number_text canonical_score,
          eb_score_bars =
            map score_bar
              (scoreRows_backup (intent_clarity, coverage, structure, definitions,
                                 answerability, trust, canonical_score)),
          eb_priority_fixes = h_priority_fixes,
          eb_issues = h_issues,
          eb_recommendations = h_recommendations,
          eb_canonical_notes = h_notes\<rparr>
     ))))))))))))))))))))))"

definition renderEvaluation_backup :: "jsval \<Rightarrow> render" where
  "renderEvaluation_backup ev p =
     (if \<not> truthy ev \<or> evaluationContent p = None then (None, p)
      else case evaluation_template_backup ev of
             Inl e \<Rightarrow> (Some e, p)
           | Inr h \<Rightarrow> (None, p\<lparr>evaluationContent := Some (EvalCardB h)\<rparr>))"

subsection \<open>\<^verbatim>\<open>renderBlocks\<close>\<close>

text \<open>\<^verbatim>\<open>${xs.length ? `<ul>${xs.map(f).join("")}</ul>` : "<p>alt</p>"}\<close> on a value
  that was not tested for being an array.\<close>

definition mapped_or_note ::
  "jsval \<Rightarrow> (jsval \<Rightarrow> error + 'a) \<Rightarrow> jsstring \<Rightarrow> error + (jsstring + 'a list)" where
  "mapped_or_note xs f alt =
     bnd (getprop xs (lit ''length'')) (\<lambda>n.
       if truthy n then bnd (call_map xs f) (\<lambda>items. Inr (Inr items)) else Inr (Inl alt))"

definition definition_item :: "jsval \<Rightarrow> error + jsstring \<times> jsstring \<times> jsstring" where
  "definition_item d =
     bnd (getprop d (lit ''term'')) (\<lambda>a. bnd (ToString a) (\<lambda>s1.
     bnd (getprop d (lit ''definition'')) (\<lambda>b. bnd (ToString b) (\<lambda>s2.
     bnd (getprop d (lit ''context'')) (\<lambda>c. bnd (text_or c []) (\<lambda>s3.
     Inr (s1, s2, s3)))))))"

definition summary_template_backup :: "jsval \<Rightarrow> error + summary_card_b" where
  "summary_template_backup summary =
     bnd (getprop summary (lit ''purpose'')) (\<lambda>purpose.
     bnd (text_or purpose emdash) (\<lambda>h_purpose.
     bnd (getprop summary (lit ''audience'')) (\<lambda>audience.
     bnd (text_or audience emdash) (\<lambda>h_audience.
     bnd (getprop summary (lit ''key_points'')) (\<lambda>key_points.
     bnd (guarded_items key_points) (\<lambda>h_key_points.
     Inr \<lparr>sb_purpose = h_purpose, sb_audience = h_audience,
          sb_key_points = h_key_points\<rparr>))))))"

definition renderBlocks_backup :: "jsval \<Rightarrow> render" where
  "renderBlocks_backup blocks p =
     (if \<not> truthy blocks then (None, p)
      else
        case
          bnd (getprop blocks (lit ''summary_block'')) (\<lambda>summary_block.
          bnd (getprop blocks (lit ''definitions_block'')) (\<lambda>definitions_block.
          bnd (getprop blocks (lit ''faq_block'')) (\<lambda>faq_block.
          bnd (getprop blocks (lit ''canonical_resources'')) (\<lambda>canonical_resources.
          let summary = lor summary_block (Obj []);
              defs = lor definitions_block (Arr []);
              faq = lor faq_block (Arr []);
              canon = lor canonical_resources (Arr [])
          in Inr
            (and_then
               (write_html summaryBlockEl (\<lambda>h p. p\<lparr>summaryBlockEl := h\<rparr>)
                  (bnd (summary_template_backup summary) (\<lambda>h. Inr (SummaryCardB h))))
            (and_then
               (write_html definitionsBlockEl (\<lambda>h p. p\<lparr>definitionsBlockEl := h\<rparr>)
                  (bnd (mapped_or_note defs definition_item (lit ''No definitions generated.''))
                     (\<lambda>h. Inr (DefinitionsCardB h))))
            (and_then
               (write_html faqBlockEl (\<lambda>h p. p\<lparr>faqBlockEl := h\<rparr>)
                  (bnd (mapped_or_note faq (pair_item (lit ''question'') (lit ''answer''))
                          (lit ''No FAQ generated.''))
                     (\<lambda>h. Inr (FaqCardB h))))
               (write_html canonicalBlockEl (\<lambda>h p. p\<lparr>canonicalBlockEl := h\<rparr>)
                  (bnd (mapped_or_note canon link_item (lit ''No canonical resources.''))
                     (\<lambda>h. Inr (CanonicalCardB h)))))))))))
        of Inl e \<Rightarrow> (Some e, p) | Inr run \<Rightarrow> run p)"

subsection \<open>\<^verbatim>\<open>renderResults\<close>\<close>

definition renderResults_backup :: "jsval \<Rightarrow> render" where
  "renderResults_backup data p =
     (let d = lor data (Obj [])
      in case
           bnd (getprop d (lit ''llm_view'')) (\<lambda>llm_view.
           bnd (getprop d (lit ''evaluation'')) (\<lambda>evaluation.
           bnd (getprop d (lit ''blocks'')) (\<lambda>blocks.
           Inr
             (and_then (renderArcRank_backup evaluation)
             (and_then (renderLlmView_backup llm_view)
             (and_then (renderEvaluation_backup evaluation)
                       (renderBlocks_backup blocks)))))))
         of Inl e \<Rightarrow> (Some e, p) | Inr run \<Rightarrow> run p)"

subsection \<open>\<^verbatim>\<open>analyzeUrl\<close>\<close>

text \<open>Version B also hides the results wrapper while the request is out and shows it
  again after a successful rendering.\<close>

definition set_wrapper_hidden :: "bool \<Rightarrow> page \<Rightarrow> page" where
  "set_wrapper_hidden h p =
     (if resultsWrapper p = None then p else p\<lparr>resultsWrapper := Some h\<rparr>)"

definition analyzeUrl_begin_backup :: "page \<Rightarrow> page \<times> request option" where
  "analyzeUrl_begin_backup p =
     (let url = entered_url p
      in if url = [] then (setStatus (lit ''Enter a URL to analyze.'') True p, None)
         else (set_wrapper_hidden True
                 (setLoading_backup True
                    (setStatus (lit ''Sending page to LLM engine'' @ ellipsis) False p)),
               Some \<lparr>endpoint = API_BASE @ lit ''/analyze'', body_url = url\<rparr>))"

definition analyzeUrl_try_backup :: "fetched \<Rightarrow> render" where
  "analyzeUrl_try_backup f p =
     (case f of
        Rejected e \<Rightarrow> (Some e, p)
      | Resolved r \<Rightarrow>
          if \<not> ok r then (Some (request_failed r), p)
          else case json r of
                 Inl e \<Rightarrow> (Some e, p)
               | Inr data \<Rightarrow>
                   and_then (renderResults_backup data)
                     (\<lambda>p'. (None, setStatus (lit ''Analysis complete.'') False
                                    (set_wrapper_hidden False p'))) p)"

definition analyzeUrl_resume_backup :: "fetched \<Rightarrow> page \<Rightarrow> page" where
  "analyzeUrl_resume_backup f p =
     (case analyzeUrl_try_backup f p of
        (None, p') \<Rightarrow> setLoading_backup False p'
      | (Some err, p') \<Rightarrow>
          setLoading_backup False
            (setStatus (shown_error err) True p'))"

definition analyzeUrl_backup :: "fetched \<Rightarrow> page \<Rightarrow> page \<times> request option" where
  "analyzeUrl_backup f p =
     (case analyzeUrl_begin_backup p of
        (p1, None) \<Rightarrow> (p1, None)
      | (p1, Some rq) \<Rightarrow> (analyzeUrl_resume_backup f p1, Some rq))"

section \<open>Sample data\<close>

text \<open>A page that has every element, as the markup the scripts were written for, and
  the document of the specification's end-to-end example.\<close>

definition sample_page :: page where
  "sample_page =
     \<lparr>urlInput = Some (lit ''https://example.com/post''),
      analyzeBtn = Some \<lparr>disabled = False, caption = lit ''Run analysis''\<rparr>,
      loader = Some True,
      statusText = Some \<lparr>status_text = [], status_color = []\<rparr>,
      resultsWrapper = Some True,
      llmViewContent = Some (Static []),
      evaluationContent = Some (Static []),
      summaryBlockEl = Some (Static []),
      definitionsBlockEl = Some (Static []),
      faqBlockEl = Some (Static []),
      canonicalBlockEl = Some (Static []),
      arcScoreEl = Some \<lparr>score_text = lit ''82'', score_title = []\<rparr>,
      scoreAioEl = Some \<lparr>score_text = lit ''7.3'', score_title = []\<rparr>,
      scoreAeoEl = Some \<lparr>score_text = lit ''6.0'', score_title = []\<rparr>,
      scoreGeoEl = Some \<lparr>score_text = lit ''5.5'', score_title = []\<rparr>\<rparr>"

definition sample_result :: jsval where
  "sample_result =
     Obj [(lit ''score_matrix'', Obj [(lit ''final_score'', Num (Fin 82))]),
          (lit ''clarity_readability'', Obj [(lit ''score'', Num (round_double (73 / 10)))]),
          (lit ''faq_block'', Obj [(lit ''recommended_faqs'', Arr [])])]"

text \<open>The same document with a clarity entry in \<^verbatim>\<open>score_matrix\<close>, and the sample
  page with nothing yet in the overall and AIO scores.\<close>

definition sample_result_with_bar :: jsval where
  "sample_result_with_bar =
     Obj [(lit ''score_matrix'',
             Obj [(lit ''final_score'', Num (Fin 82)),
                  (lit ''clarity'', Num (round_double (73 / 10)))]),
          (lit ''clarity_readability'', Obj [(lit ''score'', Num (round_double (73 / 10)))]),
          (lit ''faq_block'', Obj [(lit ''recommended_faqs'', Arr [])])]"

definition fresh_page :: page where
  "fresh_page =
     sample_page\<lparr>arcScoreEl := Some \<lparr>score_text = [], score_title = []\<rparr>,
                 scoreAioEl := Some \<lparr>score_text = [], score_title = []\<rparr>\<rparr>"

section \<open>Notions the properties use\<close>

text \<open>Reading a document by a path of field names, \<^verbatim>\<open>undefined\<close> where the
  path leaves it: what optional chaining \<^verbatim>\<open>v?.a?.b\<close> reads.\<close>

definition field :: "jsval \<Rightarrow> jsstring \<Rightarrow> jsval" where
  "field v k = (case getprop v k of Inl e \<Rightarrow> Undefined | Inr x \<Rightarrow> x)"

fun path :: "jsval \<Rightarrow> jsstring list \<Rightarrow> jsval" where
  "path v [] = v"
| "path v (k # ks) = path (field v k) ks"

text \<open>A value with the default a destructuring pattern gives it.\<close>

definition or_default :: "jsval \<Rightarrow> jsval \<Rightarrow> jsval" where
  "or_default d v = (if v = Undefined then d else v)"

text \<open>The elements that make the form: the input, the button and the loader.\<close>

definition controls :: "page \<Rightarrow> jsstring option \<times> button option \<times> bool option" where
  "controls p = (urlInput p, analyzeBtn p, loader p)"

text \<open>The verdicts that get the positive class, in version A and in version B.\<close>

definition positive_verdicts :: "jsstring set" where
  "positive_verdicts = {lit ''Ready'', lit ''Partially Ready''}"

definition positive_verdicts_backup :: "jsstring set" where
  "positive_verdicts_backup = {lit ''excellent'', lit ''good''}"

text \<open>Where the scores of the bars are in the document, in the order of the rows:
  in the context of version A and in the evaluation of version B.\<close>

definition score_paths :: "jsstring list list" where
  "score_paths =
     map (\<lambda>k. [lit ''score_matrix'', k])
       [lit ''summary_block'', lit ''definitions'', lit ''faq'', lit ''fanout_match'',
        lit ''canonical_resources'', lit ''structure'', lit ''clarity'', lit ''eeat'']"

definition score_paths_backup :: "jsstring list list" where
  "score_paths_backup =
     map (\<lambda>k. [lit ''scores'', k])
       [lit ''intent_clarity'', lit ''coverage'', lit ''structure'', lit ''definitions'',
        lit ''answerability'', lit ''trust'']
     @ [[lit ''canonical_score'']]"

text \<open>The four elements of the score header.\<close>

definition score_header ::
  "page \<Rightarrow> score_element option \<times> score_element option \<times> score_element option \<times>
           score_element option" where
  "score_header p = (arcScoreEl p, scoreAioEl p, scoreAeoEl p, scoreGeoEl p)"

text \<open>The score bars an element shows, if it holds an evaluation card.\<close>

definition bars_shown :: "html option \<Rightarrow> score_row option list" where
  "bars_shown el =
     (case el of
        Some (EvalCard h) \<Rightarrow> ec_score_bars h
      | Some (EvalCardB h) \<Rightarrow> eb_score_bars h
      | _ \<Rightarrow> [])"

text \<open>The number a defensive read of a score gives: the value when it is a number,
  and 0 otherwise.\<close>

definition number_else_0 :: "jsval \<Rightarrow> jsnum" where
  "number_else_0 v = (case v of Num n \<Rightarrow> n | _ \<Rightarrow> Fin 0)"

text \<open>The text of a score element, where the page has the element.\<close>

definition shown :: "score_element option \<Rightarrow> jsstring option" where
  "shown el = map_option score_text el"

text \<open>\<open>clamp v lo hi\<close>, as the specification writes it.\<close>

definition clamp :: "real \<Rightarrow> real \<Rightarrow> real \<Rightarrow> real" where
  "clamp v lo hi = (if v < lo then lo else if hi < v then hi else v)"

section \<open>Properties\<close>

subsection \<open>Doubles and their strings\<close>

lemmas num_defs =
  round_double_def quantum_def nearest_multiple_def or_infinity_def floor_log_def
  log_up.simps log_down.simps pow2_def pow10_def round_half_even_def shortest_digits.simps
  unit_of_def lower_def reads_back_def lower_nearer_def carried_def unsigned_toString_def
  place_point_def zeros.simps exponent_text_def unsigned_toFixed1_def decimal.simps digit_def

text \<open>The doubles of the numerals 7.3 and 7.36, and the product of the latter and 10: the
  exact product \<open>73.6000000000000031\<dots>\<close> lies between two doubles and is rounded up.\<close>

lemma double_73: "round_double (73 / 10) = Fin (8219069319951155 / 2 ^ 50)"
  by (simp add: num_defs)

lemma double_736: "round_double (736 / 100) = Fin (8286623314361713 / 2 ^ 50)"
  by (simp add: num_defs)

lemma product_736:
  "times_num (Fin (8286623314361713 / 2 ^ 50)) (Fin 10) = Fin (5179139571476071 / 2 ^ 46)"
  by (simp add: num_defs)

text \<open>Strings as the engines print them: the shortest digits, the exponent form from
  \<open>10\<^sup>2\<^sup>1\<close> on and below \<open>10\<^sup>-\<^sup>6\<close>, and \<^verbatim>\<open>toFixed\<close> on the exact value
  of the double.\<close>

lemma printed_doubles:
  "Number_toString (round_double (1 / 10)) = lit ''0.1''"
  "Number_toString (round_double (- 25 / 10)) = lit ''-2.5''"
  "Number_toString (Fin (5179139571476071 / 2 ^ 46)) = lit ''73.60000000000001''"
  "Number_toString (round_double (10 ^ 21)) = lit ''1e+21''"
  "Number_toString (round_double 123456789012345678901) = lit ''123456789012345680000''"
  "Number_toString (round_double (1 / 10 ^ 6)) = lit ''0.000001''"
  "Number_toString (round_double (15 / 10 ^ 8)) = lit ''1.5e-7''"
  by (simp_all add: num_defs lit_def)

lemma fixed_doubles:
  "toFixed1 (round_double (835 / 100)) = lit ''8.3''"
  "toFixed1 (round_double (736 / 100)) = lit ''7.4''"
  "toFixed1 (round_double (25 / 100)) = lit ''0.3''"
  by (simp_all add: num_defs lit_def)

text \<open>
  A natural number below \<open>2\<^sup>5\<^sup>3\<close> is a double, and the string of one below
  \<open>10\<^sup>1\<^sup>5\<close> is its decimal digits: the shortest digits that read back are those of
  the number without its final zeros. This is the case of every status code.
\<close>

lemma log_up_char:
  assumes "2 \<le> b" and "1 \<le> x"
  shows "e \<le> log_up b x e \<and> b ^ nat (log_up b x e - e) \<le> x \<and> x < b ^ (nat (log_up b x e - e) + 1)"
  using assms
proof (induction b x e rule: log_up.induct)
  case (1 b x e)
  show ?case
  proof (cases "b \<le> x")
    case True
    then have r: "log_up b x e = log_up b (x / b) (e + 1)"
      using 1(2) by (subst log_up.simps) simp
    have x1: "1 \<le> x / b" using True 1(2) by (simp add: field_simps)
    have ih: "e + 1 \<le> log_up b (x / b) (e + 1) \<and>
          b ^ nat (log_up b (x / b) (e + 1) - (e + 1)) \<le> x / b \<and>
          x / b < b ^ (nat (log_up b (x / b) (e + 1) - (e + 1)) + 1)"
      using 1(1) True 1(2) x1 by simp
    define j where "j = nat (log_up b (x / b) (e + 1) - (e + 1))"
    have n: "nat (log_up b x e - e) = j + 1"
      unfolding r j_def using ih by linarith
    have b0: "0 < b" using 1(2) by simp
    have "b ^ j \<le> x / b" "x / b < b ^ (j + 1)" using ih by (simp_all add: j_def)
    then have "b ^ (j + 1) \<le> x" "x < b ^ (j + 1 + 1)"
      using b0 by (simp_all add: field_simps)
    then show ?thesis unfolding n using ih r by simp
  next
    case False
    then have r: "log_up b x e = e" by (subst log_up.simps) simp
    show ?thesis unfolding r using False 1(3) by simp
  qed
qed

lemma floor_log_nat:
  assumes "2 \<le> b" and "1 \<le> x"
  shows "0 \<le> floor_log b x" and "b ^ nat (floor_log b x) \<le> x"
    and "x < b ^ (nat (floor_log b x) + 1)"
  using log_up_char [OF assms, of 0] assms(2) by (simp_all add: floor_log_def)

lemma round_half_even_int [simp]: "round_half_even (real_of_int z) = z"
  by (simp add: round_half_even_def)

lemma round_double_nat:
  assumes "m < 2 ^ 53"
  shows "round_double (real m) = Fin (real m)"
proof (cases "m = 0")
  case True
  then show ?thesis by (simp add: round_double_def)
next
  case False
  then have x: "1 \<le> real m" by simp
  define e where "e = floor_log 2 (real m)"
  have e0: "0 \<le> e" and lo: "2 ^ nat e \<le> real m"
    using floor_log_nat(1,2) [OF _ x, of 2] by (simp_all add: e_def)
  have "(2::real) ^ nat e < 2 ^ 53"
  proof -
    have "real m < 2 ^ 53" using assms by (metis of_nat_less_iff of_nat_numeral of_nat_power)
    with lo show ?thesis by linarith
  qed
  then have lt: "(2::real) ^ nat e < 2 ^ 53" .
  have "nat e < 53"
  proof (rule ccontr)
    assume "\<not> nat e < 53"
    then have "53 \<le> nat e" by simp
    then have "(2::real) ^ 53 \<le> 2 ^ nat e" by (intro power_increasing) simp_all
    with lt show False by linarith
  qed
  then have e52: "e \<le> 52" by linarith
  define c where "c = nat (52 - e)"
  have q: "quantum (real m) = 1 / 2 ^ c"
  proof (cases "e = 52")
    case True
    then show ?thesis by (simp add: quantum_def pow2_def c_def e_def [symmetric])
  next
    case False
    then have "e - 52 < 0" using e52 by simp
    moreover have "max e (- 1022) = e" using e0 by simp
    ultimately show ?thesis
      by (simp add: quantum_def pow2_def c_def e_def [symmetric])
  qed
  have "real m / (1 / 2 ^ c) = real_of_int (int (m * 2 ^ c))" by simp
  then have "round_half_even (real m / (1 / 2 ^ c)) = int (m * 2 ^ c)"
    by (simp only: round_half_even_int)
  then have n: "nearest_multiple (quantum (real m)) (real m) = real m"
    by (simp add: nearest_multiple_def q)
  have "real m < 2 ^ 1024"
  proof -
    have "real m < 2 ^ 53" using assms by (metis of_nat_less_iff of_nat_numeral of_nat_power)
    also have "\<dots> < (2::real) ^ 1024" by (rule power_strict_increasing) simp_all
    finally show ?thesis .
  qed
  moreover have "- (2 ^ 1024) < real m"
  proof -
    have "- ((2::real) ^ 1024) < 0" by simp
    also have "0 \<le> real m" by simp
    finally show ?thesis .
  qed
  ultimately have "or_infinity (real m) = Fin (real m)"
    unfolding or_infinity_def by (simp only: not_le [symmetric] if_False)
  then show ?thesis
    using False n by (simp add: round_double_def)
qed

lemma decimal_bounds:
  "0 < n \<Longrightarrow> 10 ^ (length (decimal n) - 1) \<le> n \<and> n < 10 ^ length (decimal n)"
proof (induction n rule: decimal.induct)
  case (1 n)
  show ?case
  proof (cases "n < 10")
    case True
    then have "decimal n = [digit n]" by (subst decimal.simps) simp
    then show ?thesis using True 1(2) by simp
  next
    case False
    then have d: "decimal n = decimal (n div 10) @ [digit (n mod 10)]"
      by (subst decimal.simps) simp
    have pos: "0 < n div 10" using False by simp
    define l where "l = length (decimal (n div 10))"
    have ih: "10 ^ (l - 1) \<le> n div 10" "n div 10 < 10 ^ l"
      using 1(1) [OF False pos] by (simp_all add: l_def)
    have l1: "1 \<le> l"
    proof (rule ccontr)
      assume "\<not> 1 \<le> l"
      then have "l = 0" by simp
      with ih(2) pos show False by simp
    qed
    then have "(10::nat) ^ l = 10 * 10 ^ (l - 1)" by (cases l) simp_all
    then have "10 ^ l \<le> 10 * (n div 10)" using ih(1) by simp
    then have lo: "10 ^ l \<le> n" by linarith
    have "n < 10 * (n div 10 + 1)" using dividend_less_times_div [of 10 n] by simp
    also have "\<dots> \<le> 10 * 10 ^ l" using ih(2) by simp
    finally have hi: "n < 10 ^ (l + 1)" by simp
    show ?thesis using lo hi by (simp add: d l_def [symmetric])
  qed
qed

lemma zeros_replicate: "zeros (int j) = replicate j (digit 0)"
proof (induction j)
  case 0
  show ?case by (subst zeros.simps) simp
next
  case (Suc j)
  have "zeros (int (Suc j)) = digit 0 # zeros (int (Suc j) - 1)"
    by (subst zeros.simps) simp
  then show ?case using Suc by simp
qed

lemma decimal_times_power:
  "0 < m \<Longrightarrow> decimal (m * 10 ^ j) = decimal m @ replicate j (digit 0)"
proof (induction j)
  case 0
  then show ?case by simp
next
  case (Suc j)
  have "\<not> m * 10 ^ Suc j < 10" using Suc(2) by simp
  then have "decimal (m * 10 ^ Suc j)
      = decimal (m * 10 ^ Suc j div 10) @ [digit (m * 10 ^ Suc j mod 10)]"
    by (subst decimal.simps) simp
  also have "m * 10 ^ Suc j div 10 = m * 10 ^ j" by simp
  also have "m * 10 ^ Suc j mod 10 = 0" by simp
  finally show ?case
    using Suc by (simp add: replicate_append_same)
qed

lemma floor_log_decimal:
  assumes "0 < n"
  shows "floor_log 10 (real n) = int (length (decimal n)) - 1"
proof -
  have x: "1 \<le> real n" using assms by simp
  define r where "r = nat (floor_log 10 (real n))"
  define l where "l = length (decimal n)"
  have r0: "0 \<le> floor_log 10 (real n)" and "10 ^ r \<le> real n" and "real n < 10 ^ (r + 1)"
    using floor_log_nat [OF _ x, of 10] by (simp_all add: r_def)
  then have r: "10 ^ r \<le> n" "n < 10 ^ (r + 1)"
    by (metis of_nat_le_iff of_nat_numeral of_nat_power,
        metis of_nat_less_iff of_nat_numeral of_nat_power)
  have l: "10 ^ (l - 1) \<le> n" "n < 10 ^ l"
    using decimal_bounds [OF assms] by (simp_all add: l_def)
  have a: "(10::nat) ^ r < 10 ^ l" using r(1) l(2) by linarith
  have "r < l" by (rule power_less_imp_less_exp [of "10::nat"], simp, fact a)
  moreover have b: "(10::nat) ^ (l - 1) < 10 ^ (r + 1)" using r(2) l(1) by linarith
  have "l - 1 < r + 1" by (rule power_less_imp_less_exp [of "10::nat"], simp, fact b)
  ultimately have "int r = int l - 1" by linarith
  then show ?thesis using r0 by (simp add: r_def l_def)
qed

lemma Fin_real_eq: "Fin (real a) = Fin (real b) \<longleftrightarrow> a = b"
  by simp

lemma reads_back_lower:
  assumes "n < 2 ^ 53" and "0 < u"
  shows "reads_back (real n) (int (n div u)) (real u) \<longleftrightarrow> u dvd n"
proof -
  have le: "n div u * u \<le> n" by simp
  then have "n div u * u < 2 ^ 53" using assms(1) by linarith
  then have "round_double (real (n div u * u)) = Fin (real (n div u * u))"
    by (rule round_double_nat)
  moreover have "real_of_int (int (n div u)) * real u = real (n div u * u)" by simp
  ultimately have "reads_back (real n) (int (n div u)) (real u) \<longleftrightarrow> n div u * u = n"
    unfolding reads_back_def by (simp only: Fin_real_eq)
  also have "\<dots> \<longleftrightarrow> u dvd n"
    by (metis dvd_div_mult_self dvd_triv_right)
  finally show ?thesis .
qed

lemma reads_back_upper:
  assumes "(n div u + 1) * u < 2 ^ 53" and "0 < u"
  shows "\<not> reads_back (real n) (int (n div u) + 1) (real u)"
proof -
  have "round_double (real ((n div u + 1) * u)) = Fin (real ((n div u + 1) * u))"
    using assms(1) by (rule round_double_nat)
  moreover have "real_of_int (int (n div u) + 1) * real u = real ((n div u + 1) * u)"
    by (simp add: algebra_simps)
  ultimately have "reads_back (real n) (int (n div u) + 1) (real u)
      \<longleftrightarrow> (n div u + 1) * u = n"
    unfolding reads_back_def by (simp only: Fin_real_eq)
  moreover have "n < (n div u + 1) * u"
    using dividend_less_times_div [OF assms(2), of n] by (simp add: algebra_simps)
  ultimately show ?thesis by simp
qed

lemma upper_candidate_le: "(n div u + 1) * u \<le> n + (u::nat)"
  using div_times_less_eq_dividend [of n u] by (simp add: algebra_simps)

lemma shortest_digits_nat:
  assumes n: "0 < n" "n < 10 ^ 15" and j: "j < length (decimal n)"
  shows "\<exists>i\<le>j. 10 ^ i dvd n \<and>
           shortest_digits (length (decimal n) - j) (real n) (int (length (decimal n)))
             = (int (n div 10 ^ i), int (length (decimal n)))"
  using j
proof (induction j)
  case 0
  define l where "l = length (decimal n)"
  have l: "0 < l" using 0 by (simp add: l_def)
  have big: "n < 2 ^ 53" using n(2) by simp
  have u: "unit_of l (int l) = real 1" by (simp add: unit_of_def pow10_def)
  have lo: "lower l (real n) (int l) = int (n div 1)" by (simp add: lower_def u)
  have rb: "reads_back (real n) (int (n div 1)) (real 1)"
    using reads_back_lower [OF big, of 1] by simp
  have "(n div 1 + 1) * 1 < 2 ^ 53" using n(2) by simp
  then have nrb: "\<not> reads_back (real n) (int (n div 1) + 1) (real 1)"
    by (rule reads_back_upper) simp
  have "shortest_digits l (real n) (int l) = (int (n div 1), int l)"
    by (subst shortest_digits.simps) (simp only: u lo rb nrb simp_thms if_True)
  then show ?case by (simp add: l_def)
next
  case (Suc j)
  define l where "l = length (decimal n)"
  define k where "k = l - Suc j"
  have jl: "Suc j < l" using Suc(2) by (simp add: l_def)
  then have k: "0 < k" "k + 1 = l - j" "int l - int k = int (Suc j)"
    by (simp_all add: k_def)
  have big: "n < 2 ^ 53" using n(2) by simp
  have bounds: "10 ^ (l - 1) \<le> n" using decimal_bounds [OF n(1)] by (simp add: l_def)
  have "(10::nat) ^ (l - 1) < 10 ^ 15" using bounds n(2) by linarith
  then have "l - 1 < 15" by (rule power_less_imp_less_exp [of "10::nat", rotated]) simp
  then have l16: "l < 17" by simp
  have "(10::nat) ^ Suc j \<le> 10 ^ (l - 1)" using jl by (intro power_increasing) simp_all
  then have ule: "(10::nat) ^ Suc j \<le> n" using bounds by linarith
  have "nat (int (Suc j)) = Suc j" by (rule nat_int)
  then have u: "unit_of k (int l) = real (10 ^ Suc j)"
    unfolding unit_of_def pow10_def k(3) by simp
  have lo: "lower k (real n) (int l) = int (n div 10 ^ Suc j)"
    unfolding lower_def u by (simp only: floor_divide_of_nat_eq)
  have rb: "reads_back (real n) (int (n div 10 ^ Suc j)) (real (10 ^ Suc j))
              \<longleftrightarrow> 10 ^ Suc j dvd n"
    using reads_back_lower [OF big, of "10 ^ Suc j"] by simp
  have "(n div 10 ^ Suc j + 1) * 10 ^ Suc j \<le> n + 10 ^ Suc j"
    by (rule upper_candidate_le)
  also have "\<dots> \<le> n + n" using ule by simp
  also have "\<dots> < 2 ^ 53" using n(2) by simp
  finally have nrb: "\<not> reads_back (real n) (int (n div 10 ^ Suc j) + 1) (real (10 ^ Suc j))"
    by (intro reads_back_upper) simp_all
  show ?case
  proof (cases "10 ^ Suc j dvd n")
    case True
    have "shortest_digits k (real n) (int l) = (int (n div 10 ^ Suc j), int l)"
      by (subst shortest_digits.simps) (simp only: u lo rb nrb True simp_thms if_True)
    then show ?thesis using True by (auto simp: l_def k_def)
  next
    case False
    have "\<not> 17 \<le> k" using l16 by (simp add: k_def)
    then have "shortest_digits k (real n) (int l) = shortest_digits (k + 1) (real n) (int l)"
      by (subst shortest_digits.simps) (simp only: u lo rb nrb False simp_thms if_False)
    moreover obtain i where "i \<le> j" "10 ^ i dvd n"
      "shortest_digits (l - j) (real n) (int l) = (int (n div 10 ^ i), int l)"
      using Suc(1) jl by (auto simp: l_def)
    ultimately show ?thesis
      unfolding l_def [symmetric] k_def [symmetric] k(2) by (metis le_Suc_eq)
  qed
qed

lemma Number_toString_nat:
  assumes "n < 10 ^ 15"
  shows "Number_toString (Fin (real n)) = decimal n"
proof (cases "n = 0")
  case True
  have "decimal 0 = lit ''0''"
    by (subst decimal.simps) (simp add: digit_def lit_def)
  then show ?thesis using True by simp
next
  case False
  then have pos: "0 < n" by simp
  define l where "l = length (decimal n)"
  have l: "0 < l" using decimal_bounds [OF pos] pos
    by (cases "l = 0") (simp_all add: l_def)
  have "(10::nat) ^ (l - 1) < 10 ^ 15"
    using decimal_bounds [OF pos] assms by (simp add: l_def)
  then have "l - 1 < 15" by (rule power_less_imp_less_exp [of "10::nat", rotated]) simp
  then have l21: "int l \<le> 21" by simp
  have one: "l - (l - 1) = 1" using l by simp
  have "l - 1 < length (decimal n)" using l by (simp add: l_def)
  then have "\<exists>i\<le>l - 1. 10 ^ i dvd n \<and>
           shortest_digits (l - (l - 1)) (real n) (int l) = (int (n div 10 ^ i), int l)"
    unfolding l_def by (rule shortest_digits_nat [OF pos assms])
  then obtain i where i: "i \<le> l - 1" "10 ^ i dvd n"
    and sd: "shortest_digits 1 (real n) (int l) = (int (n div 10 ^ i), int l)"
    unfolding one by blast
  define m where "m = n div 10 ^ i"
  have nm: "n = m * 10 ^ i" using i(2) by (simp add: m_def)
  have mpos: "0 < m" using pos nm by (cases "m = 0") simp_all
  have dn: "decimal n = decimal m @ replicate i (digit 0)"
    unfolding nm using mpos by (rule decimal_times_power)
  then have len: "int (length (decimal m)) = int l - int i" by (simp add: l_def)
  have "unsigned_toString (real n) = place_point (decimal m) (int l)"
    using sd by (simp add: unsigned_toString_def floor_log_decimal [OF pos] l_def [symmetric]
        m_def)
  also have "\<dots> = decimal m @ zeros (int i)"
    using l21 len by (simp add: place_point_def)
  also have "\<dots> = decimal n" by (simp add: dn zeros_replicate)
  finally show ?thesis using pos by simp
qed

lemma lit_append: "lit a @ lit b = lit (a @ b)"
  by (simp add: lit_def)

lemma round_double_0 [simp]: "round_double 0 = Fin 0"
  by (simp add: round_double_def)

lemma printed_100: "Number_toString (round_double 100) = lit ''100''"
  by (simp add: num_defs lit_def)

lemma lit_eq_iff [simp]: "lit a = lit b \<longleftrightarrow> a = b"
proof -
  have unat_char: "unat (of_char c :: 16 word) = of_char c" for c
  proof -
    have "(of_char c :: nat) < 256" by simp
    then have "(of_char c :: nat) < 2 ^ 16" by (rule less_trans) simp
    moreover have "(of_char c :: 16 word) = of_nat (of_char c)" by (simp add: of_nat_of_char)
    ultimately show ?thesis by (simp add: unat_of_nat take_bit_nat_eq_self)
  qed
  have "inj (of_char :: char \<Rightarrow> 16 word)"
  proof (rule injI)
    fix x y :: char
    assume "(of_char x :: 16 word) = of_char y"
    then have "unat (of_char x :: 16 word) = unat (of_char y :: 16 word)" by simp
    then show "x = y" by (simp add: unat_char)
  qed
  then show ?thesis by (simp add: lit_def inj_map_eq_map)
qed

lemma bnd_Inr [simp]: "bnd (Inr x) f = f x"
  by (simp add: bnd_def)

lemma bnd_Inl [simp]: "bnd (Inl e) f = Inl e"
  by (simp add: bnd_def)

lemma bnd_eq_Inr: "bnd m f = Inr y \<longleftrightarrow> (\<exists>x. m = Inr x \<and> f x = Inr y)"
  by (cases m) simp_all

lemma number_or_0_total: "\<exists>n. number_or_0 blk k = Inr n"
  by (cases blk) (auto simp: number_or_0_def split: jsval.splits option.splits)

lemma trim_blank: "list_all is_whitespace u \<Longrightarrow> trim u = []"
proof -
  assume "list_all is_whitespace u"
  then have d: "dropWhile is_whitespace u = []"
    by (induction u) simp_all
  show ?thesis unfolding trim_def d by simp
qed

lemma setStatus_statusText:
  "setStatus m b p = p\<lparr>statusText := map_option (\<lambda>_. \<lparr>status_text = m,
       status_color = (if b then lit ''#f97373'' else lit ''var(--muted)'')\<rparr>) (statusText p)\<rparr>"
  by (cases "statusText p") (simp_all add: setStatus_def)

subsection \<open>What rendering leaves alone\<close>

lemma getprop_field:
  "getprop v k = (if v = Undefined \<or> v = Null then Inl (cannot_read v) else Inr (field v k))"
  by (cases v) (simp_all add: field_def)

lemma truthy_not_null: "truthy v \<Longrightarrow> v \<noteq> Undefined \<and> v \<noteq> Null"
  by (cases v) simp_all

lemma bnd_getprop_truthy [simp]: "truthy v \<Longrightarrow> bnd (getprop v k) f = f (field v k)"
  using truthy_not_null [of v] by (simp add: getprop_field)

lemma field_or_truthy [simp]:
  "truthy v \<Longrightarrow> field_or v k d = Inr (or_default d (field v k))"
  by (simp add: field_or_def or_default_def)

lemma and_then_controls:
  assumes "\<And>p. controls (snd (f p)) = controls p" and "\<And>p. controls (snd (g p)) = controls p"
  shows "controls (snd (and_then f g p)) = controls p"
proof (cases "f p")
  case (Pair e p')
  have "controls p' = controls p" using assms(1) [of p] Pair by simp
  then show ?thesis
    using assms(2) [of p'] Pair by (cases e) (simp_all add: and_then_def)
qed

lemma write_html_controls:
  assumes "\<And>h p. controls (put h p) = controls p"
  shows "controls (snd (write_html el put c p)) = controls p"
  using assms by (cases c) (simp_all add: write_html_def)

lemma write_score_controls:
  assumes "\<And>h p. controls (put h p) = controls p"
  shows "controls (snd (write_score el put c p)) = controls p"
  using assms by (cases c; cases "el p") (simp_all add: write_score_def)

lemma renderArcRank_controls: "controls (snd (renderArcRank a b c d p)) = controls p"
proof -
  obtain n1 n2 n3 n4 where
    "number_or_0 a (lit ''final_score'') = Inr n1" "number_or_0 b (lit ''score'') = Inr n2"
    "number_or_0 c (lit ''score'') = Inr n3" "number_or_0 d (lit ''coverage_score'') = Inr n4"
    using number_or_0_total by metis
  then show ?thesis by (simp add: renderArcRank_def controls_def)
qed

lemma renderLlmView_controls: "controls (snd (renderLlmView v p)) = controls p"
  by (cases "llm_template v") (simp_all add: renderLlmView_def controls_def)

lemma renderEvaluation_controls: "controls (snd (renderEvaluation v p)) = controls p"
  by (cases "evaluation_template v") (simp_all add: renderEvaluation_def controls_def)

lemma renderBlocks_controls: "controls (snd (renderBlocks a b c d p)) = controls p"
  unfolding renderBlocks_def
  by (intro and_then_controls write_html_controls) (simp_all add: controls_def)

lemma renderResults_controls: "controls (snd (renderResults data p)) = controls p"
proof (cases "truthy data")
  case True
  then show ?thesis
    by (simp add: renderResults_def and_then_controls renderArcRank_controls
        renderLlmView_controls renderEvaluation_controls renderBlocks_controls)
next
  case False
  then show ?thesis by (simp add: renderResults_def)
qed

lemma renderArcRank_backup_controls: "controls (snd (renderArcRank_backup ev p)) = controls p"
proof (cases "truthy ev \<and> truthy (field ev (lit ''scores''))")
  case True
  then have t: "truthy ev" "truthy (field ev (lit ''scores''))" by simp_all
  have "controls (snd (case (r :: error + render) of Inl e \<Rightarrow> (Some e, p) | Inr run \<Rightarrow> run p)) = controls p"
    if "\<And>run. r = Inr run \<Longrightarrow> controls (snd (run p)) = controls p" for r
    using that by (cases r) simp_all
  show ?thesis
    using t
    apply (simp add: renderArcRank_backup_def Let_def)
    apply (intro and_then_controls write_score_controls)
    apply (simp_all add: controls_def)
    done
next
  case False
  then show ?thesis by (auto simp: renderArcRank_backup_def)
qed

lemma truthy_lor_obj [simp]: "truthy (lor v (Obj kvs))"
  by (simp add: lor_def)

lemma renderLlmView_backup_controls: "controls (snd (renderLlmView_backup v p)) = controls p"
  by (cases "llm_template_backup v") (simp_all add: renderLlmView_backup_def controls_def)

lemma renderEvaluation_backup_controls:
  "controls (snd (renderEvaluation_backup v p)) = controls p"
  by (cases "evaluation_template_backup v")
     (simp_all add: renderEvaluation_backup_def controls_def)

lemma renderBlocks_backup_controls: "controls (snd (renderBlocks_backup b p)) = controls p"
proof (cases "truthy b")
  case True
  then show ?thesis
    apply (simp add: renderBlocks_backup_def Let_def)
    apply (intro and_then_controls write_html_controls)
    apply (simp_all add: controls_def)
    done
next
  case False
  then show ?thesis by (simp add: renderBlocks_backup_def)
qed

lemma renderResults_backup_controls:
  "controls (snd (renderResults_backup data p)) = controls p"
  by (simp add: renderResults_backup_def Let_def and_then_controls
      renderArcRank_backup_controls renderLlmView_backup_controls
      renderEvaluation_backup_controls renderBlocks_backup_controls)

lemma setStatus_controls [simp]: "controls (setStatus m b p) = controls p"
  by (simp add: setStatus_def controls_def)

lemma set_wrapper_hidden_controls [simp]: "controls (set_wrapper_hidden h p) = controls p"
  by (simp add: set_wrapper_hidden_def controls_def)

lemma analyzeUrl_try_controls: "controls (snd (analyzeUrl_try f p)) = controls p"
proof (cases f)
  case (Rejected e)
  then show ?thesis by (simp add: analyzeUrl_try_def)
next
  case (Resolved r)
  have "controls (snd (and_then (renderResults data)
          (\<lambda>p'. (None, setStatus (lit ''Analysis complete.'') False p')) p)) = controls p"
    for data
    by (rule and_then_controls) (simp_all add: renderResults_controls)
  then show ?thesis
    using Resolved by (cases "json r") (simp_all add: analyzeUrl_try_def)
qed

lemma analyzeUrl_try_backup_controls:
  "controls (snd (analyzeUrl_try_backup f p)) = controls p"
proof (cases f)
  case (Rejected e)
  then show ?thesis by (simp add: analyzeUrl_try_backup_def)
next
  case (Resolved r)
  have "controls (snd (and_then (renderResults_backup data)
          (\<lambda>p'. (None, setStatus (lit ''Analysis complete.'') False
                         (set_wrapper_hidden False p'))) p)) = controls p"
    for data
    by (rule and_then_controls) (simp_all add: renderResults_backup_controls)
  then show ?thesis
    using Resolved by (cases "json r") (simp_all add: analyzeUrl_try_backup_def)
qed

lemma setLoading_controls:
  "analyzeBtn p \<noteq> None \<Longrightarrow> loader p \<noteq> None \<Longrightarrow>
   controls (setLoading isLoading p) =
     (urlInput p,
      Some \<lparr>disabled = isLoading,
            caption = (if isLoading then lit ''Analyzing'' @ ellipsis else lit ''Run analysis'')\<rparr>,
      Some (\<not> isLoading))"
  by (auto simp: setLoading_def controls_def)

lemma setLoading_backup_controls:
  "analyzeBtn p \<noteq> None \<Longrightarrow> loader p \<noteq> None \<Longrightarrow>
   controls (setLoading_backup isLoading p) =
     (urlInput p,
      Some \<lparr>disabled = isLoading,
            caption = (if isLoading then lit ''Analyzing'' @ ellipsis else lit ''Analyze'')\<rparr>,
      Some (\<not> isLoading))"
  by (auto simp: setLoading_backup_def controls_def)

lemma controls_present:
  "controls p' = controls p \<Longrightarrow> analyzeBtn p \<noteq> None \<Longrightarrow> loader p \<noteq> None \<Longrightarrow>
   analyzeBtn p' \<noteq> None \<and> loader p' \<noteq> None \<and> urlInput p' = urlInput p"
  by (simp add: controls_def)

subsection \<open>Validation of the input\<close>

text \<open>
  C1. A URL that is empty or all whitespace is not submitted, in either version: the
  run issues no request, and all it does to the page is to put the validation message,
  in the error colour, into the status line (where the page has one).
\<close>

theorem blank_url_is_not_submitted:
  assumes "urlInput p = Some u" and "list_all is_whitespace u"
  shows "analyzeUrl f p =
           (p\<lparr>statusText := map_option (\<lambda>_. \<lparr>status_text = lit ''Enter a full page URL to analyze.'',
                                              status_color = lit ''#f97373''\<rparr>) (statusText p)\<rparr>, None)
       \<and> analyzeUrl_backup f p =
           (p\<lparr>statusText := map_option (\<lambda>_. \<lparr>status_text = lit ''Enter a URL to analyze.'',
                                              status_color = lit ''#f97373''\<rparr>) (statusText p)\<rparr>, None)"
proof -
  have "entered_url p = []"
    using assms by (simp add: entered_url_def trim_blank)
  then show ?thesis
    by (simp add: analyzeUrl_def analyzeUrl_begin_def analyzeUrl_backup_def
        analyzeUrl_begin_backup_def setStatus_statusText)
qed

theorem blank_url_is_not_submitted_witness:
  "list_all is_whitespace [0x20, 0x9, 0xA0]
   \<and> snd (analyzeUrl (Rejected (TypeError [])) (sample_page\<lparr>urlInput := Some [0x20, 0x9, 0xA0]\<rparr>)) = None
   \<and> map_option status_text
        (statusText (fst (analyzeUrl (Rejected (TypeError []))
           (sample_page\<lparr>urlInput := Some [0x20, 0x9, 0xA0]\<rparr>))))
       = Some (lit ''Enter a full page URL to analyze.'')
   \<and> map_option status_text
        (statusText (fst (analyzeUrl_backup (Rejected (TypeError []))
           (sample_page\<lparr>urlInput := Some [0x20, 0x9, 0xA0]\<rparr>))))
       = Some (lit ''Enter a URL to analyze.'')"
proof -
  have ws: "list_all is_whitespace [0x20, 0x9, 0xA0]"
    by (simp add: is_whitespace_def)
  have u: "urlInput (sample_page\<lparr>urlInput := Some [0x20, 0x9, 0xA0]\<rparr>) = Some [0x20, 0x9, 0xA0]"
    by simp
  show ?thesis
    using ws blank_url_is_not_submitted [OF u ws, of "Rejected (TypeError [])"]
    by (simp add: sample_page_def)
qed

subsection \<open>The early return of \<^verbatim>\<open>renderArcRank\<close>\<close>

text \<open>
  C10. When \<^verbatim>\<open>score_matrix\<close> is absent or falsy, \<^verbatim>\<open>renderArcRank\<close>
  returns at its first line: it throws nothing and the page, with the overall score
  element and the AIO, AEO and GEO elements, is what it was. Version B does the same
  when \<^verbatim>\<open>evaluation\<close> or \<^verbatim>\<open>evaluation.scores\<close> is absent or falsy.
\<close>

theorem renderArcRank_absent_keeps_page:
  "(\<not> truthy scoreMatrix \<longrightarrow>
      renderArcRank scoreMatrix clarityBlock faqBlock fanoutBlock p = (None, p))
   \<and> (\<not> truthy evaluation \<or> (getprop evaluation (lit ''scores'') = Inr s \<and> \<not> truthy s) \<longrightarrow>
      renderArcRank_backup evaluation p = (None, p))"
  by (auto simp: renderArcRank_def renderArcRank_backup_def)

theorem renderArcRank_absent_keeps_page_witness:
  "\<not> truthy Undefined
   \<and> renderArcRank Undefined (Obj [(lit ''score'', Num (Fin 7))]) Null Null sample_page
       = (None, sample_page)
   \<and> getprop (Obj [(lit ''verdict'', Str (lit ''good''))]) (lit ''scores'') = Inr Undefined
   \<and> renderArcRank_backup (Obj [(lit ''verdict'', Str (lit ''good''))]) sample_page
       = (None, sample_page)"
  using renderArcRank_absent_keeps_page
          [of Undefined "Obj [(lit ''score'', Num (Fin 7))]" Null Null sample_page
              "Obj [(lit ''verdict'', Str (lit ''good''))]" Undefined]
  by simp

lemma analyzeUrl_resume_controls:
  assumes "analyzeBtn p \<noteq> None" and "loader p \<noteq> None"
  shows "controls (analyzeUrl_resume f p) =
           (urlInput p, Some \<lparr>disabled = False, caption = lit ''Run analysis''\<rparr>, Some True)"
proof (cases "analyzeUrl_try f p")
  case (Pair e p')
  have c: "controls p' = controls p"
    using analyzeUrl_try_controls [of f p] Pair by simp
  have pres: "analyzeBtn q \<noteq> None \<and> loader q \<noteq> None \<and> urlInput q = urlInput p"
    if "controls q = controls p" for q
    using that assms by (simp add: controls_def)
  have fin: "controls (setLoading False q) =
           (urlInput p, Some \<lparr>disabled = False, caption = lit ''Run analysis''\<rparr>, Some True)"
    if "controls q = controls p" for q
    using pres [OF that] by (simp add: setLoading_controls)
  show ?thesis
  proof (cases e)
    case None
    have "analyzeUrl_resume f p = setLoading False p'"
      using Pair None by (simp add: analyzeUrl_resume_def)
    then show ?thesis using fin [OF c] by simp
  next
    case (Some err)
    let ?q = "setStatus (shown_error err) True p'"
    have q: "controls ?q = controls p" using c by simp
    have "analyzeUrl_resume f p = setLoading False ?q"
      using Pair Some by (simp add: analyzeUrl_resume_def)
    then show ?thesis using fin [OF q] by simp
  qed
qed

lemma analyzeUrl_resume_backup_controls:
  assumes "analyzeBtn p \<noteq> None" and "loader p \<noteq> None"
  shows "controls (analyzeUrl_resume_backup f p) =
           (urlInput p, Some \<lparr>disabled = False, caption = lit ''Analyze''\<rparr>, Some True)"
proof (cases "analyzeUrl_try_backup f p")
  case (Pair e p')
  have c: "controls p' = controls p"
    using analyzeUrl_try_backup_controls [of f p] Pair by simp
  have pres: "analyzeBtn q \<noteq> None \<and> loader q \<noteq> None \<and> urlInput q = urlInput p"
    if "controls q = controls p" for q
    using that assms by (simp add: controls_def)
  have fin: "controls (setLoading_backup False q) =
           (urlInput p, Some \<lparr>disabled = False, caption = lit ''Analyze''\<rparr>, Some True)"
    if "controls q = controls p" for q
    using pres [OF that] by (simp add: setLoading_backup_controls)
  show ?thesis
  proof (cases e)
    case None
    have "analyzeUrl_resume_backup f p = setLoading_backup False p'"
      using Pair None by (simp add: analyzeUrl_resume_backup_def)
    then show ?thesis using fin [OF c] by simp
  next
    case (Some err)
    let ?q = "setStatus (shown_error err) True p'"
    have q: "controls ?q = controls p" using c by simp
    have "analyzeUrl_resume_backup f p = setLoading_backup False ?q"
      using Pair Some by (simp add: analyzeUrl_resume_backup_def)
    then show ?thesis using fin [OF q] by simp
  qed
qed


subsection \<open>The loading state\<close>

text \<open>
  C8. A run with a URL that is not blank sets the loading state before the request:
  the button is disabled and the loader is shown. Whatever the network answers
  (a rejected promise, a response that is not ok, a body that is not JSON, a document
  whose rendering throws or succeeds), the run ends with the button enabled and the
  loader hidden, and with the input as it was, so that a further run issues the same
  request. This holds in both versions, for a page that has the button and the loader.
\<close>

theorem loading_is_always_cleared:
  assumes "entered_url p \<noteq> []" and "analyzeBtn p = Some b" and "loader p = Some l"
  shows "controls (fst (analyzeUrl_begin p)) =
           (urlInput p, Some \<lparr>disabled = True, caption = lit ''Analyzing'' @ ellipsis\<rparr>, Some False)
       \<and> controls (fst (analyzeUrl f p)) =
           (urlInput p, Some \<lparr>disabled = False, caption = lit ''Run analysis''\<rparr>, Some True)
       \<and> snd (analyzeUrl_begin (fst (analyzeUrl f p))) = snd (analyzeUrl_begin p)
       \<and> controls (fst (analyzeUrl_begin_backup p)) =
           (urlInput p, Some \<lparr>disabled = True, caption = lit ''Analyzing'' @ ellipsis\<rparr>, Some False)
       \<and> controls (fst (analyzeUrl_backup f p)) =
           (urlInput p, Some \<lparr>disabled = False, caption = lit ''Analyze''\<rparr>, Some True)
       \<and> snd (analyzeUrl_begin_backup (fst (analyzeUrl_backup f p))) = snd (analyzeUrl_begin_backup p)"
proof -
  let ?s = "setStatus (lit ''Sending page to LLM engine'' @ ellipsis) False p"
  have s: "analyzeBtn ?s \<noteq> None" "loader ?s \<noteq> None" "urlInput ?s = urlInput p"
    using assms by (simp_all add: setStatus_def)
  have start: "controls (fst (analyzeUrl_begin p)) =
           (urlInput p, Some \<lparr>disabled = True, caption = lit ''Analyzing'' @ ellipsis\<rparr>, Some False)"
    using assms(1) s by (simp add: analyzeUrl_begin_def setLoading_controls)
  have start_b: "controls (fst (analyzeUrl_begin_backup p)) =
           (urlInput p, Some \<lparr>disabled = True, caption = lit ''Analyzing'' @ ellipsis\<rparr>, Some False)"
    using assms(1) s by (simp add: analyzeUrl_begin_backup_def setLoading_backup_controls)
  have p1: "analyzeBtn (fst (analyzeUrl_begin p)) \<noteq> None" "loader (fst (analyzeUrl_begin p)) \<noteq> None"
      "urlInput (fst (analyzeUrl_begin p)) = urlInput p"
    using start by (simp_all add: controls_def)
  have p1b: "analyzeBtn (fst (analyzeUrl_begin_backup p)) \<noteq> None"
      "loader (fst (analyzeUrl_begin_backup p)) \<noteq> None"
      "urlInput (fst (analyzeUrl_begin_backup p)) = urlInput p"
    using start_b by (simp_all add: controls_def)
  have rq: "snd (analyzeUrl_begin p) \<noteq> None" "snd (analyzeUrl_begin_backup p) \<noteq> None"
    using assms(1) by (simp_all add: analyzeUrl_begin_def analyzeUrl_begin_backup_def)
  have run: "fst (analyzeUrl f p) = analyzeUrl_resume f (fst (analyzeUrl_begin p))"
    using rq(1) by (cases "analyzeUrl_begin p") (auto simp: analyzeUrl_def)
  have run_b: "fst (analyzeUrl_backup f p) =
      analyzeUrl_resume_backup f (fst (analyzeUrl_begin_backup p))"
    using rq(2) by (cases "analyzeUrl_begin_backup p") (auto simp: analyzeUrl_backup_def)
  have fin: "controls (fst (analyzeUrl f p)) =
           (urlInput p, Some \<lparr>disabled = False, caption = lit ''Run analysis''\<rparr>, Some True)"
    using analyzeUrl_resume_controls [OF p1(1,2), of f] p1(3) run by simp
  have fin_b: "controls (fst (analyzeUrl_backup f p)) =
           (urlInput p, Some \<lparr>disabled = False, caption = lit ''Analyze''\<rparr>, Some True)"
    using analyzeUrl_resume_backup_controls [OF p1b(1,2), of f] p1b(3) run_b by simp
  have same: "urlInput q = urlInput p \<Longrightarrow>
      snd (analyzeUrl_begin q) = snd (analyzeUrl_begin p)
      \<and> snd (analyzeUrl_begin_backup q) = snd (analyzeUrl_begin_backup p)" for q
    by (simp add: analyzeUrl_begin_def analyzeUrl_begin_backup_def entered_url_def Let_def)
  have u: "urlInput (fst (analyzeUrl f p)) = urlInput p"
    and ub: "urlInput (fst (analyzeUrl_backup f p)) = urlInput p"
    using fin fin_b by (simp_all add: controls_def)
  have again: "snd (analyzeUrl_begin (fst (analyzeUrl f p))) = snd (analyzeUrl_begin p)"
    using same [OF u] by blast
  have again_b: "snd (analyzeUrl_begin_backup (fst (analyzeUrl_backup f p))) =
      snd (analyzeUrl_begin_backup p)"
    using same [OF ub] by blast
  show ?thesis
    using start start_b fin fin_b again again_b by blast
qed

theorem loading_is_always_cleared_witness:
  "entered_url sample_page \<noteq> []
   \<and> controls (fst (analyzeUrl (Resolved \<lparr>status = 200, json = Inr sample_result\<rparr>) sample_page)) =
       (urlInput sample_page, Some \<lparr>disabled = False, caption = lit ''Run analysis''\<rparr>, Some True)
   \<and> controls (fst (analyzeUrl_backup (Rejected (TypeError (lit ''Failed to fetch''))) sample_page)) =
       (urlInput sample_page, Some \<lparr>disabled = False, caption = lit ''Analyze''\<rparr>, Some True)"
proof -
  have url: "entered_url sample_page \<noteq> []"
    by (simp add: entered_url_def sample_page_def trim_def lit_def is_whitespace_def)
  have btn: "analyzeBtn sample_page = Some \<lparr>disabled = False, caption = lit ''Run analysis''\<rparr>"
    and ldr: "loader sample_page = Some True"
    by (simp_all add: sample_page_def)
  show ?thesis
    using url
      loading_is_always_cleared [OF url btn ldr, of "Resolved \<lparr>status = 200, json = Inr sample_result\<rparr>"]
      loading_is_always_cleared [OF url btn ldr, of "Rejected (TypeError (lit ''Failed to fetch''))"]
    by blast
qed

subsection \<open>A request that fails\<close>

lemma setLoading_statusText [simp]: "statusText (setLoading b p) = statusText p"
  by (simp add: setLoading_def)

lemma setLoading_backup_statusText [simp]: "statusText (setLoading_backup b p) = statusText p"
  by (simp add: setLoading_backup_def)

lemma set_wrapper_hidden_statusText [simp]: "statusText (set_wrapper_hidden b p) = statusText p"
  by (simp add: set_wrapper_hidden_def)

lemma statusText_setStatus:
  "statusText p \<noteq> None \<Longrightarrow>
   statusText (setStatus m b p) =
     Some \<lparr>status_text = m,
           status_color = (if b then lit ''#f97373'' else lit ''var(--muted)'')\<rparr>"
  by (simp add: setStatus_def)

lemma not_ok_status:
  assumes "entered_url p \<noteq> []" and "statusText p \<noteq> None" and "\<not> ok r"
  shows "statusText (fst (analyzeUrl (Resolved r) p)) =
           Some \<lparr>status_text = shown_error (request_failed r), status_color = lit ''#f97373''\<rparr>"
    and "statusText (fst (analyzeUrl_backup (Resolved r) p)) =
           Some \<lparr>status_text = shown_error (request_failed r), status_color = lit ''#f97373''\<rparr>"
  using assms
  by (simp_all add: analyzeUrl_def analyzeUrl_begin_def analyzeUrl_resume_def analyzeUrl_try_def
      analyzeUrl_backup_def analyzeUrl_begin_backup_def analyzeUrl_resume_backup_def
      analyzeUrl_try_backup_def statusText_setStatus)

lemma request_failed_detail:
  "json r = Inr (Obj kvs) \<Longrightarrow> map_of kvs (lit ''detail'') = Some (Str s) \<Longrightarrow> s \<noteq> [] \<Longrightarrow>
   request_failed r = Error s"
  by (simp add: request_failed_def text_or_def lor_def)

lemma request_failed_no_json:
  "json r = Inl e \<Longrightarrow>
   request_failed r = Error (lit ''Request failed: '' @ decimal (status r))"
  by (simp add: request_failed_def text_or_def lor_def)

lemma decimal_not_empty: "decimal n \<noteq> []"
  by (subst decimal.simps) simp

lemma shown_error_not_empty: "shown_error e \<noteq> []"
  by (simp add: shown_error_def lit_def)

text \<open>
  C5, as the code has it. For a response that is not ok, in both versions: when the
  body is a JSON object whose \<^verbatim>\<open>detail\<close> is a string that is not empty, the
  status line shows exactly that string; when the body is not JSON (or there is none),
  it shows \<^verbatim>\<open>Request failed: \<close> and the status code; and in every case it
  shows a message that is not empty, in the error colour. An empty \<^verbatim>\<open>detail\<close>
  is falsy, so \<^verbatim>\<open>||\<close> replaces it with the synthesized message: that is the
  counterexample to the claim as it was stated.
\<close>

theorem failed_request_is_reported:
  assumes "entered_url p \<noteq> []" and "statusText p = Some st" and "\<not> ok r"
  shows "(json r = Inr (Obj kvs) \<longrightarrow> map_of kvs (lit ''detail'') = Some (Str s) \<longrightarrow> s \<noteq> [] \<longrightarrow>
            statusText (fst (analyzeUrl (Resolved r) p)) =
              Some \<lparr>status_text = s, status_color = lit ''#f97373''\<rparr>
          \<and> statusText (fst (analyzeUrl_backup (Resolved r) p)) =
              Some \<lparr>status_text = s, status_color = lit ''#f97373''\<rparr>)
       \<and> (json r = Inl e \<longrightarrow>
            statusText (fst (analyzeUrl (Resolved r) p)) =
              Some \<lparr>status_text = lit ''Request failed: '' @ decimal (status r),
                    status_color = lit ''#f97373''\<rparr>
          \<and> statusText (fst (analyzeUrl_backup (Resolved r) p)) =
              Some \<lparr>status_text = lit ''Request failed: '' @ decimal (status r),
                    status_color = lit ''#f97373''\<rparr>)
       \<and> (\<exists>m. m \<noteq> []
          \<and> statusText (fst (analyzeUrl (Resolved r) p)) =
              Some \<lparr>status_text = m, status_color = lit ''#f97373''\<rparr>
          \<and> statusText (fst (analyzeUrl_backup (Resolved r) p)) =
              Some \<lparr>status_text = m, status_color = lit ''#f97373''\<rparr>)"
proof -
  have present: "statusText p \<noteq> None" using assms(2) by simp
  note shown = not_ok_status [OF assms(1) present assms(3)]
  have detail: "shown_error (request_failed r) = s"
    if "json r = Inr (Obj kvs)" "map_of kvs (lit ''detail'') = Some (Str s)" "s \<noteq> []"
    using request_failed_detail [OF that] that(3) by (simp add: shown_error_def)
  have plain: "shown_error (request_failed r) = lit ''Request failed: '' @ decimal (status r)"
    if "json r = Inl e"
    using request_failed_no_json [OF that] by (simp add: shown_error_def lit_def)
  show ?thesis
    using shown detail plain shown_error_not_empty [of "request_failed r"] by auto
qed

theorem empty_detail_counterexample:
  "map_option status_text
     (statusText (fst (analyzeUrl
        (Resolved \<lparr>status = 400, json = Inr (Obj [(lit ''detail'', Str [])])\<rparr>) sample_page)))
   = Some (lit ''Request failed: 400'')
   \<and> lit ''Request failed: 400'' \<noteq> []"
  by (simp add: analyzeUrl_def analyzeUrl_begin_def analyzeUrl_resume_def analyzeUrl_try_def
      ok_def request_failed_def text_or_def lor_def entered_url_def sample_page_def trim_def
      is_whitespace_def setStatus_def setLoading_def decimal.simps
      digit_def lit_def Let_def shown_error_def)

theorem failed_request_is_reported_witness:
  "entered_url sample_page \<noteq> []
   \<and> \<not> ok \<lparr>status = 404, json = Inr (Obj [(lit ''detail'', Str (lit ''bad url''))])\<rparr>
   \<and> map_option status_text
        (statusText (fst (analyzeUrl
           (Resolved \<lparr>status = 404, json = Inr (Obj [(lit ''detail'', Str (lit ''bad url''))])\<rparr>)
           sample_page))) = Some (lit ''bad url'')
   \<and> \<not> ok \<lparr>status = 502, json = Inl (SyntaxError (lit ''Unexpected end of JSON input''))\<rparr>
   \<and> map_option status_text
        (statusText (fst (analyzeUrl
           (Resolved \<lparr>status = 502, json = Inl (SyntaxError (lit ''Unexpected end of JSON input''))\<rparr>)
           sample_page))) = Some (lit ''Request failed: 502'')"
proof -
  have url: "entered_url sample_page \<noteq> []"
    by (simp add: entered_url_def sample_page_def trim_def lit_def is_whitespace_def)
  have st: "statusText sample_page = Some \<lparr>status_text = [], status_color = []\<rparr>"
    by (simp add: sample_page_def)
  have n1: "\<not> ok \<lparr>status = 404, json = Inr (Obj [(lit ''detail'', Str (lit ''bad url''))])\<rparr>"
    and n2: "\<not> ok \<lparr>status = 502, json = Inl (SyntaxError (lit ''Unexpected end of JSON input''))\<rparr>"
    by (simp_all add: ok_def)
  have d: "decimal 502 = lit ''502''"
    by (simp add: decimal.simps digit_def lit_def)
  show ?thesis
    using url n1 n2 d
      failed_request_is_reported [OF url st n1, of "[(lit ''detail'', Str (lit ''bad url''))]" "lit ''bad url''"]
      failed_request_is_reported [OF url st n2, of _ _ "SyntaxError (lit ''Unexpected end of JSON input'')"]
    by (simp add: lit_def)
qed

lemmas js_defs =
  bnd_def field_or_def lor_def text_or_def optional_text_def section_items_def
  guarded_items_def items_or_def guarded_joined_def yes_no_def ge_def ge_num_def
  fixed_or_plain_def number_or_0_def sub_score_text_def set_score_def
  truthy_field_or_def array_or_empty_def pair_item_def link_item_def list_or_note_def
  write_html_def and_then_def zero_def number_text_def two_lists_def mapped_or_note_def
  definition_item_def write_score_def
  Math_max_def Math_min_def
  StringToNumber_def field_def

lemmas version_a_defs =
  renderArcRank_def llm_template_def renderLlmView_def score_bar_def
  destructure_ctx_def destructure_executive_summary_def destructure_score_matrix_def
  destructure_fanout_def destructure_clarity_def destructure_eeat_def destructure_roadmap_def
  roadmap_lists_def scoreRows_def verdictClass_def evaluation_template_def renderEvaluation_def
  summary_template_def definitions_template_def faq_template_def canonical_template_def
  renderBlocks_def renderResults_def

lemmas version_b_defs =
  arc_text_backup_def sub_score_text_backup_def renderArcRank_backup_def
  llm_template_backup_def renderLlmView_backup_def score_bar_def scoreRows_backup_def
  verdictClass_backup_def evaluation_template_backup_def renderEvaluation_backup_def
  summary_template_backup_def renderBlocks_backup_def renderResults_backup_def

lemma field_or_Inr: "field_or v k d = Inr x \<Longrightarrow> x = or_default d (field v k)"
  by (cases v) (auto simp: field_or_def or_default_def field_def)

lemma getprop_Inr: "getprop v k = Inr x \<Longrightarrow> x = field v k"
  by (simp add: field_def)

lemma field_or_default_obj [simp]: "field (or_default (Obj []) v) k = field v k"
  by (simp add: or_default_def field_def)

lemma field_lor_obj: "k \<noteq> lit ''length'' \<Longrightarrow> field (lor v (Obj [])) k = field v k"
  by (cases v) (auto simp: lor_def field_def)

lemma destructure_ctx_Inr:
  "destructure_ctx c = Inr (pm, es, sm, fo, cl, eb, fr) \<Longrightarrow>
   pm = or_default (Obj []) (field c (lit ''page_metadata'')) \<and>
   es = or_default (Obj []) (field c (lit ''executive_summary'')) \<and>
   sm = or_default (Obj []) (field c (lit ''score_matrix'')) \<and>
   fo = or_default (Obj []) (field c (lit ''fanout_query_analysis'')) \<and>
   cl = or_default (Obj []) (field c (lit ''clarity_readability'')) \<and>
   eb = or_default (Obj []) (field c (lit ''eeat_block'')) \<and>
   fr = or_default (Obj []) (field c (lit ''fix_roadmap''))"
  by (auto simp: destructure_ctx_def bnd_eq_Inr dest!: field_or_Inr)

lemma destructure_executive_summary_Inr:
  "destructure_executive_summary es = Inr (ov, v, mi, t3) \<Longrightarrow>
   ov = or_default zero (field es (lit ''overall_llm_readiness_score'')) \<and>
   v = or_default (Str []) (field es (lit ''verdict'')) \<and>
   mi = or_default (Str []) (field es (lit ''main_issue'')) \<and>
   t3 = or_default (Arr []) (field es (lit ''top_3_fixes''))"
  by (auto simp: destructure_executive_summary_def bnd_eq_Inr dest!: field_or_Inr)

lemma destructure_score_matrix_Inr:
  "destructure_score_matrix sm = Inr (a1, a2, a3, a4, a5, a6, a7, a8, a9) \<Longrightarrow>
   a1 = or_default zero (field sm (lit ''summary_block'')) \<and>
   a2 = or_default zero (field sm (lit ''definitions'')) \<and>
   a3 = or_default zero (field sm (lit ''faq'')) \<and>
   a4 = or_default zero (field sm (lit ''fanout_match'')) \<and>
   a5 = or_default zero (field sm (lit ''canonical_resources'')) \<and>
   a6 = or_default zero (field sm (lit ''structure'')) \<and>
   a7 = or_default zero (field sm (lit ''clarity'')) \<and>
   a8 = or_default zero (field sm (lit ''eeat'')) \<and>
   a9 = or_default zero (field sm (lit ''final_score''))"
  by (auto simp: destructure_score_matrix_def bnd_eq_Inr dest!: field_or_Inr)

lemma evaluation_template_Inr:
  assumes "evaluation_template ctx = Inr h"
  shows "\<exists>es sm verdict final_score b.
     es = or_default (Obj []) (field (lor ctx (Obj [])) (lit ''executive_summary'')) \<and>
     sm = or_default (Obj []) (field (lor ctx (Obj [])) (lit ''score_matrix'')) \<and>
     verdict = or_default (Str []) (field es (lit ''verdict'')) \<and>
     final_score = or_default zero (field sm (lit ''final_score'')) \<and>
     ec_class h = verdictClass verdict \<and>
     text_or verdict emdash = Inr (ec_verdict h) \<and>
     ge final_score (Fin 60) = Inr b \<and> ec_llm_ready h = yes_no b \<and>
     ec_score_bars h =
       map score_bar
         (scoreRows (or_default zero (field sm (lit ''summary_block'')),
                    or_default zero (field sm (lit ''definitions'')),
                    or_default zero (field sm (lit ''faq'')),
                    or_default zero (field sm (lit ''fanout_match'')),
                    or_default zero (field sm (lit ''canonical_resources'')),
                    or_default zero (field sm (lit ''structure'')),
                    or_default zero (field sm (lit ''clarity'')),
                    or_default zero (field sm (lit ''eeat''))))"
  using assms
  apply (clarsimp simp: evaluation_template_def bnd_eq_Inr)
  apply (drule destructure_ctx_Inr)
  apply (drule destructure_executive_summary_Inr)
  apply (drule destructure_score_matrix_Inr)
  apply clarsimp
  done


lemma lit_empty_iff [simp]: "lit s = [] \<longleftrightarrow> s = []" "[] = lit s \<longleftrightarrow> s = []"
  by (auto simp: lit_def)

lemma evaluation_template_backup_Inr:
  assumes "evaluation_template_backup ev = Inr h"
  shows "\<exists>scores verdict.
     scores = lor (field ev (lit ''scores'')) (Obj []) \<and>
     verdict = field ev (lit ''verdict'') \<and>
     eb_class h = verdictClass_backup verdict \<and>
     text_or verdict emdash = Inr (eb_verdict h) \<and>
     eb_llm_ready h = yes_no (truthy (field ev (lit ''llm_ready''))) \<and>
     eb_score_bars h =
       map score_bar
         (scoreRows_backup (or_default zero (field scores (lit ''intent_clarity'')),
                    or_default zero (field scores (lit ''coverage'')),
                    or_default zero (field scores (lit ''structure'')),
                    or_default zero (field scores (lit ''definitions'')),
                    or_default zero (field scores (lit ''answerability'')),
                    or_default zero (field scores (lit ''trust'')),
                    field ev (lit ''canonical_score'')))"
  using assms
  apply (clarsimp simp: evaluation_template_backup_def bnd_eq_Inr Let_def)
  apply (auto dest!: field_or_Inr getprop_Inr)
  done

lemma renderEvaluation_None:
  assumes "renderEvaluation ctx p = (None, p')" and "evaluationContent p \<noteq> None"
  shows "\<exists>h. evaluation_template ctx = Inr h \<and> p' = p\<lparr>evaluationContent := Some (EvalCard h)\<rparr>"
  using assms by (cases "evaluation_template ctx") (auto simp: renderEvaluation_def)

lemma renderEvaluation_backup_None:
  assumes "renderEvaluation_backup ev p = (None, p')" and "evaluationContent p \<noteq> None"
    and "truthy ev"
  shows "\<exists>h. evaluation_template_backup ev = Inr h
             \<and> p' = p\<lparr>evaluationContent := Some (EvalCardB h)\<rparr>"
  using assms by (cases "evaluation_template_backup ev") (auto simp: renderEvaluation_backup_def)

lemma text_or_string: "text_or (Str s) alt = Inr (if s = [] then alt else s)"
  by (simp add: text_or_def lor_def)

lemma text_or_undefined: "text_or Undefined alt = Inr alt"
  by (simp add: text_or_def lor_def)

subsection \<open>The evaluation card\<close>

text \<open>
  C4. In a rendered evaluation card the class of the verdict pill is the positive one
  exactly for the verdicts of the positive set (\<^verbatim>\<open>Ready\<close> and
  \<^verbatim>\<open>Partially Ready\<close> in version A, \<^verbatim>\<open>excellent\<close> and
  \<^verbatim>\<open>good\<close> in version B); any other string gets the negative class, and is
  shown as it is; an absent verdict gets the negative class and is shown as a dash.
\<close>

theorem verdict_decides_class:
  "(renderEvaluation ctx p = (None, p') \<and> evaluationContent p = Some old \<longrightarrow>
      (\<exists>h. evaluationContent p' = Some (EvalCard h) \<and>
         (path ctx [lit ''executive_summary'', lit ''verdict''] = Str s \<longrightarrow>
            ec_class h = (if s \<in> positive_verdicts then lit ''verdict-pill verdict-pill--good''
                          else lit ''verdict-pill verdict-pill--poor'')
            \<and> ec_verdict h = (if s = [] then emdash else s)) \<and>
         (path ctx [lit ''executive_summary'', lit ''verdict''] = Undefined \<longrightarrow>
            ec_class h = lit ''verdict-pill verdict-pill--poor'' \<and> ec_verdict h = emdash)))
   \<and> (renderEvaluation_backup ev p = (None, p') \<and> evaluationContent p = Some old \<and> truthy ev \<longrightarrow>
      (\<exists>h. evaluationContent p' = Some (EvalCardB h) \<and>
         (path ev [lit ''verdict''] = Str s \<longrightarrow>
            eb_class h = (if s \<in> positive_verdicts_backup then lit ''verdict-pill verdict-pill--good''
                          else lit ''verdict-pill verdict-pill--poor'')
            \<and> eb_verdict h = (if s = [] then emdash else s)) \<and>
         (path ev [lit ''verdict''] = Undefined \<longrightarrow>
            eb_class h = lit ''verdict-pill verdict-pill--poor'' \<and> eb_verdict h = emdash)))"
proof (intro conjI impI)
  assume a: "renderEvaluation ctx p = (None, p') \<and> evaluationContent p = Some old"
  then obtain h where h: "evaluation_template ctx = Inr h"
    and p': "p' = p\<lparr>evaluationContent := Some (EvalCard h)\<rparr>"
    using renderEvaluation_None [of ctx p p'] by auto
  let ?v = "or_default (Str []) (path ctx [lit ''executive_summary'', lit ''verdict''])"
  have c: "ec_class h = verdictClass ?v" and t: "text_or ?v emdash = Inr (ec_verdict h)"
    using evaluation_template_Inr [OF h] by (auto simp: field_lor_obj)
  have "ec_class h = (if s \<in> positive_verdicts then lit ''verdict-pill verdict-pill--good''
                          else lit ''verdict-pill verdict-pill--poor'')
        \<and> ec_verdict h = (if s = [] then emdash else s)"
    if "path ctx [lit ''executive_summary'', lit ''verdict''] = Str s"
    using c t that
    by (auto simp: or_default_def verdictClass_def positive_verdicts_def text_or_string)
  moreover have "ec_class h = lit ''verdict-pill verdict-pill--poor'' \<and> ec_verdict h = emdash"
    if "path ctx [lit ''executive_summary'', lit ''verdict''] = Undefined"
    using c t that by (auto simp: or_default_def verdictClass_def text_or_string)
  ultimately show "\<exists>h. evaluationContent p' = Some (EvalCard h) \<and>
         (path ctx [lit ''executive_summary'', lit ''verdict''] = Str s \<longrightarrow>
            ec_class h = (if s \<in> positive_verdicts then lit ''verdict-pill verdict-pill--good''
                          else lit ''verdict-pill verdict-pill--poor'')
            \<and> ec_verdict h = (if s = [] then emdash else s)) \<and>
         (path ctx [lit ''executive_summary'', lit ''verdict''] = Undefined \<longrightarrow>
            ec_class h = lit ''verdict-pill verdict-pill--poor'' \<and> ec_verdict h = emdash)"
    using p' by auto
next
  assume a: "renderEvaluation_backup ev p = (None, p') \<and> evaluationContent p = Some old \<and> truthy ev"
  then obtain h where h: "evaluation_template_backup ev = Inr h"
    and p': "p' = p\<lparr>evaluationContent := Some (EvalCardB h)\<rparr>"
    using renderEvaluation_backup_None [of ev p p'] by auto
  let ?v = "path ev [lit ''verdict'']"
  have c: "eb_class h = verdictClass_backup ?v" and t: "text_or ?v emdash = Inr (eb_verdict h)"
    using evaluation_template_backup_Inr [OF h] by auto
  have "eb_class h = (if s \<in> positive_verdicts_backup then lit ''verdict-pill verdict-pill--good''
                          else lit ''verdict-pill verdict-pill--poor'')
        \<and> eb_verdict h = (if s = [] then emdash else s)"
    if "path ev [lit ''verdict''] = Str s"
    using c t that
    by (auto simp: verdictClass_backup_def positive_verdicts_backup_def text_or_string)
  moreover have "eb_class h = lit ''verdict-pill verdict-pill--poor'' \<and> eb_verdict h = emdash"
    if "path ev [lit ''verdict''] = Undefined"
    using c t that by (auto simp: verdictClass_backup_def text_or_undefined)
  ultimately show "\<exists>h. evaluationContent p' = Some (EvalCardB h) \<and>
         (path ev [lit ''verdict''] = Str s \<longrightarrow>
            eb_class h = (if s \<in> positive_verdicts_backup then lit ''verdict-pill verdict-pill--good''
                          else lit ''verdict-pill verdict-pill--poor'')
            \<and> eb_verdict h = (if s = [] then emdash else s)) \<and>
         (path ev [lit ''verdict''] = Undefined \<longrightarrow>
            eb_class h = lit ''verdict-pill verdict-pill--poor'' \<and> eb_verdict h = emdash)"
    using p' by auto
qed

theorem verdict_decides_class_witness:
  "lit ''Ready'' \<in> positive_verdicts
   \<and> (\<exists>h. evaluationContent (snd (renderEvaluation
              (Obj [(lit ''executive_summary'', Obj [(lit ''verdict'', Str (lit ''Ready''))])])
              sample_page)) = Some (EvalCard h)
          \<and> ec_class h = lit ''verdict-pill verdict-pill--good'' \<and> ec_verdict h = lit ''Ready'')
   \<and> lit ''poor'' \<notin> positive_verdicts_backup
   \<and> (\<exists>h. evaluationContent (snd (renderEvaluation_backup
              (Obj [(lit ''verdict'', Str (lit ''poor''))]) sample_page)) = Some (EvalCardB h)
          \<and> eb_class h = lit ''verdict-pill verdict-pill--poor'' \<and> eb_verdict h = lit ''poor'')
   \<and> (\<exists>h. evaluationContent (snd (renderEvaluation (Obj []) sample_page)) = Some (EvalCard h)
          \<and> ec_class h = lit ''verdict-pill verdict-pill--poor'' \<and> ec_verdict h = emdash)"
proof -
  let ?a = "Obj [(lit ''executive_summary'', Obj [(lit ''verdict'', Str (lit ''Ready''))])]"
  let ?b = "Obj [(lit ''verdict'', Str (lit ''poor''))]"
  have ra: "renderEvaluation ?a sample_page = (None, snd (renderEvaluation ?a sample_page))"
    by (simp add: prod_eq_iff js_defs version_a_defs sample_page_def)
  have rb: "renderEvaluation_backup ?b sample_page =
              (None, snd (renderEvaluation_backup ?b sample_page))"
    by (simp add: prod_eq_iff js_defs version_b_defs sample_page_def)
  have rc: "renderEvaluation (Obj []) sample_page =
              (None, snd (renderEvaluation (Obj []) sample_page))"
    by (simp add: prod_eq_iff js_defs version_a_defs sample_page_def)
  have el: "evaluationContent sample_page = Some (Static [])"
    by (simp add: sample_page_def)
  have pa: "path ?a [lit ''executive_summary'', lit ''verdict''] = Str (lit ''Ready'')"
    and pb: "path ?b [lit ''verdict''] = Str (lit ''poor'')" and tb: "truthy ?b"
    and pc: "path (Obj []) [lit ''executive_summary'', lit ''verdict''] = Undefined"
    by (simp_all add: field_def)
  have m: "lit ''Ready'' \<in> positive_verdicts" "lit ''poor'' \<notin> positive_verdicts_backup"
    by (simp_all add: positive_verdicts_def positive_verdicts_backup_def)
  show ?thesis
    using m
      verdict_decides_class [of ?a sample_page "snd (renderEvaluation ?a sample_page)"
        "Static []" "lit ''Ready''" Undefined] ra el pa
      verdict_decides_class [of Undefined sample_page
        "snd (renderEvaluation_backup ?b sample_page)" "Static []" "lit ''poor''" ?b] rb pb tb
      verdict_decides_class [of "Obj []" sample_page "snd (renderEvaluation (Obj []) sample_page)"
        "Static []" "[]" Undefined] rc pc
    by simp
qed

lemma score_bar_finite:
  "score_bar (l, Num (Fin v), hlp) =
     Some \<lparr>row_label = l, row_help = hlp,
           row_width = Number_toString (round_double (clamp v 0 10 * 10)) @ lit ''%'',
           row_value = toFixed1 (Fin v)\<rparr>"
proof -
  have "times_num (Math_min (Fin 10) (Math_max (Fin 0) (Fin v))) (Fin 10)
          = round_double (clamp v 0 10 * 10)"
    by (simp add: Math_min_def Math_max_def clamp_def)
  then show ?thesis
    by (simp add: score_bar_def Let_def del: Number_toString.simps toFixed1.simps)
qed

lemma or_default_number [simp]: "or_default d (Num n) = Num n"
  by (simp add: or_default_def)

lemma ge_number: "ge (Num (Fin x)) (Fin 60) = Inr (60 \<le> x)"
  by (auto simp: ge_def ge_num_def)

lemma ge_zero: "ge zero (Fin 60) = Inr False"
  by (simp add: zero_def ge_number)

text \<open>
  C6. The flag \<^verbatim>\<open>LLM-ready\<close> of a rendered card does not come from the verdict.
  In version A it is \<^verbatim>\<open>Yes\<close> exactly when \<^verbatim>\<open>score_matrix.final_score\<close>,
  a number, is at least 60, and \<^verbatim>\<open>No\<close> when the score is absent; in version B
  it is \<^verbatim>\<open>Yes\<close> exactly when the boolean \<^verbatim>\<open>llm_ready\<close> of the
  evaluation is true, and \<^verbatim>\<open>No\<close> when it is absent.
\<close>

theorem llm_ready_follows_score:
  "(renderEvaluation ctx p = (None, p') \<and> evaluationContent p = Some old \<longrightarrow>
      (\<exists>h. evaluationContent p' = Some (EvalCard h) \<and>
         (path ctx [lit ''score_matrix'', lit ''final_score''] = Num (Fin x) \<longrightarrow>
            ec_llm_ready h = (if 60 \<le> x then lit ''Yes'' else lit ''No'')) \<and>
         (path ctx [lit ''score_matrix'', lit ''final_score''] = Undefined \<longrightarrow>
            ec_llm_ready h = lit ''No'')))
   \<and> (renderEvaluation_backup ev p = (None, p') \<and> evaluationContent p = Some old \<and> truthy ev \<longrightarrow>
      (\<exists>h. evaluationContent p' = Some (EvalCardB h) \<and>
         (path ev [lit ''llm_ready''] = Bool b \<longrightarrow>
            eb_llm_ready h = (if b then lit ''Yes'' else lit ''No'')) \<and>
         (path ev [lit ''llm_ready''] = Undefined \<longrightarrow> eb_llm_ready h = lit ''No'')))"
proof (intro conjI impI)
  assume a: "renderEvaluation ctx p = (None, p') \<and> evaluationContent p = Some old"
  then obtain h where h: "evaluation_template ctx = Inr h"
    and p': "p' = p\<lparr>evaluationContent := Some (EvalCard h)\<rparr>"
    using renderEvaluation_None [of ctx p p'] by auto
  let ?f = "or_default zero (path ctx [lit ''score_matrix'', lit ''final_score''])"
  obtain r where r: "ge ?f (Fin 60) = Inr r" and f: "ec_llm_ready h = yes_no r"
    using evaluation_template_Inr [OF h] by (auto simp: field_lor_obj)
  have "ec_llm_ready h = (if 60 \<le> x then lit ''Yes'' else lit ''No'')"
    if "path ctx [lit ''score_matrix'', lit ''final_score''] = Num (Fin x)"
    using r f that by (auto simp: ge_number yes_no_def)
  moreover have "ec_llm_ready h = lit ''No''"
    if "path ctx [lit ''score_matrix'', lit ''final_score''] = Undefined"
    using r f that by (auto simp: or_default_def ge_zero yes_no_def)
  ultimately show "\<exists>h. evaluationContent p' = Some (EvalCard h) \<and>
         (path ctx [lit ''score_matrix'', lit ''final_score''] = Num (Fin x) \<longrightarrow>
            ec_llm_ready h = (if 60 \<le> x then lit ''Yes'' else lit ''No'')) \<and>
         (path ctx [lit ''score_matrix'', lit ''final_score''] = Undefined \<longrightarrow>
            ec_llm_ready h = lit ''No'')"
    using p' by auto
next
  assume a: "renderEvaluation_backup ev p = (None, p') \<and> evaluationContent p = Some old \<and> truthy ev"
  then obtain h where h: "evaluation_template_backup ev = Inr h"
    and p': "p' = p\<lparr>evaluationContent := Some (EvalCardB h)\<rparr>"
    using renderEvaluation_backup_None [of ev p p'] by auto
  have f: "eb_llm_ready h = yes_no (truthy (path ev [lit ''llm_ready'']))"
    using evaluation_template_backup_Inr [OF h] by auto
  show "\<exists>h. evaluationContent p' = Some (EvalCardB h) \<and>
         (path ev [lit ''llm_ready''] = Bool b \<longrightarrow>
            eb_llm_ready h = (if b then lit ''Yes'' else lit ''No'')) \<and>
         (path ev [lit ''llm_ready''] = Undefined \<longrightarrow> eb_llm_ready h = lit ''No'')"
    using p' f by (auto simp: yes_no_def)
qed

theorem llm_ready_follows_score_witness:
  "(\<exists>h. evaluationContent (snd (renderEvaluation
              (Obj [(lit ''executive_summary'', Obj [(lit ''verdict'', Str (lit ''Not Ready''))]),
                    (lit ''score_matrix'', Obj [(lit ''final_score'', Num (Fin 60))])])
              sample_page)) = Some (EvalCard h)
          \<and> ec_llm_ready h = lit ''Yes'')
   \<and> (\<exists>h. evaluationContent (snd (renderEvaluation (Obj []) sample_page)) = Some (EvalCard h)
          \<and> ec_llm_ready h = lit ''No'')
   \<and> (\<exists>h. evaluationContent (snd (renderEvaluation_backup
              (Obj [(lit ''verdict'', Str (lit ''good'')), (lit ''llm_ready'', Bool False)])
              sample_page)) = Some (EvalCardB h)
          \<and> eb_llm_ready h = lit ''No'')"
proof -
  let ?a = "Obj [(lit ''executive_summary'', Obj [(lit ''verdict'', Str (lit ''Not Ready''))]),
                 (lit ''score_matrix'', Obj [(lit ''final_score'', Num (Fin 60))])]"
  let ?b = "Obj [(lit ''verdict'', Str (lit ''good'')), (lit ''llm_ready'', Bool False)]"
  have ra: "renderEvaluation ?a sample_page = (None, snd (renderEvaluation ?a sample_page))"
    by (simp add: prod_eq_iff js_defs version_a_defs sample_page_def)
  have rb: "renderEvaluation_backup ?b sample_page =
              (None, snd (renderEvaluation_backup ?b sample_page))"
    by (simp add: prod_eq_iff js_defs version_b_defs sample_page_def)
  have rc: "renderEvaluation (Obj []) sample_page =
              (None, snd (renderEvaluation (Obj []) sample_page))"
    by (simp add: prod_eq_iff js_defs version_a_defs sample_page_def)
  have el: "evaluationContent sample_page = Some (Static [])"
    by (simp add: sample_page_def)
  have pa: "path ?a [lit ''score_matrix'', lit ''final_score''] = Num (Fin 60)"
    and pb: "path ?b [lit ''llm_ready''] = Bool False" and tb: "truthy ?b"
    and pc: "path (Obj []) [lit ''score_matrix'', lit ''final_score''] = Undefined"
    by (simp_all add: field_def)
  show ?thesis
    using
      llm_ready_follows_score [of ?a sample_page "snd (renderEvaluation ?a sample_page)"
        "Static []" 60 Undefined] ra el pa
      llm_ready_follows_score [of Undefined sample_page
        "snd (renderEvaluation_backup ?b sample_page)" "Static []" 0 ?b False] rb pb tb
      llm_ready_follows_score [of "Obj []" sample_page "snd (renderEvaluation (Obj []) sample_page)"
        "Static []" 0 Undefined] rc pc
    by simp
qed

lemma width_at_ends:
  "v \<le> 0 \<Longrightarrow>
   Number_toString (round_double (clamp v 0 10 * 10)) @ lit ''%'' = lit ''0%''"
  "10 \<le> v \<Longrightarrow>
   Number_toString (round_double (clamp v 0 10 * 10)) @ lit ''%'' = lit ''100%''"
proof -
  show "Number_toString (round_double (clamp v 0 10 * 10)) @ lit ''%'' = lit ''0%''"
    if "v \<le> 0"
  proof -
    have "clamp v 0 10 = 0" using that by (simp add: clamp_def)
    then show ?thesis by (simp add: lit_append)
  qed
  show "Number_toString (round_double (clamp v 0 10 * 10)) @ lit ''%'' = lit ''100%''"
    if "10 \<le> v"
  proof -
    have "clamp v 0 10 = 10" using that by (simp add: clamp_def)
    then show ?thesis by (simp add: printed_100 lit_append)
  qed
qed

text \<open>
  C3, as the code has it. The fill of a bar is the product of \<open>clamp v 0 10\<close> and 10 as
  the multiplication of doubles gives it, that is rounded to the nearest double, and
  printed as a number: \<^verbatim>\<open>0%\<close> for every score up to 0 and \<^verbatim>\<open>100%\<close> for
  every score from 10 on, and in between a number that can differ from the exact product
  in its last digits.
  The value printed beside the bar is the score with one fraction digit. The rows are
  those of \<^verbatim>\<open>scoreRows\<close>, read from the document in their order, in both
  versions. For the score 7.36 the fill is \<^verbatim>\<open>73.60000000000001%\<close>, which is the
  counterexample to the claim as it was stated.
\<close>

theorem bar_width_is_rounded_product:
  "(renderEvaluation ctx p = (None, p') \<and> evaluationContent p = Some old \<longrightarrow>
      list_all2
        (\<lambda>ks bar. \<forall>v. path ctx ks = Num (Fin v) \<longrightarrow>
           (\<exists>row. bar = Some row
              \<and> row_width row = Number_toString (round_double (clamp v 0 10 * 10)) @ lit ''%''
              \<and> (v \<le> 0 \<longrightarrow> row_width row = lit ''0%'')
              \<and> (10 \<le> v \<longrightarrow> row_width row = lit ''100%'')
              \<and> row_value row = toFixed1 (Fin v)))
        score_paths (bars_shown (evaluationContent p')))
   \<and> (renderEvaluation_backup ev p = (None, p') \<and> evaluationContent p = Some old \<and> truthy ev \<longrightarrow>
      list_all2
        (\<lambda>ks bar. \<forall>v. path ev ks = Num (Fin v) \<longrightarrow>
           (\<exists>row. bar = Some row
              \<and> row_width row = Number_toString (round_double (clamp v 0 10 * 10)) @ lit ''%''
              \<and> (v \<le> 0 \<longrightarrow> row_width row = lit ''0%'')
              \<and> (10 \<le> v \<longrightarrow> row_width row = lit ''100%'')
              \<and> row_value row = toFixed1 (Fin v)))
        score_paths_backup (bars_shown (evaluationContent p')))"
proof (intro conjI impI)
  assume a: "renderEvaluation ctx p = (None, p') \<and> evaluationContent p = Some old"
  then obtain h where h: "evaluation_template ctx = Inr h"
    and p': "p' = p\<lparr>evaluationContent := Some (EvalCard h)\<rparr>"
    using renderEvaluation_None [of ctx p p'] by auto
  let ?sm = "or_default (Obj []) (field (lor ctx (Obj [])) (lit ''score_matrix''))"
  have bars: "bars_shown (evaluationContent p') =
       map score_bar
         (scoreRows (or_default zero (field ?sm (lit ''summary_block'')),
                    or_default zero (field ?sm (lit ''definitions'')),
                    or_default zero (field ?sm (lit ''faq'')),
                    or_default zero (field ?sm (lit ''fanout_match'')),
                    or_default zero (field ?sm (lit ''canonical_resources'')),
                    or_default zero (field ?sm (lit ''structure'')),
                    or_default zero (field ?sm (lit ''clarity'')),
                    or_default zero (field ?sm (lit ''eeat''))))"
    using evaluation_template_Inr [OF h] p' by (auto simp: bars_shown_def)
  show "list_all2
        (\<lambda>ks bar. \<forall>v. path ctx ks = Num (Fin v) \<longrightarrow>
           (\<exists>row. bar = Some row
              \<and> row_width row = Number_toString (round_double (clamp v 0 10 * 10)) @ lit ''%''
              \<and> (v \<le> 0 \<longrightarrow> row_width row = lit ''0%'')
              \<and> (10 \<le> v \<longrightarrow> row_width row = lit ''100%'')
              \<and> row_value row = toFixed1 (Fin v)))
        score_paths (bars_shown (evaluationContent p'))"
    unfolding bars
    by (simp add: score_paths_def scoreRows_def field_lor_obj score_bar_finite width_at_ends
        del: Number_toString.simps toFixed1.simps)
next
  assume a: "renderEvaluation_backup ev p = (None, p') \<and> evaluationContent p = Some old \<and> truthy ev"
  then obtain h where h: "evaluation_template_backup ev = Inr h"
    and p': "p' = p\<lparr>evaluationContent := Some (EvalCardB h)\<rparr>"
    using renderEvaluation_backup_None [of ev p p'] by auto
  let ?sc = "lor (field ev (lit ''scores'')) (Obj [])"
  have bars: "bars_shown (evaluationContent p') =
       map score_bar
         (scoreRows_backup (or_default zero (field ?sc (lit ''intent_clarity'')),
                    or_default zero (field ?sc (lit ''coverage'')),
                    or_default zero (field ?sc (lit ''structure'')),
                    or_default zero (field ?sc (lit ''definitions'')),
                    or_default zero (field ?sc (lit ''answerability'')),
                    or_default zero (field ?sc (lit ''trust'')),
                    field ev (lit ''canonical_score'')))"
    using evaluation_template_backup_Inr [OF h] p' by (auto simp: bars_shown_def)
  show "list_all2
        (\<lambda>ks bar. \<forall>v. path ev ks = Num (Fin v) \<longrightarrow>
           (\<exists>row. bar = Some row
              \<and> row_width row = Number_toString (round_double (clamp v 0 10 * 10)) @ lit ''%''
              \<and> (v \<le> 0 \<longrightarrow> row_width row = lit ''0%'')
              \<and> (10 \<le> v \<longrightarrow> row_width row = lit ''100%'')
              \<and> row_value row = toFixed1 (Fin v)))
        score_paths_backup (bars_shown (evaluationContent p'))"
    unfolding bars
    by (simp add: score_paths_backup_def scoreRows_backup_def field_lor_obj score_bar_finite
        width_at_ends del: Number_toString.simps toFixed1.simps)
qed

theorem bar_width_is_rounded_product_witness:
  "(\<exists>row. bars_shown (evaluationContent (snd (renderEvaluation
              (Obj [(lit ''score_matrix'',
                     Obj [(lit ''clarity'', Num (Fin (8286623314361713 / 2 ^ 50))),
                          (lit ''eeat'', Num (Fin 12))])])
              sample_page))) ! 6 = Some row
           \<and> row_width row = lit ''73.60000000000001%'' \<and> row_value row = lit ''7.4'')
   \<and> (\<exists>row. bars_shown (evaluationContent (snd (renderEvaluation
              (Obj [(lit ''score_matrix'',
                     Obj [(lit ''clarity'', Num (Fin (8286623314361713 / 2 ^ 50))),
                          (lit ''eeat'', Num (Fin 12))])])
              sample_page))) ! 7 = Some row
           \<and> row_width row = lit ''100%'' \<and> row_value row = lit ''12.0'')
   \<and> (\<exists>row. bars_shown (evaluationContent (snd (renderEvaluation_backup
              (Obj [(lit ''canonical_score'', Num (Fin (- 3)))]) sample_page))) ! 6 = Some row
           \<and> row_width row = lit ''0%'' \<and> row_value row = lit ''-3.0'')"
proof -
  let ?a = "Obj [(lit ''score_matrix'',
                  Obj [(lit ''clarity'', Num (Fin (8286623314361713 / 2 ^ 50))),
                       (lit ''eeat'', Num (Fin 12))])]"
  let ?b = "Obj [(lit ''canonical_score'', Num (Fin (- 3)))]"
  have ra: "renderEvaluation ?a sample_page = (None, snd (renderEvaluation ?a sample_page))"
    by (simp add: prod_eq_iff js_defs version_a_defs sample_page_def)
  have rb: "renderEvaluation_backup ?b sample_page =
              (None, snd (renderEvaluation_backup ?b sample_page))"
    by (simp add: prod_eq_iff js_defs version_b_defs sample_page_def)
  have el: "evaluationContent sample_page = Some (Static [])"
    by (simp add: sample_page_def)
  have tb: "truthy ?b" by simp
  have all_a: "list_all2
        (\<lambda>ks bar. \<forall>v. path ?a ks = Num (Fin v) \<longrightarrow>
           (\<exists>row. bar = Some row
              \<and> row_width row = Number_toString (round_double (clamp v 0 10 * 10)) @ lit ''%''
              \<and> (v \<le> 0 \<longrightarrow> row_width row = lit ''0%'')
              \<and> (10 \<le> v \<longrightarrow> row_width row = lit ''100%'')
              \<and> row_value row = toFixed1 (Fin v)))
        score_paths (bars_shown (evaluationContent (snd (renderEvaluation ?a sample_page))))"
    using bar_width_is_rounded_product [of ?a sample_page "snd (renderEvaluation ?a sample_page)"
        "Static []" Undefined] ra el by blast
  have all_b: "list_all2
        (\<lambda>ks bar. \<forall>v. path ?b ks = Num (Fin v) \<longrightarrow>
           (\<exists>row. bar = Some row
              \<and> row_width row = Number_toString (round_double (clamp v 0 10 * 10)) @ lit ''%''
              \<and> (v \<le> 0 \<longrightarrow> row_width row = lit ''0%'')
              \<and> (10 \<le> v \<longrightarrow> row_width row = lit ''100%'')
              \<and> row_value row = toFixed1 (Fin v)))
        score_paths_backup
        (bars_shown (evaluationContent (snd (renderEvaluation_backup ?b sample_page))))"
    using bar_width_is_rounded_product [of Undefined sample_page
        "snd (renderEvaluation_backup ?b sample_page)" "Static []" ?b] rb el tb by blast
  have p6: "path ?a (score_paths ! 6) = Num (Fin (8286623314361713 / 2 ^ 50))"
    and p7: "path ?a (score_paths ! 7) = Num (Fin 12)"
    and q6: "path ?b (score_paths_backup ! 6) = Num (Fin (- 3))"
    by (simp_all add: score_paths_def score_paths_backup_def field_def)
  have w1: "Number_toString (round_double (clamp (8286623314361713 / 2 ^ 50) 0 10 * 10))
              @ lit ''%'' = lit ''73.60000000000001%''"
    and v1: "toFixed1 (Fin (8286623314361713 / 2 ^ 50)) = lit ''7.4''"
    and v2: "toFixed1 (Fin 12) = lit ''12.0''"
    and v3: "toFixed1 (Fin (- 3)) = lit ''-3.0''"
    by (simp_all add: clamp_def num_defs lit_def)
  have len: "6 < length score_paths" "7 < length score_paths" "6 < length score_paths_backup"
    by (simp_all add: score_paths_def score_paths_backup_def)
  have "\<exists>row. bars_shown (evaluationContent (snd (renderEvaluation ?a sample_page))) ! 6 = Some row
           \<and> row_width row = lit ''73.60000000000001%'' \<and> row_value row = lit ''7.4''"
    using list_all2_nthD [OF all_a len(1), rule_format, OF p6] w1 v1 by auto
  moreover have "\<exists>row. bars_shown (evaluationContent (snd (renderEvaluation ?a sample_page))) ! 7 = Some row
           \<and> row_width row = lit ''100%'' \<and> row_value row = lit ''12.0''"
    using list_all2_nthD [OF all_a len(2), rule_format, OF p7] v2 by auto
  moreover have "\<exists>row. bars_shown (evaluationContent (snd (renderEvaluation_backup ?b sample_page))) ! 6
             = Some row
           \<and> row_width row = lit ''0%'' \<and> row_value row = lit ''-3.0''"
    using list_all2_nthD [OF all_b len(3), rule_format, OF q6] v3 by auto
  ultimately show ?thesis by blast
qed

theorem bar_width_counterexample:
  "path (Obj [(lit ''score_matrix'', Obj [(lit ''clarity'', Num (round_double (736 / 100)))])])
        (score_paths ! 6) = Num (Fin (8286623314361713 / 2 ^ 50))
   \<and> map_option row_width
        (bars_shown (evaluationContent (snd (renderEvaluation
           (Obj [(lit ''score_matrix'', Obj [(lit ''clarity'', Num (round_double (736 / 100)))])])
           sample_page))) ! 6) = Some (lit ''73.60000000000001%'')
   \<and> lit ''73.60000000000001%'' \<noteq> lit ''73.6%''
   \<and> times_num (Math_min (Fin 10) (Math_max (Fin 0) (Fin (8286623314361713 / 2 ^ 50)))) (Fin 10)
        = Fin (5179139571476071 / 2 ^ 46)
   \<and> (5179139571476071 / 2 ^ 46 :: real) \<noteq> clamp (8286623314361713 / 2 ^ 50) 0 10 * 10"
  by (simp add: js_defs num_defs version_a_defs sample_page_def bars_shown_def score_paths_def
      clamp_def lit_def)

lemma number_or_0_field: "number_or_0 blk k = Inr (number_else_0 (field blk k))"
  by (cases blk) (auto simp: number_or_0_def number_else_0_def field_def split: jsval.splits)

lemma renderArcRank_truthy:
  "truthy sm \<Longrightarrow>
   renderArcRank sm cb fb fo p =
     (None,
      p\<lparr>arcScoreEl :=
           map_option (score_text_update
             (\<lambda>_. if isNaN (number_else_0 (field sm (lit ''final_score''))) then emdash
                  else Number_toString (number_else_0 (field sm (lit ''final_score'')))))
             (arcScoreEl p),
         scoreAioEl :=
           set_score (sub_score_text (number_else_0 (field cb (lit ''score'')))) aio_title
             (scoreAioEl p),
         scoreAeoEl :=
           set_score (sub_score_text (number_else_0 (field fb (lit ''score'')))) aeo_title
             (scoreAeoEl p),
         scoreGeoEl :=
           set_score (sub_score_text (number_else_0 (field fo (lit ''coverage_score''))))
             geo_title (scoreGeoEl p)\<rparr>)"
  by (simp add: renderArcRank_def number_or_0_field del: Number_toString.simps)


lemma and_then_keeps:
  assumes "\<And>p. view (snd (f p)) = view p" and "\<And>p. view (snd (g p)) = view p"
  shows "view (snd (and_then f g p)) = view p"
proof (cases "f p")
  case (Pair e p')
  have "view p' = view p" using assms(1) [of p] Pair by simp
  then show ?thesis
    using assms(2) [of p'] Pair by (cases e) (simp_all add: and_then_def)
qed

lemma and_then_keeps_after:
  assumes "\<And>p. view (snd (g p)) = view p"
  shows "view (snd (and_then f g p)) = view (snd (f p))"
proof (cases "f p")
  case (Pair e p')
  then show ?thesis
    using assms [of p'] by (cases e) (simp_all add: and_then_def)
qed

lemma write_html_keeps:
  assumes "\<And>h p. view (put h p) = view p"
  shows "view (snd (write_html el put c p)) = view p"
  using assms by (cases c) (simp_all add: write_html_def)

lemma renderLlmView_header: "score_header (snd (renderLlmView v p)) = score_header p"
  by (cases "llm_template v") (simp_all add: renderLlmView_def score_header_def)

lemma renderEvaluation_header: "score_header (snd (renderEvaluation v p)) = score_header p"
  by (cases "evaluation_template v") (simp_all add: renderEvaluation_def score_header_def)

lemma renderBlocks_header: "score_header (snd (renderBlocks a b c d p)) = score_header p"
  unfolding renderBlocks_def
  by (intro and_then_keeps write_html_keeps) (simp_all add: score_header_def)

lemma renderResults_header:
  assumes "truthy data"
  shows "score_header (snd (renderResults data p)) =
         score_header (snd (renderArcRank (field data (lit ''score_matrix''))
           (field data (lit ''clarity_readability'')) (field data (lit ''faq_block''))
           (field data (lit ''fanout_query_analysis'')) p))"
  using assms
  by (simp add: renderResults_def and_then_keeps_after and_then_keeps renderLlmView_header
      renderEvaluation_header renderBlocks_header)

lemma field_defined_truthy: "field v k \<noteq> Undefined \<Longrightarrow> k \<noteq> lit ''length'' \<Longrightarrow> truthy v"
  by (cases v) (auto simp: field_def split: if_splits)

lemma truthy_field_truthy: "truthy (field v k) \<Longrightarrow> k \<noteq> lit ''length'' \<Longrightarrow> truthy v"
  using field_defined_truthy [of v k] by (cases "field v k") auto

lemma header_after_render:
  assumes "truthy (path data [lit ''score_matrix''])"
  shows "shown (arcScoreEl (snd (renderResults data p))) =
           map_option (\<lambda>_. if isNaN (number_else_0 (path data [lit ''score_matrix'', lit ''final_score'']))
                            then emdash
                            else Number_toString
                              (number_else_0 (path data [lit ''score_matrix'', lit ''final_score''])))
             (arcScoreEl p)"
    and "shown (scoreAioEl (snd (renderResults data p))) =
           map_option (\<lambda>_. sub_score_text
               (number_else_0 (path data [lit ''clarity_readability'', lit ''score''])))
             (scoreAioEl p)"
    and "shown (scoreAeoEl (snd (renderResults data p))) =
           map_option (\<lambda>_. sub_score_text (number_else_0 (path data [lit ''faq_block'', lit ''score''])))
             (scoreAeoEl p)"
    and "shown (scoreGeoEl (snd (renderResults data p))) =
           map_option (\<lambda>_. sub_score_text
               (number_else_0 (path data [lit ''fanout_query_analysis'', lit ''coverage_score''])))
             (scoreGeoEl p)"
proof -
  have sm: "truthy (field data (lit ''score_matrix''))" using assms by simp
  then have d: "truthy data" by (rule truthy_field_truthy) simp
  note h = renderResults_header [OF d, of p, unfolded renderArcRank_truthy [OF sm] score_header_def]
  show "shown (arcScoreEl (snd (renderResults data p))) =
           map_option (\<lambda>_. if isNaN (number_else_0 (path data [lit ''score_matrix'', lit ''final_score'']))
                            then emdash
                            else Number_toString
                              (number_else_0 (path data [lit ''score_matrix'', lit ''final_score''])))
             (arcScoreEl p)"
    using h by (cases "arcScoreEl p") (simp_all add: shown_def del: Number_toString.simps)
  show "shown (scoreAioEl (snd (renderResults data p))) =
           map_option (\<lambda>_. sub_score_text
               (number_else_0 (path data [lit ''clarity_readability'', lit ''score''])))
             (scoreAioEl p)"
    using h by (cases "scoreAioEl p") (simp_all add: shown_def set_score_def)
  show "shown (scoreAeoEl (snd (renderResults data p))) =
           map_option (\<lambda>_. sub_score_text (number_else_0 (path data [lit ''faq_block'', lit ''score''])))
             (scoreAeoEl p)"
    using h by (cases "scoreAeoEl p") (simp_all add: shown_def set_score_def)
  show "shown (scoreGeoEl (snd (renderResults data p))) =
           map_option (\<lambda>_. sub_score_text
               (number_else_0 (path data [lit ''fanout_query_analysis'', lit ''coverage_score''])))
             (scoreGeoEl p)"
    using h by (cases "scoreGeoEl p") (simp_all add: shown_def set_score_def)
qed





subsection \<open>The score header\<close>




text \<open>
  C9, as the code has it. When \<^verbatim>\<open>score_matrix\<close> is present, a sub-score that is
  exactly 0 is shown as the dash, as an absent one is: the text is
  \<^verbatim>\<open>aio ? aio.toFixed(1) : dash\<close>, and 0 is falsy. When \<^verbatim>\<open>score_matrix\<close>
  is absent the element keeps what it showed, which is the counterexample to the claim as
  it was stated.
\<close>

theorem zero_sub_score_is_a_dash:
  assumes "truthy (path data [lit ''score_matrix''])"
  shows "(path data [lit ''clarity_readability'', lit ''score''] = Num (Fin 0)
            \<or> path data [lit ''clarity_readability'', lit ''score''] = Undefined \<longrightarrow>
           shown (scoreAioEl (snd (renderResults data p))) =
             map_option (\<lambda>_. emdash) (scoreAioEl p))
       \<and> (path data [lit ''faq_block'', lit ''score''] = Num (Fin 0)
            \<or> path data [lit ''faq_block'', lit ''score''] = Undefined \<longrightarrow>
           shown (scoreAeoEl (snd (renderResults data p))) =
             map_option (\<lambda>_. emdash) (scoreAeoEl p))
       \<and> (path data [lit ''fanout_query_analysis'', lit ''coverage_score''] = Num (Fin 0)
            \<or> path data [lit ''fanout_query_analysis'', lit ''coverage_score''] = Undefined \<longrightarrow>
           shown (scoreGeoEl (snd (renderResults data p))) =
             map_option (\<lambda>_. emdash) (scoreGeoEl p))"
proof -
  have z: "v = Num (Fin 0) \<or> v = Undefined \<Longrightarrow> sub_score_text (number_else_0 v) = emdash" for v
    by (auto simp: number_else_0_def sub_score_text_def)
  show ?thesis
    using header_after_render(2-4) [OF assms, of p] z by simp
qed

theorem zero_sub_score_is_a_dash_witness:
  "truthy (path (Obj [(lit ''score_matrix'', Obj [(lit ''final_score'', Num (Fin 82))]),
                      (lit ''faq_block'', Obj [(lit ''score'', Num (Fin 0))])])
                [lit ''score_matrix''])
   \<and> shown (scoreAeoEl (snd (renderResults
               (Obj [(lit ''score_matrix'', Obj [(lit ''final_score'', Num (Fin 82))]),
                     (lit ''faq_block'', Obj [(lit ''score'', Num (Fin 0))])])
               sample_page))) = Some emdash"
proof -
  let ?d = "Obj [(lit ''score_matrix'', Obj [(lit ''final_score'', Num (Fin 82))]),
                 (lit ''faq_block'', Obj [(lit ''score'', Num (Fin 0))])]"
  have t: "truthy (path ?d [lit ''score_matrix''])"
    and z: "path ?d [lit ''faq_block'', lit ''score''] = Num (Fin 0)"
    by (simp_all add: field_def)
  have el: "scoreAeoEl sample_page \<noteq> None"
    by (simp add: sample_page_def)
  show ?thesis
    using t z el zero_sub_score_is_a_dash [OF t, of sample_page] by auto
qed

theorem zero_sub_score_counterexample:
  "path (Obj [(lit ''clarity_readability'', Obj [(lit ''score'', Num (Fin 0))])])
        [lit ''clarity_readability'', lit ''score''] = Num (Fin 0)
   \<and> shown (scoreAioEl (snd (renderResults
              (Obj [(lit ''clarity_readability'', Obj [(lit ''score'', Num (Fin 0))])])
              sample_page))) = Some (lit ''7.3'')
   \<and> lit ''7.3'' \<noteq> emdash"
  by (simp add: js_defs num_defs version_a_defs sample_page_def shown_def emdash_def lit_def)

lemma and_then_None:
  "and_then f g p = (None, p') \<Longrightarrow> \<exists>q. f p = (None, q) \<and> g q = (None, p')"
  by (cases "f p"; cases "fst (f p)") (auto simp: and_then_def)

lemma write_html_None:
  "write_html el put c p = (None, q) \<Longrightarrow>
   (el p = None \<and> q = p) \<or> (\<exists>h. c = Inr h \<and> q = put (Some h) p)"
  by (cases c) (auto simp: write_html_def split: if_splits)

lemma renderArcRank_containers:
  "evaluationContent (snd (renderArcRank a b c d p)) = evaluationContent p"
  "faqBlockEl (snd (renderArcRank a b c d p)) = faqBlockEl p"
proof -
  show "evaluationContent (snd (renderArcRank a b c d p)) = evaluationContent p"
    by (cases "truthy a") (simp_all add: renderArcRank_truthy, simp add: renderArcRank_def)
  show "faqBlockEl (snd (renderArcRank a b c d p)) = faqBlockEl p"
    by (cases "truthy a") (simp_all add: renderArcRank_truthy, simp add: renderArcRank_def)
qed

lemma renderLlmView_containers:
  "evaluationContent (snd (renderLlmView v p)) = evaluationContent p"
  "faqBlockEl (snd (renderLlmView v p)) = faqBlockEl p"
  by (cases "llm_template v", simp_all add: renderLlmView_def)+

lemma renderEvaluation_faq: "faqBlockEl (snd (renderEvaluation v p)) = faqBlockEl p"
  by (cases "evaluation_template v") (simp_all add: renderEvaluation_def)

lemma renderBlocks_evaluation:
  "evaluationContent (snd (renderBlocks a b c d p)) = evaluationContent p"
  unfolding renderBlocks_def
  by (intro and_then_keeps write_html_keeps) simp_all

lemma renderBlocks_faq:
  assumes "renderBlocks s d f c p = (None, p')" and "faqBlockEl p \<noteq> None"
  shows "\<exists>h. faq_template f = Inr h \<and> faqBlockEl p' = Some (FaqCard h)"
proof -
  obtain q1 q2 q3 where
    w1: "write_html summaryBlockEl (\<lambda>h p. p\<lparr>summaryBlockEl := h\<rparr>)
           (bnd (summary_template s) (\<lambda>h. Inr (SummaryCard h))) p = (None, q1)"
    and w2: "write_html definitionsBlockEl (\<lambda>h p. p\<lparr>definitionsBlockEl := h\<rparr>)
           (bnd (definitions_template d) (\<lambda>h. Inr (DefinitionsCard h))) q1 = (None, q2)"
    and w3: "write_html faqBlockEl (\<lambda>h p. p\<lparr>faqBlockEl := h\<rparr>)
           (bnd (faq_template f) (\<lambda>h. Inr (FaqCard h))) q2 = (None, q3)"
    and w4: "write_html canonicalBlockEl (\<lambda>h p. p\<lparr>canonicalBlockEl := h\<rparr>)
           (bnd (canonical_template c) (\<lambda>h. Inr (CanonicalCard h))) q3 = (None, p')"
    using assms(1) unfolding renderBlocks_def by (blast dest: and_then_None)
  have f1: "faqBlockEl q1 = faqBlockEl p"
    using write_html_None [OF w1] by auto
  have f2: "faqBlockEl q2 = faqBlockEl q1"
    using write_html_None [OF w2] by auto
  have f4: "faqBlockEl p' = faqBlockEl q3"
    using write_html_None [OF w4] by auto
  have "faqBlockEl q2 \<noteq> None" using f1 f2 assms(2) by simp
  then obtain x where x: "bnd (faq_template f) (\<lambda>h. Inr (FaqCard h)) = Inr x"
    and q3: "q3 = q2\<lparr>faqBlockEl := Some x\<rparr>"
    using write_html_None [OF w3] by auto
  obtain h where "faq_template f = Inr h" "x = FaqCard h"
    using x by (auto simp: bnd_eq_Inr)
  then show ?thesis using f4 q3 by simp
qed

lemma faq_template_empty:
  assumes "faq_template f = Inr h" and "field f (lit ''recommended_faqs'') = Arr []"
  shows "fq_faqs h = Inl (lit ''No FAQ suggestions generated.'')"
proof -
  have "truthy f"
    using assms(2) field_defined_truthy [of f "lit ''recommended_faqs''"] by simp
  then have "array_or_empty f (lit ''recommended_faqs'') = Inr []"
    using assms(2) by (simp add: array_or_empty_def)
  then show ?thesis
    using assms(1) by (auto simp: faq_template_def bnd_eq_Inr list_or_note_def)
qed

lemma renderResults_None:
  assumes "truthy data" and "renderResults data p = (None, p')"
  shows "\<exists>p1 p2 p3 ctx.
    renderArcRank (field data (lit ''score_matrix'')) (field data (lit ''clarity_readability''))
      (field data (lit ''faq_block'')) (field data (lit ''fanout_query_analysis'')) p = (None, p1)
    \<and> renderLlmView (field data (lit ''llm_interpretation'')) p1 = (None, p2)
    \<and> renderEvaluation ctx p2 = (None, p3)
    \<and> field ctx (lit ''score_matrix'') = field data (lit ''score_matrix'')
    \<and> renderBlocks (field data (lit ''summary_block'')) (field data (lit ''definitions_block''))
        (field data (lit ''faq_block'')) (field data (lit ''canonical_resources_block'')) p3
        = (None, p')"
proof -
  let ?ctx = "Obj [(lit ''page_metadata'', field data (lit ''page_metadata'')),
                   (lit ''executive_summary'', field data (lit ''executive_summary'')),
                   (lit ''score_matrix'', field data (lit ''score_matrix'')),
                   (lit ''fanout_query_analysis'', field data (lit ''fanout_query_analysis'')),
                   (lit ''clarity_readability'', field data (lit ''clarity_readability'')),
                   (lit ''eeat_block'', field data (lit ''eeat_block'')),
                   (lit ''fix_roadmap'', field data (lit ''fix_roadmap''))]"
  have "and_then
          (renderArcRank (field data (lit ''score_matrix'')) (field data (lit ''clarity_readability''))
             (field data (lit ''faq_block'')) (field data (lit ''fanout_query_analysis'')))
          (and_then (renderLlmView (field data (lit ''llm_interpretation'')))
             (and_then (renderEvaluation ?ctx)
                (renderBlocks (field data (lit ''summary_block''))
                   (field data (lit ''definitions_block'')) (field data (lit ''faq_block''))
                   (field data (lit ''canonical_resources_block''))))) p = (None, p')"
    using assms by (simp add: renderResults_def)
  then obtain p1 p2 p3 where
    "renderArcRank (field data (lit ''score_matrix'')) (field data (lit ''clarity_readability''))
      (field data (lit ''faq_block'')) (field data (lit ''fanout_query_analysis'')) p = (None, p1)"
    "renderLlmView (field data (lit ''llm_interpretation'')) p1 = (None, p2)"
    "renderEvaluation ?ctx p2 = (None, p3)"
    "renderBlocks (field data (lit ''summary_block'')) (field data (lit ''definitions_block''))
        (field data (lit ''faq_block'')) (field data (lit ''canonical_resources_block'')) p3
        = (None, p')"
    by (blast dest: and_then_None)
  moreover have "field ?ctx (lit ''score_matrix'') = field data (lit ''score_matrix'')"
    by (simp add: field_def)
  ultimately show ?thesis by blast
qed

lemma Number_toString_82: "Number_toString (Fin 82) = lit ''82''"
  by (simp add: num_defs lit_def)

lemma toFixed1_73:
  "toFixed1 (Fin (73 / 10)) = lit ''7.3''"
  "toFixed1 (round_double (73 / 10)) = lit ''7.3''"
  by (simp_all add: num_defs lit_def)

lemma width_73:
  "Number_toString (round_double (clamp (73 / 10) 0 10 * 10)) @ lit ''%'' = lit ''73%''"
  "Number_toString (round_double (clamp (8219069319951155 / 2 ^ 50) 0 10 * 10)) @ lit ''%''
     = lit ''73%''"
  by (simp_all add: clamp_def num_defs lit_def)

lemma clarity_row:
  assumes "v = Num (Fin (73 / 10)) \<or> v = Num (round_double (73 / 10))"
  shows "score_bar (l, v, hlp) =
           Some \<lparr>row_label = l, row_help = hlp, row_width = lit ''73%'',
                 row_value = lit ''7.3''\<rparr>"
  using assms
proof
  assume a: "v = Num (Fin (73 / 10))"
  show ?thesis
    unfolding a score_bar_finite width_73(1) toFixed1_73(1) by (rule refl)
next
  assume a: "v = Num (round_double (73 / 10))"
  show ?thesis
    unfolding a double_73 score_bar_finite width_73(2) toFixed1_73(2) [unfolded double_73]
    by (rule refl)
qed

lemma aio_text:
  assumes "v = Num (Fin (73 / 10)) \<or> v = Num (round_double (73 / 10))"
  shows "sub_score_text (number_else_0 v) = lit ''7.3''"
  using assms
proof
  assume "v = Num (Fin (73 / 10))"
  then show ?thesis
    using toFixed1_73(1) by (simp add: number_else_0_def sub_score_text_def del: toFixed1.simps)
next
  assume "v = Num (round_double (73 / 10))"
  then have "v = Num (Fin (8219069319951155 / 2 ^ 50))" by (simp only: double_73)
  then show ?thesis
    using toFixed1_73(2) [unfolded double_73]
    by (simp add: number_else_0_def sub_score_text_def del: toFixed1.simps)
qed

subsection \<open>The end-to-end example\<close>

text \<open>
  C7, as the code has it. In a rendering that does not throw:
  \<^verbatim>\<open>score_matrix.final_score = 82\<close> shows \<^verbatim>\<open>82\<close> as the overall score;
  \<^verbatim>\<open>clarity_readability.score = 7.3\<close> shows \<^verbatim>\<open>7.3\<close> as the AIO score,
  which has no bar; the bars are those of \<^verbatim>\<open>score_matrix\<close>, and
  \<^verbatim>\<open>score_matrix.clarity = 7.3\<close> gives the row
  \<^verbatim>\<open>Clarity / readability\<close> the value \<^verbatim>\<open>7.3\<close> and a fill of 73 percent;
  an empty \<^verbatim>\<open>faq_block.recommended_faqs\<close> shows the paragraph
  \<^verbatim>\<open>No FAQ suggestions generated.\<close> The score 7.3 is the double nearest to 7.3,
  which is what the parsed document holds, and the statement covers the real 7.3 as well:
  the product of the double and 10 rounds to 73. On the document of the specification's
  example no bar is 73 percent wide, which is the counterexample to the claim as it was
  stated.
\<close>

theorem end_to_end_rendering:
  assumes "renderResults data p = (None, p')"
  shows "(path data [lit ''score_matrix'', lit ''final_score''] = Num (Fin 82) \<longrightarrow>
            shown (arcScoreEl p') = map_option (\<lambda>_. lit ''82'') (arcScoreEl p))
       \<and> (truthy (path data [lit ''score_matrix''])
            \<and> (path data [lit ''clarity_readability'', lit ''score''] = Num (Fin (73 / 10))
               \<or> path data [lit ''clarity_readability'', lit ''score'']
                    = Num (round_double (73 / 10))) \<longrightarrow>
            shown (scoreAioEl p') = map_option (\<lambda>_. lit ''7.3'') (scoreAioEl p))
       \<and> ((path data [lit ''score_matrix'', lit ''clarity''] = Num (Fin (73 / 10))
             \<or> path data [lit ''score_matrix'', lit ''clarity''] = Num (round_double (73 / 10)))
            \<and> evaluationContent p \<noteq> None \<longrightarrow>
            (\<exists>row. bars_shown (evaluationContent p') ! 6 = Some row
               \<and> row_label row = lit ''Clarity / readability''
               \<and> row_value row = lit ''7.3'' \<and> row_width row = lit ''73%''))
       \<and> (path data [lit ''faq_block'', lit ''recommended_faqs''] = Arr []
            \<and> faqBlockEl p \<noteq> None \<longrightarrow>
            (\<exists>h. faqBlockEl p' = Some (FaqCard h)
               \<and> fq_faqs h = Inl (lit ''No FAQ suggestions generated.'')))"
proof (intro conjI impI)
  have p': "p' = snd (renderResults data p)" using assms by simp
  {
    assume a: "path data [lit ''score_matrix'', lit ''final_score''] = Num (Fin 82)"
    then have "field (field data (lit ''score_matrix'')) (lit ''final_score'') \<noteq> Undefined"
      by simp
    then have "truthy (field data (lit ''score_matrix''))"
      by (rule field_defined_truthy) simp
    then have t: "truthy (path data [lit ''score_matrix''])" by simp
    show "shown (arcScoreEl p') = map_option (\<lambda>_. lit ''82'') (arcScoreEl p)"
      unfolding p' header_after_render(1) [OF t] a
      by (simp add: number_else_0_def Number_toString_82 del: Number_toString.simps)
  }
  {
    assume a: "truthy (path data [lit ''score_matrix''])
            \<and> (path data [lit ''clarity_readability'', lit ''score''] = Num (Fin (73 / 10))
               \<or> path data [lit ''clarity_readability'', lit ''score'']
                    = Num (round_double (73 / 10)))"
    then have t: "truthy (path data [lit ''score_matrix''])"
      and v: "path data [lit ''clarity_readability'', lit ''score''] = Num (Fin (73 / 10))
               \<or> path data [lit ''clarity_readability'', lit ''score'']
                    = Num (round_double (73 / 10))"
      by simp_all
    show "shown (scoreAioEl p') = map_option (\<lambda>_. lit ''7.3'') (scoreAioEl p)"
      unfolding p' header_after_render(2) [OF t] aio_text [OF v] by simp
  }
  {
    assume a: "(path data [lit ''score_matrix'', lit ''clarity''] = Num (Fin (73 / 10))
             \<or> path data [lit ''score_matrix'', lit ''clarity''] = Num (round_double (73 / 10)))
            \<and> evaluationContent p \<noteq> None"
    then have el: "evaluationContent p \<noteq> None"
      and v: "field (field data (lit ''score_matrix'')) (lit ''clarity'') = Num (Fin (73 / 10))
            \<or> field (field data (lit ''score_matrix'')) (lit ''clarity'')
                 = Num (round_double (73 / 10))"
      by simp_all
    then obtain n where n: "field (field data (lit ''score_matrix'')) (lit ''clarity'') = Num n"
      by blast
    have "field (field data (lit ''score_matrix'')) (lit ''clarity'') \<noteq> Undefined"
      using n by simp
    then have "truthy (field data (lit ''score_matrix''))"
      by (rule field_defined_truthy) simp
    then have d: "truthy data" by (rule truthy_field_truthy) simp
    obtain p1 p2 p3 ctx where
      r1: "renderArcRank (field data (lit ''score_matrix'')) (field data (lit ''clarity_readability''))
             (field data (lit ''faq_block'')) (field data (lit ''fanout_query_analysis'')) p
           = (None, p1)"
      and r2: "renderLlmView (field data (lit ''llm_interpretation'')) p1 = (None, p2)"
      and r3: "renderEvaluation ctx p2 = (None, p3)"
      and c: "field ctx (lit ''score_matrix'') = field data (lit ''score_matrix'')"
      and r4: "renderBlocks (field data (lit ''summary_block''))
                 (field data (lit ''definitions_block'')) (field data (lit ''faq_block''))
                 (field data (lit ''canonical_resources_block'')) p3 = (None, p')"
      using renderResults_None [OF d assms] by blast
    have "evaluationContent p2 = evaluationContent p"
      using renderArcRank_containers(1) [of "field data (lit ''score_matrix'')"
              "field data (lit ''clarity_readability'')" "field data (lit ''faq_block'')"
              "field data (lit ''fanout_query_analysis'')" p]
            renderLlmView_containers(1) [of "field data (lit ''llm_interpretation'')" p1] r1 r2
      by simp
    then have "evaluationContent p2 \<noteq> None" using el by simp
    then obtain h where h: "evaluation_template ctx = Inr h"
      and p3: "p3 = p2\<lparr>evaluationContent := Some (EvalCard h)\<rparr>"
      using renderEvaluation_None [OF r3] by blast
    have "evaluationContent p' = evaluationContent p3"
      using renderBlocks_evaluation [of "field data (lit ''summary_block'')"
              "field data (lit ''definitions_block'')" "field data (lit ''faq_block'')"
              "field data (lit ''canonical_resources_block'')" p3] r4
      by simp
    then have shown: "bars_shown (evaluationContent p') = ec_score_bars h"
      using p3 by (simp add: bars_shown_def)
    have "ec_score_bars h ! 6 =
            score_bar (lit ''Clarity / readability'',
                       field (field data (lit ''score_matrix'')) (lit ''clarity''),
                       lit ''Language clarity, flow, and examples.'')"
      using evaluation_template_Inr [OF h] c n
      by (auto simp: scoreRows_def field_lor_obj)
    then show "\<exists>row. bars_shown (evaluationContent p') ! 6 = Some row
               \<and> row_label row = lit ''Clarity / readability''
               \<and> row_value row = lit ''7.3'' \<and> row_width row = lit ''73%''"
      unfolding shown clarity_row [OF v] by simp
  }
  {
    assume a: "path data [lit ''faq_block'', lit ''recommended_faqs''] = Arr []
            \<and> faqBlockEl p \<noteq> None"
    then have v: "field (field data (lit ''faq_block'')) (lit ''recommended_faqs'') = Arr []"
      and el: "faqBlockEl p \<noteq> None" by simp_all
    have "field (field data (lit ''faq_block'')) (lit ''recommended_faqs'') \<noteq> Undefined"
      using v by simp
    then have "truthy (field data (lit ''faq_block''))"
      by (rule field_defined_truthy) simp
    then have d: "truthy data" by (rule truthy_field_truthy) simp
    obtain p1 p2 p3 ctx where
      r1: "renderArcRank (field data (lit ''score_matrix'')) (field data (lit ''clarity_readability''))
             (field data (lit ''faq_block'')) (field data (lit ''fanout_query_analysis'')) p
           = (None, p1)"
      and r2: "renderLlmView (field data (lit ''llm_interpretation'')) p1 = (None, p2)"
      and r3: "renderEvaluation ctx p2 = (None, p3)"
      and r4: "renderBlocks (field data (lit ''summary_block''))
                 (field data (lit ''definitions_block'')) (field data (lit ''faq_block''))
                 (field data (lit ''canonical_resources_block'')) p3 = (None, p')"
      using renderResults_None [OF d assms] by blast
    have "faqBlockEl p3 = faqBlockEl p"
      using renderArcRank_containers(2) [of "field data (lit ''score_matrix'')"
              "field data (lit ''clarity_readability'')" "field data (lit ''faq_block'')"
              "field data (lit ''fanout_query_analysis'')" p]
            renderLlmView_containers(2) [of "field data (lit ''llm_interpretation'')" p1]
            renderEvaluation_faq [of ctx p2] r1 r2 r3
      by simp
    then have "faqBlockEl p3 \<noteq> None" using el by simp
    then obtain h where "faq_template (field data (lit ''faq_block'')) = Inr h"
      and "faqBlockEl p' = Some (FaqCard h)"
      using renderBlocks_faq [OF r4] by blast
    then show "\<exists>h. faqBlockEl p' = Some (FaqCard h)
               \<and> fq_faqs h = Inl (lit ''No FAQ suggestions generated.'')"
      using faq_template_empty [OF _ v] by blast
  }
qed

theorem end_to_end_rendering_witness:
  "renderResults sample_result_with_bar fresh_page
     = (None, snd (renderResults sample_result_with_bar fresh_page))
   \<and> shown (arcScoreEl (snd (renderResults sample_result_with_bar fresh_page))) = Some (lit ''82'')
   \<and> shown (scoreAioEl (snd (renderResults sample_result_with_bar fresh_page))) = Some (lit ''7.3'')
   \<and> (\<exists>row. bars_shown (evaluationContent (snd (renderResults sample_result_with_bar fresh_page))) ! 6
              = Some row
          \<and> row_value row = lit ''7.3'' \<and> row_width row = lit ''73%'')
   \<and> (\<exists>h. faqBlockEl (snd (renderResults sample_result_with_bar fresh_page)) = Some (FaqCard h)
          \<and> fq_faqs h = Inl (lit ''No FAQ suggestions generated.''))"
proof -
  let ?d = sample_result_with_bar
  let ?p = fresh_page
  have r: "renderResults ?d ?p = (None, snd (renderResults ?d ?p))"
    by (simp add: prod_eq_iff js_defs version_a_defs sample_page_def fresh_page_def
        sample_result_with_bar_def)
  have paths: "path ?d [lit ''score_matrix'', lit ''final_score''] = Num (Fin 82)"
    "truthy (path ?d [lit ''score_matrix''])"
    "path ?d [lit ''clarity_readability'', lit ''score''] = Num (round_double (73 / 10))"
    "path ?d [lit ''score_matrix'', lit ''clarity''] = Num (round_double (73 / 10))"
    "path ?d [lit ''faq_block'', lit ''recommended_faqs''] = Arr []"
    by (simp_all add: field_def sample_result_with_bar_def)
  have els: "arcScoreEl ?p = Some \<lparr>score_text = [], score_title = []\<rparr>"
    "scoreAioEl ?p = Some \<lparr>score_text = [], score_title = []\<rparr>"
    "evaluationContent ?p \<noteq> None" "faqBlockEl ?p \<noteq> None"
    by (simp_all add: sample_page_def fresh_page_def)
  show ?thesis
    using r paths els end_to_end_rendering [OF r] by auto
qed

theorem bar_of_sub_score_counterexample:
  "fst (renderResults sample_result sample_page) = None
   \<and> path sample_result [lit ''clarity_readability'', lit ''score''] = Num (round_double (73 / 10))
   \<and> map (map_option row_width)
        (bars_shown (evaluationContent (snd (renderResults sample_result sample_page))))
      = [Some (lit ''0%''), Some (lit ''0%''), Some (lit ''0%''), Some (lit ''0%''),
         Some (lit ''0%''), Some (lit ''0%''), Some (lit ''0%''), Some (lit ''0%'')]
   \<and> lit ''0%'' \<noteq> lit ''73%''"
  by (simp add: js_defs num_defs version_a_defs sample_page_def sample_result_def bars_shown_def
      lit_def)

end
